theory Spec2Isabelle
  imports Main "HOL-Library.Word" "HOL-Library.Sublist"
begin

unbundle bit_operations_syntax

section \<open>Machine integers, byte buffers and messages\<close>

type_synonym u8 = "8 word"
type_synonym u32 = "32 word"
type_synonym u64 = "64 word"

text \<open>
  An argument of a printf-style format, kept unrendered next to its format string.
\<close>

datatype fmt_arg = ARG_STR string | ARG_INT int

text \<open>
  What \<open>WARNING(...)\<close> and \<open>ERROR(...)\<close> print: the format string of the call and its
  arguments.
\<close>

datatype message = WARNING string "fmt_arg list" | ERROR string "fmt_arg list"

text \<open>
  Modelled from the spec: \<open>buffer_io.h\<close> (\<open>get_u8\<close>, \<open>get_u56\<close>, \<open>get_u64\<close>, \<open>put_u8\<close>,
  \<open>put_u56\<close>, \<open>put_u64\<close>) is not among the sources. The spec fixes the widths (7, 1, 8 and
  8 bytes) and that all multibyte integers are little-endian. A pointer \<open>p\<close> into a buffer
  is the list of the bytes from \<open>p\<close> to the end of the buffer; reading needs the bytes to be
  there (the C reads past the buffer otherwise, which is undefined), and a write returns
  the bytes it stores at \<open>p\<close>.
\<close>

fun le_decode :: "u8 list \<Rightarrow> u64" where
  "le_decode [] = 0"
| "le_decode (b # bs) = ucast b OR push_bit 8 (le_decode bs)"

fun le_encode :: "nat \<Rightarrow> u64 \<Rightarrow> u8 list" where
  "le_encode 0 v = []"
| "le_encode (Suc n) v = ucast v # le_encode n (drop_bit 8 v)"

definition get_bytes :: "nat \<Rightarrow> u8 list \<Rightarrow> (u8 list \<times> u64) option" where
  "get_bytes n p = (if length p < n then None else Some (drop n p, le_decode (take n p)))"

definition get_u8 :: "u8 list \<Rightarrow> (u8 list \<times> u8) option" where
  "get_u8 p = (case p of [] \<Rightarrow> None | b # p' \<Rightarrow> Some (p', b))"

definition get_u56 :: "u8 list \<Rightarrow> (u8 list \<times> u64) option" where
  "get_u56 p = get_bytes 7 p"

definition get_u64 :: "u8 list \<Rightarrow> (u8 list \<times> u64) option" where
  "get_u64 p = get_bytes 8 p"

definition put_u8 :: "u8 \<Rightarrow> u8 list" where
  "put_u8 v = [v]"

definition put_u56 :: "u64 \<Rightarrow> u8 list" where
  "put_u56 v = le_encode 7 v"

definition put_u64 :: "u64 \<Rightarrow> u8 list" where
  "put_u64 v = le_encode 8 v"

section \<open>Resource entries (resource.c)\<close>

text \<open>
  \<open>struct resource_entry\<close>: stored size, flags, offset and original (uncompressed) size.
  The field \<open>size\<close> is named \<open>size_field\<close> here and \<open>offset\<close> is \<open>offset_field\<close>, since
  \<open>size\<close> is a constant of HOL and \<open>offset\<close> is a parameter name of the readers below.
\<close>

record resource_entry =
  size_field :: u64
  flags :: u8
  offset_field :: u64
  original_size :: u64

text \<open>
  \<open>get_resource_entry\<close>: parses the 24-byte on-disk entry at \<open>p\<close>. It returns the pointer
  behind the entry, the entry, and the warnings it printed.
\<close>

definition get_resource_entry ::
    "u8 list \<Rightarrow> (u8 list \<times> resource_entry \<times> message list) option" where
  "get_resource_entry p =
     (case get_u56 p of None \<Rightarrow> None | Some (p1, size0) \<Rightarrow>
      case get_u8 p1 of None \<Rightarrow> None | Some (p2, flags0) \<Rightarrow>
      case get_u64 p2 of None \<Rightarrow> None | Some (p3, offset0) \<Rightarrow>
        let (offset1, w1) =
              (if offset0 AND 0xc000000000000000 \<noteq> 0
               then (offset0 AND 0x3fffffffffffffff,
                     [WARNING ''Truncating offset in resource entry'' []])
               else (offset0, []))
        in
      case get_u64 p3 of None \<Rightarrow> None | Some (p4, original_size0) \<Rightarrow>
        let (original_size1, w2) =
              (if original_size0 AND 0xc000000000000000 \<noteq> 0
               then (original_size0 AND 0x3fffffffffffffff,
                     [WARNING ''Truncating original_size in resource entry'' []])
               else (original_size0, []))
        in Some (p4,
                 \<lparr>size_field = size0, flags = flags0, offset_field = offset1,
                  original_size = original_size1\<rparr>,
                 w1 @ w2))"

text \<open>
  \<open>put_resource_entry\<close>: the bytes written at \<open>p\<close>; the returned pointer is \<open>p\<close> advanced
  by their number.
\<close>

definition put_resource_entry :: "resource_entry \<Rightarrow> u8 list" where
  "put_resource_entry entry =
     put_u56 (size_field entry) @ put_u8 (flags entry) @
     put_u64 (offset_field entry) @ put_u64 (original_size entry)"

section \<open>Files and library calls\<close>

text \<open>
  The error codes of \<open>wimlib.h\<close> that the modelled functions return. The C functions
  return \<open>0\<close> on success; the model returns \<open>Inr\<close> with what the function produced.
\<close>

datatype wimlib_error =
    WIMLIB_ERR_DECOMPRESSION
  | WIMLIB_ERR_INVALID_RESOURCE_HASH
  | WIMLIB_ERR_NOMEM
  | WIMLIB_ERR_NTFS_3G
  | WIMLIB_ERR_OPEN
  | WIMLIB_ERR_READ
  | WIMLIB_ERR_STAT
  | WIMLIB_ERR_WRITE

text \<open>
  How a call can fail: it returns an error code, it stops in a failed \<open>wimlib_assert\<close>
  (the model is of a build with assertions enabled), or it leaves defined C behaviour
  (an access outside an array).
\<close>

datatype failure = RETURNED wimlib_error | ASSERTION_FAILED | UNDEFINED_BEHAVIOUR

text \<open>
  A \<open>FILE *\<close> open for reading: the bytes of the file and the file position. A read
  fails only by reaching the end of the file. Every reader below first seeks to an
  absolute position, so the position a reader leaves behind is not returned.
\<close>

record FILE =
  contents :: "u8 list"
  file_pos :: nat

text \<open>\<open>fseeko(fp, off, SEEK_SET)\<close>; the \<open>u64\<close> argument becomes a signed \<open>off_t\<close>.\<close>

definition fseeko_set :: "FILE \<Rightarrow> u64 \<Rightarrow> FILE option" where
  "fseeko_set fp off =
     (if 2 ^ 63 \<le> unat off then None else Some (fp\<lparr>file_pos := unat off\<rparr>))"

text \<open>\<open>fseeko(fp, off, SEEK_CUR)\<close>.\<close>

definition fseeko_cur :: "FILE \<Rightarrow> u64 \<Rightarrow> FILE option" where
  "fseeko_cur fp off =
     (if 2 ^ 63 \<le> unat off \<or> 2 ^ 63 \<le> file_pos fp + unat off then None
      else Some (fp\<lparr>file_pos := file_pos fp + unat off\<rparr>))"

text \<open>\<open>fread(buf, 1, n, fp)\<close>: the bytes read (fewer than \<open>n\<close> at the end of the file).\<close>

definition fread :: "FILE \<Rightarrow> nat \<Rightarrow> u8 list \<times> FILE" where
  "fread fp n =
     (let got = take n (drop (file_pos fp) (contents fp))
      in (got, fp\<lparr>file_pos := file_pos fp + length got\<rparr>))"

text \<open>
  The library calls a reader makes, in order; \<open>CHUNK i\<close> is the start of the loop body
  for chunk \<open>i\<close> (where the C prints \<open>DEBUG2("Chunk %PRIu64 ...")\<close>).
\<close>

datatype io_event =
    FSEEKO_SET u64
  | FSEEKO_CUR u64
  | FREAD nat
  | CHUNK nat
  | DECOMPRESS nat nat

text \<open>
  \<open>lzx_decompress\<close> and \<open>xpress_decompress\<close> (\<open>lzx.h\<close>, \<open>xpress.h\<close>) are not among the
  sources and are parameters: from the compressed bytes and the expected uncompressed
  length to the uncompressed bytes, or \<open>None\<close> for a nonzero return.
\<close>

type_synonym decompress_fn = "u8 list \<Rightarrow> nat \<Rightarrow> u8 list option"

datatype compression_type =
    WIMLIB_COMPRESSION_TYPE_NONE
  | WIMLIB_COMPRESSION_TYPE_LZX
  | WIMLIB_COMPRESSION_TYPE_XPRESS

section \<open>Reading compressed resources (resource.c)\<close>

definition WIM_CHUNK_SIZE :: u64 where
  "WIM_CHUNK_SIZE = 32768"

text \<open>The width of a chunk table entry: \<open>(resource_uncompressed_size >= (u64)1 << 32) ? 8 : 4\<close>.\<close>

definition chunk_entry_size :: "u64 \<Rightarrow> u64" where
  "chunk_entry_size resource_uncompressed_size =
     (if push_bit 32 1 \<le> resource_uncompressed_size then 8 else 4)"

text \<open>Reading an array element; \<open>None\<close> outside the array.\<close>

definition array_get :: "'a list \<Rightarrow> u64 \<Rightarrow> 'a option" where
  "array_get xs k = (if unat k < length xs then Some (xs ! unat k) else None)"

text \<open>
  \<open>while (num_needed_chunk_entries--) *chunk_tab_p++ = le32_to_cpu(*entries++);\<close> and its
  64-bit twin: \<open>n\<close> entries of \<open>w\<close> bytes each from the buffer.
\<close>

fun read_entries :: "nat \<Rightarrow> nat \<Rightarrow> u8 list \<Rightarrow> u64 list" where
  "read_entries w 0 buf = []"
| "read_entries w (Suc n) buf = le_decode (take w buf) # read_entries w n (drop w buf)"

text \<open>
  The local variables of \<open>read_compressed_resource\<close> that its chunk loop reads and does
  not change.
\<close>

record chunk_reader =
  decompress :: decompress_fn
  resource_compressed_size :: u64
  resource_uncompressed_size :: u64
  num_chunks :: u64
  chunk_table_size :: u64
  start_chunk :: u64
  start_chunk_offset :: u64
  end_chunk :: u64
  end_chunk_offset :: u64
  chunk_offsets :: "u64 list"

text \<open>
  The sizes of chunk \<open>i\<close>, both of C type \<open>unsigned\<close>: the compressed size from the chunk
  offsets (the 64-bit difference cut to 32 bits) and the uncompressed size. \<open>None\<close> when
  an index is outside \<open>chunk_offsets\<close>.
\<close>

definition chunk_sizes :: "chunk_reader \<Rightarrow> u64 \<Rightarrow> (u32 \<times> u32) option" where
  "chunk_sizes r i =
     (if i \<noteq> num_chunks r - 1 then
        (case array_get (chunk_offsets r) (i + 1 - start_chunk r) of None \<Rightarrow> None
         | Some next_offset \<Rightarrow>
        (case array_get (chunk_offsets r) (i - start_chunk r) of None \<Rightarrow> None
         | Some this_offset \<Rightarrow>
             Some (ucast (next_offset - this_offset), ucast WIM_CHUNK_SIZE)))
      else
        (case array_get (chunk_offsets r) (i - start_chunk r) of None \<Rightarrow> None
         | Some this_offset \<Rightarrow>
             Some (ucast (resource_compressed_size r - chunk_table_size r - this_offset),
                   (let uncompressed_chunk_size =
                          (ucast (resource_uncompressed_size r mod WIM_CHUNK_SIZE) :: u32)
                    in if uncompressed_chunk_size = 0 then ucast WIM_CHUNK_SIZE
                       else uncompressed_chunk_size))))"

text \<open>
  The branch of the loop body for a chunk stored uncompressed (compressed size equal to
  uncompressed size), with the file positioned at the start of the chunk: skip
  \<open>start_offset\<close> bytes, then read \<open>partial_chunk_size\<close> bytes to \<open>out_p\<close>. It gives the
  library calls made, and either the failure or the file and the bytes stored at \<open>out_p\<close>.
\<close>

definition read_stored_chunk ::
    "FILE \<Rightarrow> u64 \<Rightarrow> u64 \<Rightarrow> io_event list \<times> (failure + FILE \<times> u8 list)" where
  "read_stored_chunk fp start_offset partial_chunk_size =
     (case (if start_offset \<noteq> 0
            then ([FSEEKO_CUR start_offset], fseeko_cur fp start_offset)
            else ([], Some fp)) of
        (seeks, None) \<Rightarrow> (seeks, Inl (RETURNED WIMLIB_ERR_READ))
      | (seeks, Some fp1) \<Rightarrow>
          (case fread fp1 (unat partial_chunk_size) of
             (got, fp2) \<Rightarrow>
               if length got \<noteq> unat partial_chunk_size
               then (seeks @ [FREAD (unat partial_chunk_size)], Inl (RETURNED WIMLIB_ERR_READ))
               else (seeks @ [FREAD (unat partial_chunk_size)], Inr (fp2, got))))"

text \<open>
  The branch for a compressed chunk. The compressed bytes are read into \<open>compressed_buf\<close>,
  an array of \<open>WIM_CHUNK_SIZE - 1\<close> bytes: a read that stores more bytes than that writes
  outside the array. A partial chunk is decompressed into a buffer of its own and the
  needed part copied to \<open>out_p\<close>; a whole chunk is decompressed to \<open>out_p\<close>.
\<close>

definition read_compressed_chunk ::
    "decompress_fn \<Rightarrow> FILE \<Rightarrow> u32 \<Rightarrow> u32 \<Rightarrow> u64 \<Rightarrow> u64 \<Rightarrow> bool \<Rightarrow>
     io_event list \<times> (failure + FILE \<times> u8 list)" where
  "read_compressed_chunk decompress0 fp compressed_chunk_size uncompressed_chunk_size
       start_offset partial_chunk_size is_partial_chunk =
     (case fread fp (unat compressed_chunk_size) of
        (compressed_buf, fp1) \<Rightarrow>
          if unat (WIM_CHUNK_SIZE - 1) < length compressed_buf
          then ([FREAD (unat compressed_chunk_size)], Inl UNDEFINED_BEHAVIOUR)
          else if length compressed_buf \<noteq> unat compressed_chunk_size
          then ([FREAD (unat compressed_chunk_size)], Inl (RETURNED WIMLIB_ERR_READ))
          else
            (case decompress0 compressed_buf (unat uncompressed_chunk_size) of
               None \<Rightarrow>
                 ([FREAD (unat compressed_chunk_size),
                   DECOMPRESS (unat compressed_chunk_size) (unat uncompressed_chunk_size)],
                  Inl (RETURNED WIMLIB_ERR_DECOMPRESSION))
             | Some uncompressed_buf \<Rightarrow>
                 ([FREAD (unat compressed_chunk_size),
                   DECOMPRESS (unat compressed_chunk_size) (unat uncompressed_chunk_size)],
                  Inr (fp1,
                       if is_partial_chunk
                       then take (unat partial_chunk_size)
                              (drop (unat start_offset) uncompressed_buf)
                       else uncompressed_buf))))"

text \<open>
  The body of the chunk loop for chunk \<open>i\<close>: the sizes of the chunk, the part of it that
  is needed, and one of the two branches.
\<close>

definition read_chunk ::
    "chunk_reader \<Rightarrow> u64 \<Rightarrow> FILE \<Rightarrow> io_event list \<times> (failure + FILE \<times> u8 list)" where
  "read_chunk r i fp =
     (case chunk_sizes r i of
        None \<Rightarrow> ([CHUNK (unat i)], Inl UNDEFINED_BEHAVIOUR)
      | Some (compressed_chunk_size, uncompressed_chunk_size) \<Rightarrow>
          let start_offset = (if i = start_chunk r then start_chunk_offset r else 0);
              end_offset = (if i = end_chunk r then end_chunk_offset r else WIM_CHUNK_SIZE - 1);
              partial_chunk_size = end_offset + 1 - start_offset;
              is_partial_chunk = (partial_chunk_size \<noteq> ucast uncompressed_chunk_size);
              (calls, result) =
                (if compressed_chunk_size = uncompressed_chunk_size
                 then read_stored_chunk fp start_offset partial_chunk_size
                 else read_compressed_chunk (decompress r) fp compressed_chunk_size
                        uncompressed_chunk_size start_offset partial_chunk_size
                        is_partial_chunk)
          in (CHUNK (unat i) # calls, result))"

text \<open>
  \<open>for (u64 i = start_chunk; i <= end_chunk; i++)\<close>, with the output written so far and
  the calls made so far. The measure of the termination proof is the distance to
  \<open>end_chunk\<close>; the loop of the C does not end when \<open>end_chunk\<close> is \<open>2^64 - 1\<close>, which a
  quotient by \<open>WIM_CHUNK_SIZE\<close> never is, and the model stops there.
\<close>

function chunk_loop ::
    "chunk_reader \<Rightarrow> u64 \<Rightarrow> FILE \<Rightarrow> u8 list \<Rightarrow> io_event list \<Rightarrow>
     io_event list \<times> (failure + u8 list)" where
  "chunk_loop r i fp out events =
     (if i \<le> end_chunk r then
        (case read_chunk r i fp of
           (calls, Inl e) \<Rightarrow> (events @ calls, Inl e)
         | (calls, Inr (fp', bytes)) \<Rightarrow>
             if i = - 1 then (events @ calls, Inr (out @ bytes))
             else chunk_loop r (i + 1) fp' (out @ bytes) (events @ calls))
      else (events, Inr out))"
  by pat_completeness auto
termination
proof (relation "measure (\<lambda>(r, i, fp, out, events). Suc (unat (end_chunk r)) - unat i)")
  show "wf (measure (\<lambda>(r, i, fp, out, events). Suc (unat (end_chunk r)) - unat i))"
    by simp
next
  fix r :: chunk_reader and i :: u64 and fp :: FILE and out :: "u8 list"
    and events :: "io_event list" and x y x2 xa ya
  assume le: "i \<le> end_chunk r" and ne: "i \<noteq> - 1"
  have "unat i < 2 ^ 64 - 1"
  proof -
    have "unat i < 2 ^ 64" using unsigned_less [of i] by simp
    moreover have "unat i \<noteq> 2 ^ 64 - 1"
    proof
      assume "unat i = 2 ^ 64 - 1"
      then have "unat i = unat (- 1 :: u64)" by (simp add: unsigned_minus_1_eq_mask mask_eq_exp_minus_1)
      then have "i = - 1" by (rule unsigned_word_eqI)
      then show False using ne by simp
    qed
    ultimately show ?thesis by simp
  qed
  then have "unat (i + 1) = unat i + 1"
    by (simp add: unat_word_ariths)
  moreover have "unat i \<le> unat (end_chunk r)" using le by (simp add: word_le_nat_alt)
  ultimately show "((r, i + 1, x2, out @ ya, events @ x), r, i, fp, out, events)
      \<in> measure (\<lambda>(r, i, fp, out, events). Suc (unat (end_chunk r)) - unat i)"
    by simp
qed

text \<open>
  \<open>read_compressed_resource\<close>: reads \<open>len\<close> bytes at \<open>offset\<close> of the uncompressed data of
  a compressed resource. It gives the library calls made and the bytes written to
  \<open>contents_ret\<close>. The arrays \<open>chunk_offsets\<close> and \<open>chunk_tab_buf\<close> are variable-length
  arrays on the stack in the C; the model gives them any length.
\<close>

definition read_compressed_resource ::
    "decompress_fn \<Rightarrow> decompress_fn \<Rightarrow> FILE \<Rightarrow> u64 \<Rightarrow> u64 \<Rightarrow> u64 \<Rightarrow> compression_type \<Rightarrow>
     u64 \<Rightarrow> u64 \<Rightarrow> io_event list \<times> (failure + u8 list)" where
  "read_compressed_resource lzx_decompress xpress_decompress fp resource_compressed_size0
       resource_uncompressed_size0 resource_offset resource_ctype len offs =
     (if len = 0 then ([], Inr [])
      else
        let decompress0 = (if resource_ctype = WIMLIB_COMPRESSION_TYPE_LZX
                           then lzx_decompress else xpress_decompress);
            num_chunks0 = (resource_uncompressed_size0 + WIM_CHUNK_SIZE - 1) div WIM_CHUNK_SIZE;
            num_chunk_entries = num_chunks0 - 1;
            start_chunk0 = offs div WIM_CHUNK_SIZE;
            start_chunk_offset0 = offs mod WIM_CHUNK_SIZE;
            end_chunk0 = (offs + len - 1) div WIM_CHUNK_SIZE;
            end_chunk_offset0 = (offs + len - 1) mod WIM_CHUNK_SIZE;
            num_needed_chunks =
              end_chunk0 - start_chunk0 + 1 + (if end_chunk0 \<noteq> num_chunks0 - 1 then 1 else 0);
            entry_size = chunk_entry_size resource_uncompressed_size0;
            chunk_table_size0 = entry_size * num_chunk_entries;
            start_table_idx = (if start_chunk0 = 0 then 0 else start_chunk0 - 1);
            num_needed_chunk_entries =
              (if start_chunk0 = 0 then num_needed_chunks - 1 else num_needed_chunks);
            file_offset_of_needed_chunk_entries = resource_offset + start_table_idx * entry_size
        in
        case fseeko_set fp file_offset_of_needed_chunk_entries of
          None \<Rightarrow> ([FSEEKO_SET file_offset_of_needed_chunk_entries],
                    Inl (RETURNED WIMLIB_ERR_READ))
        | Some fp1 \<Rightarrow>
            let size0 = num_needed_chunk_entries * entry_size;
                (chunk_tab_buf, fp2) = fread fp1 (unat size0);
                table_calls = [FSEEKO_SET file_offset_of_needed_chunk_entries, FREAD (unat size0)]
            in
            if length chunk_tab_buf \<noteq> unat size0
            then (table_calls, Inl (RETURNED WIMLIB_ERR_READ))
            else
              let chunk_offsets0 =
                    (if start_chunk0 = 0 then [0] else []) @
                    read_entries (unat entry_size) (unat num_needed_chunk_entries) chunk_tab_buf
              in
              case array_get chunk_offsets0 0 of
                None \<Rightarrow> (table_calls, Inl UNDEFINED_BEHAVIOUR)
              | Some first_offset \<Rightarrow>
                  let file_offset_of_first_needed_chunk =
                        resource_offset + chunk_table_size0 + first_offset;
                      calls = table_calls @ [FSEEKO_SET file_offset_of_first_needed_chunk]
                  in
                  case fseeko_set fp2 file_offset_of_first_needed_chunk of
                    None \<Rightarrow> (calls, Inl (RETURNED WIMLIB_ERR_READ))
                  | Some fp3 \<Rightarrow>
                      chunk_loop
                        \<lparr>decompress = decompress0,
                         resource_compressed_size = resource_compressed_size0,
                         resource_uncompressed_size = resource_uncompressed_size0,
                         num_chunks = num_chunks0,
                         chunk_table_size = chunk_table_size0,
                         start_chunk = start_chunk0,
                         start_chunk_offset = start_chunk_offset0,
                         end_chunk = end_chunk0,
                         end_chunk_offset = end_chunk_offset0,
                         chunk_offsets = chunk_offsets0\<rparr>
                        start_chunk0 fp3 [] calls)"

text \<open>\<open>read_uncompressed_resource\<close>: seek and bulk read.\<close>

definition read_uncompressed_resource :: "FILE \<Rightarrow> u64 \<Rightarrow> u64 \<Rightarrow> failure + u8 list" where
  "read_uncompressed_resource fp offs len =
     (case fseeko_set fp offs of
        None \<Rightarrow> Inl (RETURNED WIMLIB_ERR_READ)
      | Some fp1 \<Rightarrow>
          let (got, fp2) = fread fp1 (unat len)
          in if length got \<noteq> unat len then Inl (RETURNED WIMLIB_ERR_READ) else Inr got)"

section \<open>Lookup table entries and extraction (resource.c)\<close>

datatype resource_location =
    RESOURCE_NONEXISTENT
  | RESOURCE_IN_WIM
  | RESOURCE_IN_FILE_ON_DISK
  | RESOURCE_IN_STAGING_FILE
  | RESOURCE_IN_ATTACHED_BUFFER
  | RESOURCE_IN_NTFS_VOLUME

text \<open>\<open>struct ntfs_location\<close>, without the pointer to the volume.\<close>

record ntfs_location =
  path_utf8 :: string
  stream_name_utf16 :: "u8 list"
  stream_name_utf16_num_chars :: nat
  is_reparse_point :: bool

text \<open>
  \<open>struct wim_lookup_table_entry\<close>, as far as the modelled functions read it. A pointer
  that may be \<open>NULL\<close> is an option. \<open>wim_fp\<close> is \<open>lte->wim->fp\<close> and \<open>wim_ctype\<close> is
  \<open>wimlib_get_compression_type(lte->wim)\<close>; \<open>attr\<close> is the data of the open NTFS
  attribute \<open>lte->attr\<close>.
\<close>

record wim_lookup_table_entry =
  resource_entry :: resource_entry
  resource_location :: resource_location
  hash :: "u8 list"
  refcnt :: u32
  part_number :: u32
  wim_fp :: "FILE option"
  wim_ctype :: compression_type
  file_on_disk :: "string option"
  file_on_disk_fp :: "FILE option"
  attached_buffer :: "u8 list option"
  ntfs_loc :: "ntfs_location option"
  attr :: "u8 list option"

text \<open>
  The library functions that are not among the sources and that the readers call: the two
  decompressors, the SHA-1 digest of a byte sequence (\<open>sha1_buffer\<close> of \<open>sha1.h\<close>) and \<open>tfopen(path, "rb")\<close>.
\<close>

record externals =
  lzx_decompress :: decompress_fn
  xpress_decompress :: decompress_fn
  sha1_buffer :: "u8 list \<Rightarrow> u8 list"
  tfopen :: "string \<Rightarrow> FILE option"

text \<open>
  Modelled from the spec: \<open>sha1_init\<close>, \<open>sha1_update\<close> and \<open>sha1_final\<close> (\<open>sha1.h\<close>) are not
  among the sources. The spec speaks of the SHA-1 over the output: the context holds the
  bytes fed so far and the final digest is the SHA-1 of them.
\<close>

definition sha1_init :: "u8 list" where
  "sha1_init = []"

definition sha1_update :: "u8 list \<Rightarrow> u8 list \<Rightarrow> u8 list" where
  "sha1_update ctx buf = ctx @ buf"

definition sha1_final :: "externals \<Rightarrow> u8 list \<Rightarrow> u8 list" where
  "sha1_final ext ctx = sha1_buffer ext ctx"

text \<open>
  Modelled from the spec: \<open>wim_resource_size\<close> and \<open>wim_resource_compression_type\<close>
  (\<open>lookup_table.h\<close>) are not among the sources. The size of a resource is its original
  (uncompressed) size; bit 2 of the flags of the resource entry says that the resource is
  compressed, with the codec of the archive.
\<close>

definition wim_resource_size :: "wim_lookup_table_entry \<Rightarrow> u64" where
  "wim_resource_size lte = original_size (resource_entry lte)"

definition WIM_RESHDR_FLAG_COMPRESSED :: u8 where
  "WIM_RESHDR_FLAG_COMPRESSED = 0x04"

definition wim_resource_compression_type :: "wim_lookup_table_entry \<Rightarrow> compression_type" where
  "wim_resource_compression_type lte =
     (if flags (resource_entry lte) AND WIM_RESHDR_FLAG_COMPRESSED = 0
      then WIMLIB_COMPRESSION_TYPE_NONE else wim_ctype lte)"

datatype resource_flag = WIMLIB_RESOURCE_FLAG_RAW | WIMLIB_RESOURCE_FLAG_MULTITHREADED

text \<open>
  \<open>read_wim_resource\<close>, built without \<open>WITH_FUSE\<close> and without \<open>__WIN32__\<close>, with
  \<open>WITH_NTFS_3G\<close>. \<open>flags & F\<close> is membership of \<open>F\<close> in the list of flags. It gives the
  bytes written to \<open>buf\<close>.
\<close>

definition read_wim_resource ::
    "externals \<Rightarrow> wim_lookup_table_entry \<Rightarrow> u64 \<Rightarrow> u64 \<Rightarrow> resource_flag list \<Rightarrow>
     failure + u8 list" where
  "read_wim_resource ext lte size0 offs rflags =
     (if \<not> (if WIMLIB_RESOURCE_FLAG_RAW \<in> set rflags
             then offs + size0 \<le> size_field (resource_entry lte)
             else offs + size0 \<le> original_size (resource_entry lte))
      then Inl ASSERTION_FAILED
      else
        (case resource_location lte of
           RESOURCE_IN_WIM \<Rightarrow>
             (case wim_fp lte of
                None \<Rightarrow> Inl ASSERTION_FAILED
              | Some fp \<Rightarrow>
                  if WIMLIB_RESOURCE_FLAG_MULTITHREADED \<in> set rflags then Inl ASSERTION_FAILED
                  else
                    let ctype = wim_resource_compression_type lte in
                    if \<not> (ctype \<noteq> WIMLIB_COMPRESSION_TYPE_NONE \<or>
                            original_size (resource_entry lte) = size_field (resource_entry lte))
                    then Inl ASSERTION_FAILED
                    else if WIMLIB_RESOURCE_FLAG_RAW \<in> set rflags \<or>
                            ctype = WIMLIB_COMPRESSION_TYPE_NONE
                    then read_uncompressed_resource fp
                           (offset_field (resource_entry lte) + offs) size0
                    else snd (read_compressed_resource (lzx_decompress ext)
                                (xpress_decompress ext) fp
                                (size_field (resource_entry lte))
                                (original_size (resource_entry lte))
                                (offset_field (resource_entry lte))
                                ctype size0 offs))
         | RESOURCE_IN_STAGING_FILE \<Rightarrow>
             (case file_on_disk lte of
                None \<Rightarrow> Inl ASSERTION_FAILED
              | Some path \<Rightarrow>
                  (case file_on_disk_fp lte of
                     Some fp \<Rightarrow> read_uncompressed_resource fp offs size0
                   | None \<Rightarrow>
                       (case tfopen ext path of
                          None \<Rightarrow> Inl (RETURNED WIMLIB_ERR_OPEN)
                        | Some fp \<Rightarrow> read_uncompressed_resource fp offs size0)))
         | RESOURCE_IN_FILE_ON_DISK \<Rightarrow>
             (case file_on_disk lte of
                None \<Rightarrow> Inl ASSERTION_FAILED
              | Some path \<Rightarrow>
                  (case file_on_disk_fp lte of
                     Some fp \<Rightarrow> read_uncompressed_resource fp offs size0
                   | None \<Rightarrow>
                       (case tfopen ext path of
                          None \<Rightarrow> Inl (RETURNED WIMLIB_ERR_OPEN)
                        | Some fp \<Rightarrow> read_uncompressed_resource fp offs size0)))
         | RESOURCE_IN_ATTACHED_BUFFER \<Rightarrow>
             (case attached_buffer lte of
                None \<Rightarrow> Inl ASSERTION_FAILED
              | Some buffer \<Rightarrow>
                  if length buffer < unat offs + unat size0 then Inl UNDEFINED_BEHAVIOUR
                  else Inr (take (unat size0) (drop (unat offs) buffer)))
         | RESOURCE_IN_NTFS_VOLUME \<Rightarrow>
             (case ntfs_loc lte of
                None \<Rightarrow> Inl ASSERTION_FAILED
              | Some loc \<Rightarrow>
                  (case attr lte of
                     None \<Rightarrow> Inl ASSERTION_FAILED
                   | Some data \<Rightarrow>
                       let offs1 = (if is_reparse_point loc then offs + 8 else offs);
                           got = take (unat size0) (drop (unat offs1) data)
                       in if length got \<noteq> unat size0 then Inl (RETURNED WIMLIB_ERR_NTFS_3G)
                          else Inr got))
         | RESOURCE_NONEXISTENT \<Rightarrow> Inl ASSERTION_FAILED))"

text \<open>
  The \<open>while (bytes_remaining)\<close> loop of \<open>extract_wim_resource\<close>. \<open>extract_chunk\<close> gets the
  buffer, the offset and its argument, and returns an error code or its argument as the
  call left it. The loop gives the SHA-1 context and the argument of \<open>extract_chunk\<close>
  when it ends; when it does not end, the value is \<open>None\<close>.
\<close>

partial_function (option) extract_loop ::
    "externals \<Rightarrow> wim_lookup_table_entry \<Rightarrow> u64 \<Rightarrow> bool \<Rightarrow>
     (u8 list \<Rightarrow> u64 \<Rightarrow> 'a \<Rightarrow> wimlib_error + 'a) \<Rightarrow> u64 \<Rightarrow> u64 \<Rightarrow> u8 list \<Rightarrow> 'a \<Rightarrow>
     (failure + u8 list \<times> 'a) option" where
  "extract_loop ext lte sizeof_buf check_hash extract_chunk bytes_remaining offs ctx
       extract_chunk_arg =
     (if bytes_remaining \<noteq> 0 then
        (case read_wim_resource ext lte (min bytes_remaining sizeof_buf) offs [] of
           Inl e \<Rightarrow> Some (Inl e)
         | Inr buf \<Rightarrow>
             (case extract_chunk buf offs extract_chunk_arg of
                Inl e \<Rightarrow> Some (Inl (RETURNED e))
              | Inr arg1 \<Rightarrow>
                  extract_loop ext lte sizeof_buf check_hash extract_chunk
                    (bytes_remaining - min bytes_remaining sizeof_buf)
                    (offs + min bytes_remaining sizeof_buf)
                    (if check_hash then sha1_update ctx buf else ctx) arg1))
      else Some (Inr (ctx, extract_chunk_arg)))"

text \<open>
  The loop from the initial state of \<open>extract_wim_resource\<close>: the buffer has
  \<open>min(WIM_CHUNK_SIZE, size)\<close> bytes and the hash is checked when the full resource is
  extracted.
\<close>

definition extract_chunks ::
    "externals \<Rightarrow> wim_lookup_table_entry \<Rightarrow> u64 \<Rightarrow>
     (u8 list \<Rightarrow> u64 \<Rightarrow> 'a \<Rightarrow> wimlib_error + 'a) \<Rightarrow> 'a \<Rightarrow>
     (failure + u8 list \<times> 'a) option" where
  "extract_chunks ext lte size0 extract_chunk extract_chunk_arg =
     extract_loop ext lte (min WIM_CHUNK_SIZE size0) (size0 = wim_resource_size lte)
       extract_chunk size0 0 sha1_init extract_chunk_arg"

text \<open>
  \<open>extract_wim_resource\<close>: extracts the first \<open>size\<close> bytes of the resource through
  \<open>extract_chunk\<close>. It gives the argument of \<open>extract_chunk\<close> as the last call left it.
\<close>

definition extract_wim_resource ::
    "externals \<Rightarrow> wim_lookup_table_entry \<Rightarrow> u64 \<Rightarrow>
     (u8 list \<Rightarrow> u64 \<Rightarrow> 'a \<Rightarrow> wimlib_error + 'a) \<Rightarrow> 'a \<Rightarrow> (failure + 'a) option" where
  "extract_wim_resource ext lte size0 extract_chunk extract_chunk_arg =
     (case extract_chunks ext lte size0 extract_chunk extract_chunk_arg of
        None \<Rightarrow> None
      | Some (Inl e) \<Rightarrow> Some (Inl e)
      | Some (Inr (ctx, arg1)) \<Rightarrow>
          if size0 = wim_resource_size lte then
            (if sha1_final ext ctx \<noteq> hash lte
             then Some (Inl (RETURNED WIMLIB_ERR_INVALID_RESOURCE_HASH))
             else Some (Inr arg1))
          else Some (Inr arg1))"

text \<open>
  The \<open>extract_chunk\<close> that appends what it gets to a byte sequence: its argument at the
  end is all that was extracted.
\<close>

definition collect_chunk :: "u8 list \<Rightarrow> u64 \<Rightarrow> u8 list \<Rightarrow> wimlib_error + u8 list" where
  "collect_chunk buf offs extracted = Inr (extracted @ buf)"

section \<open>The lookup table during capture (modify.c, ntfs-capture.c)\<close>

text \<open>
  Modelled from the spec: \<open>lookup_table.c\<close> (\<open>lookup_resource\<close>, \<open>__lookup_resource\<close>,
  \<open>lookup_table_insert\<close>, \<open>new_lookup_table_entry\<close>) is not among the sources. The spec
  describes the table as a hash-addressed map from the SHA-1 to the entry, and a new
  entry as having the reference count 1. The table is the list of its entries, the last
  inserted first; a lookup gives the first entry with the hash. A pointer to an entry of
  the table is the entry's hash, and a write through the pointer changes the entry in
  the table.
\<close>

type_synonym lookup_table = "wim_lookup_table_entry list"

definition lookup_resource :: "lookup_table \<Rightarrow> u8 list \<Rightarrow> wim_lookup_table_entry option" where
  "lookup_resource table h = find (\<lambda>lte. hash lte = h) table"

definition lookup_table_insert :: "lookup_table \<Rightarrow> wim_lookup_table_entry \<Rightarrow> lookup_table" where
  "lookup_table_insert table lte = lte # table"

definition new_lookup_table_entry :: wim_lookup_table_entry where
  "new_lookup_table_entry =
     \<lparr>resource_entry = \<lparr>size_field = 0, flags = 0, offset_field = 0, original_size = 0\<rparr>,
      resource_location = RESOURCE_NONEXISTENT, hash = replicate 20 0, refcnt = 1,
      part_number = 0, wim_fp = None, wim_ctype = WIMLIB_COMPRESSION_TYPE_NONE,
      file_on_disk = None, file_on_disk_fp = None, attached_buffer = None, ntfs_loc = None,
      attr = None\<rparr>"

text \<open>\<open>lte->refcnt++\<close> for the entry that the lookup of \<open>h\<close> returned.\<close>

fun increment_refcnt :: "u8 list \<Rightarrow> lookup_table \<Rightarrow> lookup_table" where
  "increment_refcnt h [] = []"
| "increment_refcnt h (lte # table) =
     (if hash lte = h then lte\<lparr>refcnt := refcnt lte + 1\<rparr> # table
      else lte # increment_refcnt h table)"

text \<open>
  The state that capture changes: the lookup table, and the number of allocations
  (\<open>MALLOC\<close>, \<open>CALLOC\<close>, \<open>STRDUP\<close>, \<open>new_lookup_table_entry\<close>) that will still succeed, an
  allocation after that giving \<open>NULL\<close>.
\<close>

record capture_state =
  lookup_table :: lookup_table
  allocations_left :: nat

definition allocate :: "capture_state \<Rightarrow> capture_state option" where
  "allocate st =
     (if allocations_left st = 0 then None
      else Some (st\<lparr>allocations_left := allocations_left st - 1\<rparr>))"

subsection \<open>\<open>build_dentry_tree\<close> (modify.c)\<close>

text \<open>
  The directory tree on disk: for a file that is not a directory, what reading it for
  \<open>sha1sum\<close> gives (an error code or its bytes; \<open>st_size\<close> is their number); for a
  directory, whether \<open>opendir\<close> succeeds and then the names that \<open>readdir\<close> gives, each
  with the file it names when \<open>stat\<close> succeeds on it.
\<close>

datatype posix_file =
    NON_DIRECTORY "wimlib_error + u8 list"
  | DIRECTORY "(string \<times> posix_file option) list option"

text \<open>A dentry: name, directory attribute, hash, children.\<close>

datatype dentry = DENTRY string bool "u8 list" "dentry list"

text \<open>
  \<open>build_dentry_tree\<close>, and the \<open>readdir\<close> loop of its directory branch. The first
  argument is the SHA-1 function that \<open>sha1sum\<close> computes on the bytes of the file
  (\<open>sha1.h\<close> is not among the sources). The result is the code returned (\<open>None\<close> for 0),
  the dentry \<open>root\<close> (of the given name) as the call leaves it, and the state.
\<close>

fun build_dentry_tree ::
      "(u8 list \<Rightarrow> u8 list) \<Rightarrow> string \<Rightarrow> string \<Rightarrow> posix_file \<Rightarrow> capture_state \<Rightarrow>
       wimlib_error option \<times> dentry \<times> capture_state"
  and readdir_loop ::
      "(u8 list \<Rightarrow> u8 list) \<Rightarrow> string \<Rightarrow> (string \<times> posix_file option) list \<Rightarrow> dentry list \<Rightarrow>
       capture_state \<Rightarrow> wimlib_error option \<times> dentry list \<times> capture_state"
where
  "build_dentry_tree sha1sum root_name source_path (DIRECTORY None) st =
     (Some WIMLIB_ERR_OPEN, DENTRY root_name True (replicate 20 0) [], st)"
| "build_dentry_tree sha1sum root_name source_path (DIRECTORY (Some entries)) st =
     (case readdir_loop sha1sum source_path entries [] st of
        (ret, children, st1) \<Rightarrow> (ret, DENTRY root_name True (replicate 20 0) children, st1))"
| "build_dentry_tree sha1sum root_name source_path (NON_DIRECTORY (Inl e)) st =
     (Some e, DENTRY root_name False (replicate 20 0) [], st)"
| "build_dentry_tree sha1sum root_name source_path (NON_DIRECTORY (Inr bytes)) st =
     (let root = DENTRY root_name False (sha1sum bytes) [] in
      case lookup_resource (lookup_table st) (sha1sum bytes) of
        Some lte \<Rightarrow>
          (None, root, st\<lparr>lookup_table := increment_refcnt (sha1sum bytes) (lookup_table st)\<rparr>)
      | None \<Rightarrow>
          (case allocate st of
             None \<Rightarrow> (Some WIMLIB_ERR_NOMEM, root, st)
           | Some st1 \<Rightarrow>
               (case allocate st1 of
                  None \<Rightarrow> (Some WIMLIB_ERR_NOMEM, root, st1)
                | Some st2 \<Rightarrow>
                    (None, root,
                     st2\<lparr>lookup_table :=
                           lookup_table_insert (lookup_table st2)
                             (new_lookup_table_entry
                                \<lparr>resource_entry :=
                                   \<lparr>size_field = of_nat (length bytes), flags = 0,
                                    offset_field = 0,
                                    original_size = of_nat (length bytes)\<rparr>,
                                 hash := sha1sum bytes, refcnt := 1, part_number := 1,
                                 file_on_disk := Some source_path\<rparr>)\<rparr>))))"
| "readdir_loop sha1sum source_path [] children st = (None, children, st)"
| "readdir_loop sha1sum source_path ((d_name, child_stat) # entries) children st =
     (if d_name = ''.'' \<or> d_name = ''..''
      then readdir_loop sha1sum source_path entries children st
      else
        (case child_stat of
           None \<Rightarrow> (Some WIMLIB_ERR_STAT, children, st)
         | Some child_file \<Rightarrow>
             (case build_dentry_tree sha1sum d_name (source_path @ ''/'' @ d_name) child_file st of
                (ret, child, st1) \<Rightarrow>
                  if ret \<noteq> None then (ret, children, st1)
                  else readdir_loop sha1sum source_path entries (children @ [child]) st1)))"

text \<open>The bytes of the files that are not directories, in the order of the traversal.\<close>

fun file_contents :: "posix_file \<Rightarrow> u8 list list"
  and entries_contents :: "(string \<times> posix_file option) list \<Rightarrow> u8 list list"
where
  "file_contents (NON_DIRECTORY (Inl e)) = []"
| "file_contents (NON_DIRECTORY (Inr bytes)) = [bytes]"
| "file_contents (DIRECTORY None) = []"
| "file_contents (DIRECTORY (Some entries)) = entries_contents entries"
| "entries_contents [] = []"
| "entries_contents ((d_name, child_stat) # entries) =
     (if d_name = ''.'' \<or> d_name = ''..'' then entries_contents entries
      else (case child_stat of None \<Rightarrow> [] | Some child_file \<Rightarrow> file_contents child_file) @
           entries_contents entries)"

subsection \<open>\<open>capture_ntfs_streams\<close> (ntfs-capture.c)\<close>

datatype ATTR_TYPES = AT_DATA | AT_REPARSE_POINT

text \<open>
  An attribute record of an NTFS inode, as the calls into ntfs-3g show it: type, name
  (UTF-16LE, two bytes for each character), value, whether \<open>errno\<close> is set after
  \<open>ntfs_get_attribute_value_length\<close>, and whether \<open>ntfs_attr_open\<close> and \<open>ntfs_attr_pread\<close>
  succeed on it.
\<close>

record ntfs_attribute =
  attr_type :: ATTR_TYPES
  attr_name :: "u8 list"
  attr_value :: "u8 list"
  value_length_errno :: bool
  attr_readable :: bool

record ntfs_inode =
  attr_search_ctx :: bool
  attributes :: "ntfs_attribute list"

text \<open>
  The inode of the dentry: the pointer to the lookup table entry of the unnamed stream,
  the reparse tag, and the alternate data stream entries with their pointers.
\<close>

record wim_inode =
  i_lte :: "u8 list option"
  i_reparse_tag :: u32
  ads_entries :: "(string \<times> u8 list option) list"

text \<open>
  The first half of the body of the loop over the streams (from
  \<open>ntfs_get_attribute_value_length\<close> to \<open>lookup_table_insert\<close>): the pointer \<open>lte\<close>, the
  reparse tag read (for a reparse point), and the state. The SHA-1 function is the one
  that \<open>ntfs_attr_sha1sum\<close> computes over the value, behind its first 8 bytes for a
  reparse point.
\<close>

definition stream_lookup_table_entry ::
    "(u8 list \<Rightarrow> u8 list) \<Rightarrow> string \<Rightarrow> ATTR_TYPES \<Rightarrow> ntfs_attribute \<Rightarrow> capture_state \<Rightarrow>
     wimlib_error + u8 list option \<times> u32 option \<times> capture_state" where
  "stream_lookup_table_entry sha1sum path type a st =
     (let data_size = length (attr_value a);
          name_length = length (attr_name a) div 2
      in
      if data_size = 0 then
        (if value_length_errno a then Inl WIMLIB_ERR_NTFS_3G else Inr (None, None, st))
      else if type = AT_REPARSE_POINT \<and> data_size < 8 then Inl WIMLIB_ERR_NTFS_3G
      else if \<not> attr_readable a then Inl WIMLIB_ERR_NTFS_3G
      else
        let content = (if type = AT_REPARSE_POINT then drop 8 (attr_value a) else attr_value a);
            attr_hash = sha1sum content;
            reparse_tag =
              (if type = AT_REPARSE_POINT
               then Some (ucast (le_decode (take 4 (attr_value a))) :: u32) else None)
        in
        case lookup_resource (lookup_table st) attr_hash of
          Some lte \<Rightarrow>
            Inr (Some attr_hash, reparse_tag,
                 st\<lparr>lookup_table := increment_refcnt attr_hash (lookup_table st)\<rparr>)
        | None \<Rightarrow>
            (case allocate st of None \<Rightarrow> Inl WIMLIB_ERR_NOMEM | Some st1 \<Rightarrow>
             case allocate st1 of None \<Rightarrow> Inl WIMLIB_ERR_NOMEM | Some st2 \<Rightarrow>
             case (if name_length \<noteq> 0 then allocate st2 else Some st2) of
               None \<Rightarrow> Inl WIMLIB_ERR_NOMEM | Some st3 \<Rightarrow>
             case allocate st3 of None \<Rightarrow> Inl WIMLIB_ERR_NOMEM | Some st4 \<Rightarrow>
               Inr (Some attr_hash, reparse_tag,
                    st4\<lparr>lookup_table :=
                          lookup_table_insert (lookup_table st4)
                            (new_lookup_table_entry
                               \<lparr>ntfs_loc :=
                                  Some \<lparr>path_utf8 = path, stream_name_utf16 = attr_name a,
                                        stream_name_utf16_num_chars = name_length,
                                        is_reparse_point = (type = AT_REPARSE_POINT)\<rparr>,
                                resource_location := RESOURCE_IN_NTFS_VOLUME,
                                resource_entry :=
                                  \<lparr>size_field = of_nat (length content), flags = 0,
                                   offset_field = 0,
                                   original_size = of_nat (length content)\<rparr>,
                                hash := attr_hash\<rparr>)\<rparr>)))"

text \<open>
  \<open>free_lookup_table_entry(lte)\<close>: nothing for \<open>NULL\<close>. \<open>lookup_table.c\<close> is not among the
  sources: what freeing an entry does to the table that holds it is a parameter.
\<close>

definition free_entry ::
    "(u8 list \<Rightarrow> lookup_table \<Rightarrow> lookup_table) \<Rightarrow> u8 list option \<Rightarrow> capture_state \<Rightarrow>
     capture_state" where
  "free_entry free_lookup_table_entry lte st =
     (case lte of
        None \<Rightarrow> st
      | Some h \<Rightarrow> st\<lparr>lookup_table := free_lookup_table_entry h (lookup_table st)\<rparr>)"

text \<open>
  The loop of \<open>capture_ntfs_streams\<close> over the attributes of the inode:
  \<open>ntfs_attr_lookup\<close> gives those of the type asked for, in order. \<open>utf16_to_utf8\<close> (not
  among the sources) is a parameter; \<open>inode_add_ads\<close> makes one allocation. The result is
  the error code returned, or for the return of 0 the inode, the state and the warnings.
\<close>

fun capture_streams_loop ::
    "(u8 list \<Rightarrow> u8 list) \<Rightarrow> (u8 list \<Rightarrow> wimlib_error + string) \<Rightarrow>
     (u8 list \<Rightarrow> lookup_table \<Rightarrow> lookup_table) \<Rightarrow> string \<Rightarrow> ATTR_TYPES \<Rightarrow>
     ntfs_attribute list \<Rightarrow> wim_inode \<Rightarrow> capture_state \<Rightarrow> message list \<Rightarrow>
     wimlib_error + wim_inode \<times> capture_state \<times> message list" where
  "capture_streams_loop sha1sum utf16_to_utf8 free_lookup_table_entry path type [] inode st
       messages = Inr (inode, st, messages)"
| "capture_streams_loop sha1sum utf16_to_utf8 free_lookup_table_entry path type (a # attrs)
       inode st messages =
     (if attr_type a \<noteq> type
      then capture_streams_loop sha1sum utf16_to_utf8 free_lookup_table_entry path type attrs
             inode st messages
      else
        (case stream_lookup_table_entry sha1sum path type a st of
           Inl e \<Rightarrow> Inl e
         | Inr (lte, reparse_tag, st1) \<Rightarrow>
             let inode1 = (case reparse_tag of
                             None \<Rightarrow> inode
                           | Some tag \<Rightarrow> inode\<lparr>i_reparse_tag := tag\<rparr>)
             in
             if length (attr_name a) div 2 = 0 then
               (if i_lte inode1 \<noteq> None
                then capture_streams_loop sha1sum utf16_to_utf8 free_lookup_table_entry path
                       type attrs inode1 (free_entry free_lookup_table_entry lte st1)
                       (messages @
                        [WARNING (''Found two un-named data streams for `%s'' @ [CHR 0x27])
                           [ARG_STR path]])
                else capture_streams_loop sha1sum utf16_to_utf8 free_lookup_table_entry path
                       type attrs (inode1\<lparr>i_lte := lte\<rparr>) st1 messages)
             else
               (case utf16_to_utf8 (attr_name a) of
                  Inl e \<Rightarrow> Inl e
                | Inr stream_name_utf8 \<Rightarrow>
                    (case allocate st1 of
                       None \<Rightarrow>
                         Inr (inode1, free_entry free_lookup_table_entry lte st1, messages)
                     | Some st2 \<Rightarrow>
                         capture_streams_loop sha1sum utf16_to_utf8 free_lookup_table_entry
                           path type attrs
                           (inode1\<lparr>ads_entries :=
                                     ads_entries inode1 @ [(stream_name_utf8, lte)]\<rparr>)
                           st2 messages))))"

definition capture_ntfs_streams ::
    "(u8 list \<Rightarrow> u8 list) \<Rightarrow> (u8 list \<Rightarrow> wimlib_error + string) \<Rightarrow>
     (u8 list \<Rightarrow> lookup_table \<Rightarrow> lookup_table) \<Rightarrow> wim_inode \<Rightarrow> ntfs_inode \<Rightarrow> string \<Rightarrow>
     capture_state \<Rightarrow> ATTR_TYPES \<Rightarrow> wimlib_error + wim_inode \<times> capture_state \<times> message list" where
  "capture_ntfs_streams sha1sum utf16_to_utf8 free_lookup_table_entry inode ni path st type =
     (if \<not> attr_search_ctx ni then Inl WIMLIB_ERR_NTFS_3G
      else capture_streams_loop sha1sum utf16_to_utf8 free_lookup_table_entry path type
             (attributes ni) inode st [])"

text \<open>
  The words of the spec for the step of a stream with hash \<open>h\<close> from table \<open>t\<close> to table
  \<open>t'\<close> (\<open>insert_or_intern\<close>): when the hash is in the table, the reference count of its
  entry is incremented and nothing else changes; otherwise one entry with the hash and
  the reference count 1 is inserted.
\<close>

definition insert_or_intern :: "u8 list \<Rightarrow> lookup_table \<Rightarrow> lookup_table \<Rightarrow> bool" where
  "insert_or_intern h t t' =
     (case lookup_resource t h of
        Some lte \<Rightarrow> t' = increment_refcnt h t
      | None \<Rightarrow> (case t' of [] \<Rightarrow> False | new # rest \<Rightarrow> rest = t \<and> hash new = h \<and> refcnt new = 1))"

text \<open>
  The same words for a sequence of streams with the hashes \<open>hs\<close>, in this order: \<open>ts\<close> are
  the tables after each of the streams, the last of them the table at the end.
\<close>

fun interned_via ::
    "u8 list list \<Rightarrow> lookup_table list \<Rightarrow> lookup_table \<Rightarrow> lookup_table \<Rightarrow> bool" where
  "interned_via [] ts t t' = (ts = [] \<and> t' = t)"
| "interned_via (h # hs) [] t t' = False"
| "interned_via (h # hs) (t1 # ts) t t' = (insert_or_intern h t t1 \<and> interned_via hs ts t1 t')"

text \<open>
  The streams of an inode as \<open>capture_ntfs_streams\<close> sees them, for the type it is asked
  for: the bytes of a stream that \<open>ntfs_attr_sha1sum\<close> hashes; the hashes of the streams
  of non-zero length, in order; the unnamed streams of non-zero length; the named
  streams, each of which is to get an entry from \<open>inode_add_ads\<close>.
\<close>

definition stream_content :: "ATTR_TYPES \<Rightarrow> ntfs_attribute \<Rightarrow> u8 list" where
  "stream_content type a =
     (if type = AT_REPARSE_POINT then drop 8 (attr_value a) else attr_value a)"

definition stream_hashes ::
    "(u8 list \<Rightarrow> u8 list) \<Rightarrow> ATTR_TYPES \<Rightarrow> ntfs_attribute list \<Rightarrow> u8 list list" where
  "stream_hashes sha1sum type attrs =
     map (\<lambda>a. sha1sum (stream_content type a))
       (filter (\<lambda>a. attr_type a = type \<and> attr_value a \<noteq> []) attrs)"

definition unnamed_streams :: "ATTR_TYPES \<Rightarrow> ntfs_attribute list \<Rightarrow> ntfs_attribute list" where
  "unnamed_streams type attrs =
     filter (\<lambda>a. attr_type a = type \<and> length (attr_name a) div 2 = 0 \<and> attr_value a \<noteq> [])
       attrs"

definition named_streams :: "ATTR_TYPES \<Rightarrow> ntfs_attribute list \<Rightarrow> ntfs_attribute list" where
  "named_streams type attrs =
     filter (\<lambda>a. attr_type a = type \<and> length (attr_name a) div 2 \<noteq> 0) attrs"

text \<open>
  Values for the parameters in the examples: a digest that gives the bytes themselves, a
  conversion of names that always gives the same name, and a
  \<open>free_lookup_table_entry\<close> that leaves the table as it is.
\<close>

definition example_digest :: "u8 list \<Rightarrow> u8 list" where
  "example_digest bytes = bytes"

definition example_utf16_to_utf8 :: "u8 list \<Rightarrow> wimlib_error + string" where
  "example_utf16_to_utf8 name = Inr ''stream''"

definition example_free :: "u8 list \<Rightarrow> lookup_table \<Rightarrow> lookup_table" where
  "example_free h table = table"

text \<open>
  An NTFS file with the unnamed data stream \<open>[1, 2]\<close>, a named data stream with the same
  bytes and a named data stream of length zero; the inode of a new dentry; a file with
  two unnamed data streams of the same bytes; and a \<open>free_lookup_table_entry\<close> that takes
  the entry out of the table.
\<close>

definition example_ntfs_inode :: ntfs_inode where
  "example_ntfs_inode =
     \<lparr>attr_search_ctx = True,
      attributes =
        [\<lparr>attr_type = AT_DATA, attr_name = [], attr_value = [1, 2],
          value_length_errno = False, attr_readable = True\<rparr>,
         \<lparr>attr_type = AT_DATA, attr_name = [0x73, 0], attr_value = [1, 2],
          value_length_errno = False, attr_readable = True\<rparr>,
         \<lparr>attr_type = AT_DATA, attr_name = [0x74, 0], attr_value = [],
          value_length_errno = False, attr_readable = True\<rparr>]\<rparr>"

definition example_wim_inode :: wim_inode where
  "example_wim_inode = \<lparr>i_lte = None, i_reparse_tag = 0, ads_entries = []\<rparr>"

definition example_two_unnamed :: ntfs_inode where
  "example_two_unnamed =
     \<lparr>attr_search_ctx = True,
      attributes =
        [\<lparr>attr_type = AT_DATA, attr_name = [], attr_value = [1, 2],
          value_length_errno = False, attr_readable = True\<rparr>,
         \<lparr>attr_type = AT_DATA, attr_name = [], attr_value = [1, 2],
          value_length_errno = False, attr_readable = True\<rparr>]\<rparr>"

definition example_unlinking_free :: "u8 list \<Rightarrow> lookup_table \<Rightarrow> lookup_table" where
  "example_unlinking_free h table = filter (\<lambda>lte. hash lte \<noteq> h) table"

section \<open>Windows-specific XML information (xml_windows.c)\<close>

text \<open>
  \<open>registry.h\<close> is not among the sources; \<open>xml_windows.c\<close> names the statuses \<open>HIVE_OK\<close>
  and \<open>HIVE_OUT_OF_MEMORY\<close>, and every other status is a \<open>HIVE_FAILURE\<close>, with a name.
\<close>

datatype hive_status = HIVE_OK | HIVE_OUT_OF_MEMORY | HIVE_FAILURE string

text \<open>
  What \<open>get_dentry\<close>, \<open>inode_get_blob_for_unnamed_data_stream\<close> and
  \<open>read_blob_into_alloc_buf\<close> give for a path of the selected image: no dentry, no blob,
  an error code of the read with the size of the blob, or the contents.
\<close>

datatype file_lookup =
    FILE_NOT_FOUND
  | FILE_NO_CONTENTS
  | FILE_LOAD_ERROR wimlib_error nat
  | FILE_CONTENTS "u8 list"

text \<open>
  The functions that \<open>xml_windows.c\<close> calls and that are not among the sources: the
  environment, the files of the selected image, the registry hive parser, the setter of
  XML properties (on the properties of the selected image, as a list of names and
  values), the two \<open>tscanf\<close> calls (the values converted, in order, for
  \<open>"%lld.%lld"\<close>; the value or nothing for \<open>"%x"\<close>) and the texts of error codes.
\<close>

record xml_library =
  tgetenv :: "string \<Rightarrow> string option"
  image_file :: "string \<Rightarrow> file_lookup"
  hive_validate :: "u8 list \<Rightarrow> hive_status"
  hive_get_string :: "u8 list \<Rightarrow> string \<Rightarrow> string \<Rightarrow> hive_status \<times> string"
  hive_get_number :: "u8 list \<Rightarrow> string \<Rightarrow> string \<Rightarrow> hive_status \<times> int"
  hive_list_subkeys :: "u8 list \<Rightarrow> string \<Rightarrow> hive_status \<times> string list"
  hive_status_to_string :: "hive_status \<Rightarrow> string"
  wimlib_set_image_property ::
    "(string \<times> string) list \<Rightarrow> string \<Rightarrow> string \<Rightarrow> wimlib_error + (string \<times> string) list"
  wimlib_get_error_string :: "wimlib_error \<Rightarrow> string"
  tscanf_version :: "string \<Rightarrow> int list"
  tscanf_hex :: "string \<Rightarrow> u32 option"

text \<open>
  \<open>struct windows_info_ctx\<close>: the properties of the image \<open>ctx->image\<close> of \<open>ctx->wim\<close>
  and the two flags. With them, and not in the struct: the messages printed so far, and
  the warnings of the \<open>XML_WARN\<close> statements that execution has reached so far, printed or
  not.
\<close>

record windows_info_ctx =
  properties :: "(string \<times> string) list"
  oom_encountered :: bool
  debug_enabled :: bool
  messages :: "message list"
  xml_warn_reached :: "message list"

text \<open>The double quote and the backslash, for the strings that have them.\<close>

definition dq :: string where
  "dq = [CHR 0x22]"

definition bsl :: string where
  "bsl = [CHR 0x5C]"

text \<open>The format strings of the \<open>XML_WARN\<close> calls.\<close>

definition xml_warn_formats :: "string list" where
  "xml_warn_formats =
     [''%s; key=%s value=%s'',
      ''Architecture value %x from kernel32.dll header not recognized'',
      ''kernel32.dll is not a valid PE binary.'',
      ''Unrecognized CurrentVersion: %s'',
      ''Unrecognized InstallLanguage: %s'',
      ''File '' @ dq @ ''%s'' @ dq @ '' not found'',
      ''File '' @ dq @ ''%s'' @ dq @ '' has no contents'',
      ''Error loading file '' @ dq @ ''%s'' @ dq @ '' (size=%llu): %s'',
      dq @ ''%s'' @ dq @ '' is not a valid registry hive!'']"

text \<open>
  \<open>XML_WARN(format, ...)\<close>: \<open>if (ctx->debug_enabled) WARNING(format, ...)\<close>. The format is
  given by its place in \<open>xml_warn_formats\<close>. That the statement was reached is recorded
  whatever the flag is.
\<close>

definition XML_WARN :: "windows_info_ctx \<Rightarrow> nat \<Rightarrow> fmt_arg list \<Rightarrow> windows_info_ctx" where
  "XML_WARN ctx format args =
     (let ctx1 = ctx\<lparr>xml_warn_reached :=
                      xml_warn_reached ctx @ [WARNING (xml_warn_formats ! format) args]\<rparr>
      in if debug_enabled ctx
         then ctx1\<lparr>messages := messages ctx1 @ [WARNING (xml_warn_formats ! format) args]\<rparr>
         else ctx1)"

text \<open>\<open>tsprintf(buffer, "%lld", value)\<close> and \<open>"%zu"\<close>: decimal digits.\<close>

function decimal_nat :: "nat \<Rightarrow> string" where
  "decimal_nat n =
     (if n < 10 then [char_of (48 + n)]
      else decimal_nat (n div 10) @ [char_of (48 + n mod 10)])"
  by pat_completeness auto
termination
  by (relation "measure (\<lambda>n. n)") auto

definition decimal :: "int \<Rightarrow> string" where
  "decimal i = (if i < 0 then CHR ''-'' # decimal_nat (nat (- i)) else decimal_nat (nat i))"

definition software_hive_path :: string where
  "software_hive_path = ''/Windows/System32/config/SOFTWARE''"

definition system_hive_path :: string where
  "system_hive_path = ''/Windows/System32/config/SYSTEM''"

definition kernel32_dll_path :: string where
  "kernel32_dll_path = ''/Windows/System32/kernel32.dll''"

definition set_string_property ::
    "xml_library \<Rightarrow> windows_info_ctx \<Rightarrow> string \<Rightarrow> string \<Rightarrow> windows_info_ctx" where
  "set_string_property lib ctx name value =
     (case wimlib_set_image_property lib (properties ctx) name value of
        Inr properties1 \<Rightarrow> ctx\<lparr>properties := properties1\<rparr>
      | Inl ret \<Rightarrow>
          ctx\<lparr>oom_encountered := oom_encountered ctx \<or> ret = WIMLIB_ERR_NOMEM,
              messages := messages ctx @
                [WARNING (''Failed to set image property '' @ dq @ ''%s'' @ dq @
                          '' to value '' @ dq @ ''%s'' @ dq @ '': %s'')
                   [ARG_STR name, ARG_STR value,
                    ARG_STR (wimlib_get_error_string lib ret)]]\<rparr>)"

definition set_number_property ::
    "xml_library \<Rightarrow> windows_info_ctx \<Rightarrow> string \<Rightarrow> int \<Rightarrow> windows_info_ctx" where
  "set_number_property lib ctx name value = set_string_property lib ctx name (decimal value)"

definition null_or :: "string option \<Rightarrow> string" where
  "null_or s = (case s of None \<Rightarrow> ''(null)'' | Some t \<Rightarrow> t)"

definition check_hive_status ::
    "xml_library \<Rightarrow> windows_info_ctx \<Rightarrow> hive_status \<Rightarrow> string option \<Rightarrow> string option \<Rightarrow>
     bool \<times> windows_info_ctx" where
  "check_hive_status lib ctx status key value =
     (if status = HIVE_OK then (True, ctx)
      else
        (False,
         XML_WARN (ctx\<lparr>oom_encountered := oom_encountered ctx \<or> status = HIVE_OUT_OF_MEMORY\<rparr>)
           0 [ARG_STR (hive_status_to_string lib status), ARG_STR (null_or key),
              ARG_STR (null_or value)]))"

definition is_registry_valid ::
    "xml_library \<Rightarrow> windows_info_ctx \<Rightarrow> u8 list \<Rightarrow> bool \<times> windows_info_ctx" where
  "is_registry_valid lib ctx hive_mem =
     check_hive_status lib ctx (hive_validate lib hive_mem) None None"

definition get_string_from_registry ::
    "xml_library \<Rightarrow> windows_info_ctx \<Rightarrow> u8 list \<Rightarrow> string \<Rightarrow> string \<Rightarrow>
     string option \<times> windows_info_ctx" where
  "get_string_from_registry lib ctx regf key_name value_name =
     (case hive_get_string lib regf key_name value_name of
        (status, value) \<Rightarrow>
          (case check_hive_status lib ctx status (Some key_name) (Some value_name) of
             (ok, ctx1) \<Rightarrow> (if ok then Some value else None, ctx1)))"

definition get_number_from_registry ::
    "xml_library \<Rightarrow> windows_info_ctx \<Rightarrow> u8 list \<Rightarrow> string \<Rightarrow> string \<Rightarrow>
     int option \<times> windows_info_ctx" where
  "get_number_from_registry lib ctx regf key_name value_name =
     (case hive_get_number lib regf key_name value_name of
        (status, value) \<Rightarrow>
          (case check_hive_status lib ctx status (Some key_name) (Some value_name) of
             (ok, ctx1) \<Rightarrow> (if ok then Some value else None, ctx1)))"

definition list_subkeys_in_registry ::
    "xml_library \<Rightarrow> windows_info_ctx \<Rightarrow> u8 list \<Rightarrow> string \<Rightarrow>
     string list option \<times> windows_info_ctx" where
  "list_subkeys_in_registry lib ctx regf key_name =
     (case hive_list_subkeys lib regf key_name of
        (status, subkeys) \<Rightarrow>
          (case check_hive_status lib ctx status (Some key_name) None of
             (ok, ctx1) \<Rightarrow> (if ok then Some subkeys else None, ctx1)))"

definition copy_registry_string ::
    "xml_library \<Rightarrow> windows_info_ctx \<Rightarrow> u8 list \<Rightarrow> string \<Rightarrow> string \<Rightarrow> string \<Rightarrow>
     windows_info_ctx" where
  "copy_registry_string lib ctx regf key_name value_name property_name =
     (case get_string_from_registry lib ctx regf key_name value_name of
        (Some string, ctx1) \<Rightarrow> set_string_property lib ctx1 property_name string
      | (None, ctx1) \<Rightarrow> ctx1)"

text \<open>
  The table \<open>language_id_map\<close> (language identifier, start of the name) and the names of
  \<open>language_names\<close>, each of which is followed by a NUL there.
\<close>

definition language_id_map :: "(16 word \<times> nat) list" where
  "language_id_map =
     [(0x0000, 0), (0x0001, 6), (0x0002, 12), (0x0003, 18), (0x0004, 24),
      (0x0005, 30), (0x0006, 36), (0x0007, 42), (0x0008, 48), (0x0009, 54),
      (0x000a, 60), (0x000b, 66), (0x000c, 72), (0x000d, 78), (0x000e, 84),
      (0x000f, 90), (0x0010, 96), (0x0011, 102), (0x0012, 108), (0x0013, 114),
      (0x0014, 120), (0x0015, 126), (0x0016, 132), (0x0017, 138), (0x0018, 144),
      (0x0019, 150), (0x001a, 156), (0x001b, 162), (0x001c, 168), (0x001d, 174),
      (0x001e, 180), (0x001f, 186), (0x0020, 192), (0x0021, 198), (0x0022, 204),
      (0x0023, 210), (0x0024, 216), (0x0025, 222), (0x0026, 228), (0x0027, 234),
      (0x0028, 240), (0x0029, 251), (0x002a, 257), (0x002b, 263), (0x002c, 269),
      (0x002d, 280), (0x002e, 286), (0x002f, 293), (0x0030, 299), (0x0031, 305),
      (0x0032, 311), (0x0033, 317), (0x0034, 323), (0x0035, 329), (0x0036, 335),
      (0x0037, 341), (0x0038, 347), (0x0039, 353), (0x003a, 359), (0x003b, 365),
      (0x003c, 371), (0x003d, 377), (0x003e, 384), (0x003f, 390), (0x0040, 396),
      (0x0041, 402), (0x0042, 408), (0x0043, 414), (0x0044, 425), (0x0045, 431),
      (0x0046, 437), (0x0047, 443), (0x0048, 449), (0x0049, 455), (0x004a, 461),
      (0x004b, 467), (0x004c, 473), (0x004d, 479), (0x004e, 485), (0x004f, 491),
      (0x0050, 497), (0x0051, 503), (0x0052, 509), (0x0053, 515), (0x0054, 521),
      (0x0055, 527), (0x0056, 533), (0x0057, 539), (0x0058, 546), (0x0059, 553),
      (0x005a, 564), (0x005b, 571), (0x005c, 577), (0x005d, 589), (0x005e, 600),
      (0x005f, 606), (0x0060, 618), (0x0061, 629), (0x0062, 635), (0x0063, 641),
      (0x0064, 647), (0x0065, 654), (0x0066, 660), (0x0067, 667), (0x0068, 678),
      (0x0069, 689), (0x006a, 696), (0x006b, 702), (0x006c, 709), (0x006d, 716),
      (0x006e, 722), (0x006f, 728), (0x0070, 734), (0x0071, 740), (0x0072, 746),
      (0x0073, 752), (0x0074, 758), (0x0075, 764), (0x0076, 771), (0x0077, 778),
      (0x0078, 784), (0x0079, 790), (0x007a, 798), (0x007c, 805), (0x007e, 812),
      (0x007f, 818), (0x0080, 819), (0x0081, 825), (0x0082, 831), (0x0083, 837),
      (0x0084, 843), (0x0085, 850), (0x0086, 857), (0x0087, 869), (0x0088, 875),
      (0x008c, 881), (0x0091, 888), (0x0092, 894), (0x0400, 905), (0x0401, 911),
      (0x0402, 917), (0x0403, 923), (0x0404, 929), (0x0405, 935), (0x0406, 941),
      (0x0407, 947), (0x0408, 953), (0x0409, 959), (0x040a, 965), (0x040b, 978),
      (0x040c, 984), (0x040d, 990), (0x040e, 996), (0x040f, 1002), (0x0410, 1008),
      (0x0411, 1014), (0x0412, 1020), (0x0413, 1026), (0x0414, 1032), (0x0415, 1038),
      (0x0416, 1044), (0x0417, 1050), (0x0418, 1056), (0x0419, 1062), (0x041a, 1068),
      (0x041b, 1074), (0x041c, 1080), (0x041d, 1086), (0x041e, 1092), (0x041f, 1098),
      (0x0420, 1104), (0x0421, 1110), (0x0422, 1116), (0x0423, 1122), (0x0424, 1128),
      (0x0425, 1134), (0x0426, 1140), (0x0427, 1146), (0x0428, 1152), (0x0429, 1163),
      (0x042a, 1169), (0x042b, 1175), (0x042c, 1181), (0x042d, 1192), (0x042e, 1198),
      (0x042f, 1205), (0x0430, 1211), (0x0431, 1217), (0x0432, 1223), (0x0433, 1229),
      (0x0434, 1235), (0x0435, 1241), (0x0436, 1247), (0x0437, 1253), (0x0438, 1259),
      (0x0439, 1265), (0x043a, 1271), (0x043b, 1277), (0x043d, 1283), (0x043e, 1290),
      (0x043f, 1296), (0x0440, 1302), (0x0441, 1308), (0x0442, 1314), (0x0443, 1320),
      (0x0444, 1331), (0x0445, 1337), (0x0446, 1343), (0x0447, 1349), (0x0448, 1355),
      (0x0449, 1361), (0x044a, 1367), (0x044b, 1373), (0x044c, 1379), (0x044d, 1385),
      (0x044e, 1391), (0x044f, 1397), (0x0450, 1403), (0x0451, 1409), (0x0452, 1415),
      (0x0453, 1421), (0x0454, 1427), (0x0455, 1433), (0x0456, 1439), (0x0457, 1445),
      (0x0458, 1452), (0x0459, 1459), (0x045a, 1470), (0x045b, 1477), (0x045c, 1483),
      (0x045d, 1495), (0x045e, 1506), (0x045f, 1512), (0x0460, 1524), (0x0461, 1535),
      (0x0462, 1541), (0x0463, 1547), (0x0464, 1553), (0x0465, 1560), (0x0466, 1566),
      (0x0467, 1573), (0x0468, 1579), (0x0469, 1590), (0x046a, 1597), (0x046b, 1603),
      (0x046c, 1610), (0x046d, 1617), (0x046e, 1623), (0x046f, 1629), (0x0470, 1635),
      (0x0471, 1641), (0x0472, 1647), (0x0473, 1653), (0x0474, 1659), (0x0475, 1665),
      (0x0476, 1672), (0x0477, 1679), (0x0478, 1685), (0x0479, 1691), (0x047a, 1699),
      (0x047c, 1706), (0x047e, 1713), (0x0480, 1719), (0x0481, 1725), (0x0482, 1731),
      (0x0483, 1737), (0x0484, 1743), (0x0485, 1750), (0x0486, 1757), (0x0487, 1769),
      (0x0488, 1775), (0x048c, 1781), (0x0491, 1788), (0x0492, 1794), (0x0501, 1805),
      (0x05fe, 1814), (0x0800, 1824), (0x0801, 1830), (0x0803, 1836), (0x0804, 1851),
      (0x0807, 1857), (0x0809, 1863), (0x080a, 1869), (0x080c, 1875), (0x0810, 1881),
      (0x0813, 1887), (0x0814, 1893), (0x0816, 1899), (0x0818, 1905), (0x0819, 1911),
      (0x081a, 1917), (0x081d, 1928), (0x0820, 1934), (0x082c, 1940), (0x082e, 1951),
      (0x0832, 1958), (0x083b, 1964), (0x083c, 1970), (0x083e, 1976), (0x0843, 1982),
      (0x0845, 1993), (0x0846, 1999), (0x0849, 2010), (0x0850, 2016), (0x0859, 2027),
      (0x085d, 2038), (0x085f, 2049), (0x0860, 2061), (0x0861, 2072), (0x0867, 2078),
      (0x086b, 2089), (0x0873, 2096), (0x0901, 2102), (0x09ff, 2116), (0x0c00, 2126),
      (0x0c01, 2132), (0x0c04, 2138), (0x0c07, 2144), (0x0c09, 2150), (0x0c0a, 2156),
      (0x0c0c, 2162), (0x0c1a, 2168), (0x0c3b, 2179), (0x0c50, 2185), (0x0c51, 2196),
      (0x0c6b, 2202), (0x1000, 2209), (0x1001, 2220), (0x1004, 2226), (0x1007, 2232),
      (0x1009, 2238), (0x100a, 2244), (0x100c, 2250), (0x101a, 2256), (0x103b, 2262),
      (0x105f, 2269), (0x1401, 2281), (0x1404, 2287), (0x1407, 2293), (0x1409, 2299),
      (0x140a, 2305), (0x140c, 2311), (0x141a, 2317), (0x143b, 2328), (0x1801, 2335),
      (0x1809, 2341), (0x180a, 2347), (0x180c, 2353), (0x181a, 2359), (0x183b, 2370),
      (0x1c01, 2377), (0x1c09, 2383), (0x1c0a, 2389), (0x1c0c, 2395), (0x1c1a, 2402),
      (0x1c3b, 2413), (0x2000, 2420), (0x2001, 2426), (0x2009, 2432), (0x200a, 2438),
      (0x200c, 2444), (0x201a, 2450), (0x203b, 2461), (0x2400, 2468), (0x2401, 2474),
      (0x2409, 2480), (0x240a, 2487), (0x240c, 2493), (0x241a, 2499), (0x243b, 2510),
      (0x2800, 2517), (0x2801, 2523), (0x2809, 2529), (0x280a, 2535), (0x280c, 2541),
      (0x281a, 2547), (0x2c00, 2558), (0x2c01, 2564), (0x2c09, 2570), (0x2c0a, 2576),
      (0x2c0c, 2582), (0x2c1a, 2588), (0x3000, 2599), (0x3001, 2605), (0x3009, 2611),
      (0x300a, 2617), (0x300c, 2623), (0x301a, 2629), (0x3400, 2640), (0x3401, 2646),
      (0x3409, 2652), (0x340a, 2658), (0x340c, 2664), (0x3800, 2670), (0x3801, 2676),
      (0x3809, 2682), (0x380a, 2688), (0x380c, 2694), (0x3c00, 2700), (0x3c01, 2706),
      (0x3c09, 2712), (0x3c0a, 2718), (0x3c0c, 2724), (0x4000, 2730), (0x4001, 2736),
      (0x4009, 2742), (0x400a, 2748), (0x4400, 2754), (0x4409, 2760), (0x440a, 2766),
      (0x4800, 2772), (0x4809, 2778), (0x480a, 2784), (0x4c00, 2790), (0x4c0a, 2796),
      (0x500a, 2802), (0x540a, 2808), (0x580a, 2814), (0x5c0a, 2821), (0x641a, 2827),
      (0x681a, 2838), (0x6c1a, 2849), (0x701a, 2860), (0x703b, 2871), (0x742c, 2878),
      (0x743b, 2889), (0x7804, 2896), (0x7814, 2902), (0x781a, 2908), (0x782c, 2919),
      (0x783b, 2930), (0x7843, 2937), (0x7850, 2948), (0x785d, 2954), (0x785f, 2965),
      (0x7c04, 2977), (0x7c14, 2983), (0x7c1a, 2989), (0x7c28, 3000), (0x7c2e, 3011),
      (0x7c3b, 3018), (0x7c43, 3025), (0x7c46, 3036), (0x7c50, 3047), (0x7c59, 3058),
      (0x7c5c, 3069), (0x7c5d, 3081), (0x7c5f, 3092), (0x7c67, 3104), (0x7c68, 3115),
      (0x7c86, 3126), (0x7c92, 3138)]"

definition language_name_list :: "string list" where
  "language_name_list =
     [''en-US'', ''ar-SA'', ''bg-BG'', ''ca-ES'', ''zh-CN'', ''cs-CZ'',
      ''da-DK'', ''de-DE'', ''el-GR'', ''en-US'', ''es-ES'', ''fi-FI'',
      ''fr-FR'', ''he-IL'', ''hu-HU'', ''is-IS'', ''it-IT'', ''ja-JP'',
      ''ko-KR'', ''nl-NL'', ''nb-NO'', ''pl-PL'', ''pt-BR'', ''rm-CH'',
      ''ro-RO'', ''ru-RU'', ''hr-HR'', ''sk-SK'', ''sq-AL'', ''sv-SE'',
      ''th-TH'', ''tr-TR'', ''ur-PK'', ''id-ID'', ''uk-UA'', ''be-BY'',
      ''sl-SI'', ''et-EE'', ''lv-LV'', ''lt-LT'', ''tg-Cyrl-TJ'', ''fa-IR'',
      ''vi-VN'', ''hy-AM'', ''az-Latn-AZ'', ''eu-ES'', ''hsb-DE'', ''mk-MK'',
      ''st-ZA'', ''ts-ZA'', ''tn-ZA'', ''ve-ZA'', ''xh-ZA'', ''zu-ZA'',
      ''af-ZA'', ''ka-GE'', ''fo-FO'', ''hi-IN'', ''mt-MT'', ''se-NO'',
      ''ga-IE'', ''yi-001'', ''ms-MY'', ''kk-KZ'', ''ky-KG'', ''sw-KE'',
      ''tk-TM'', ''uz-Latn-UZ'', ''tt-RU'', ''bn-IN'', ''pa-IN'', ''gu-IN'',
      ''or-IN'', ''ta-IN'', ''te-IN'', ''kn-IN'', ''ml-IN'', ''as-IN'',
      ''mr-IN'', ''sa-IN'', ''mn-MN'', ''bo-CN'', ''cy-GB'', ''km-KH'',
      ''lo-LA'', ''my-MM'', ''gl-ES'', ''kok-IN'', ''mni-IN'', ''sd-Arab-PK'',
      ''syr-SY'', ''si-LK'', ''chr-Cher-US'', ''iu-Latn-CA'', ''am-ET'', ''tzm-Latn-DZ'',
      ''ks-Arab-IN'', ''ne-NP'', ''fy-NL'', ''ps-AF'', ''fil-PH'', ''dv-MV'',
      ''bin-NG'', ''ff-Latn-SN'', ''ha-Latn-NG'', ''ibb-NG'', ''yo-NG'', ''quz-BO'',
      ''nso-ZA'', ''ba-RU'', ''lb-LU'', ''kl-GL'', ''ig-NG'', ''kr-NG'',
      ''om-ET'', ''ti-ER'', ''gn-PY'', ''haw-US'', ''la-001'', ''so-SO'',
      ''ii-CN'', ''pap-029'', ''arn-CL'', ''moh-CA'', ''br-FR'', '''',
      ''ug-CN'', ''mi-NZ'', ''oc-FR'', ''co-FR'', ''gsw-FR'', ''sah-RU'',
      ''quc-Latn-GT'', ''rw-RW'', ''wo-SN'', ''prs-AF'', ''gd-GB'', ''ku-Arab-IQ'',
      ''en-US'', ''ar-SA'', ''bg-BG'', ''ca-ES'', ''zh-TW'', ''cs-CZ'',
      ''da-DK'', ''de-DE'', ''el-GR'', ''en-US'', ''es-ES_tradnl'', ''fi-FI'',
      ''fr-FR'', ''he-IL'', ''hu-HU'', ''is-IS'', ''it-IT'', ''ja-JP'',
      ''ko-KR'', ''nl-NL'', ''nb-NO'', ''pl-PL'', ''pt-BR'', ''rm-CH'',
      ''ro-RO'', ''ru-RU'', ''hr-HR'', ''sk-SK'', ''sq-AL'', ''sv-SE'',
      ''th-TH'', ''tr-TR'', ''ur-PK'', ''id-ID'', ''uk-UA'', ''be-BY'',
      ''sl-SI'', ''et-EE'', ''lv-LV'', ''lt-LT'', ''tg-Cyrl-TJ'', ''fa-IR'',
      ''vi-VN'', ''hy-AM'', ''az-Latn-AZ'', ''eu-ES'', ''hsb-DE'', ''mk-MK'',
      ''st-ZA'', ''ts-ZA'', ''tn-ZA'', ''ve-ZA'', ''xh-ZA'', ''zu-ZA'',
      ''af-ZA'', ''ka-GE'', ''fo-FO'', ''hi-IN'', ''mt-MT'', ''se-NO'',
      ''yi-001'', ''ms-MY'', ''kk-KZ'', ''ky-KG'', ''sw-KE'', ''tk-TM'',
      ''uz-Latn-UZ'', ''tt-RU'', ''bn-IN'', ''pa-IN'', ''gu-IN'', ''or-IN'',
      ''ta-IN'', ''te-IN'', ''kn-IN'', ''ml-IN'', ''as-IN'', ''mr-IN'',
      ''sa-IN'', ''mn-MN'', ''bo-CN'', ''cy-GB'', ''km-KH'', ''lo-LA'',
      ''my-MM'', ''gl-ES'', ''kok-IN'', ''mni-IN'', ''sd-Deva-IN'', ''syr-SY'',
      ''si-LK'', ''chr-Cher-US'', ''iu-Cans-CA'', ''am-ET'', ''tzm-Arab-MA'', ''ks-Arab-IN'',
      ''ne-NP'', ''fy-NL'', ''ps-AF'', ''fil-PH'', ''dv-MV'', ''bin-NG'',
      ''ff-NG'', ''ha-Latn-NG'', ''ibb-NG'', ''yo-NG'', ''quz-BO'', ''nso-ZA'',
      ''ba-RU'', ''lb-LU'', ''kl-GL'', ''ig-NG'', ''kr-NG'', ''om-ET'',
      ''ti-ET'', ''gn-PY'', ''haw-US'', ''la-001'', ''so-SO'', ''ii-CN'',
      ''pap-029'', ''arn-CL'', ''moh-CA'', ''br-FR'', ''ug-CN'', ''mi-NZ'',
      ''oc-FR'', ''co-FR'', ''gsw-FR'', ''sah-RU'', ''quc-Latn-GT'', ''rw-RW'',
      ''wo-SN'', ''prs-AF'', ''gd-GB'', ''ku-Arab-IQ'', ''qps-ploc'', ''qps-ploca'',
      ''en-US'', ''ar-IQ'', ''ca-ES-valencia'', ''zh-CN'', ''de-CH'', ''en-GB'',
      ''es-MX'', ''fr-BE'', ''it-CH'', ''nl-BE'', ''nn-NO'', ''pt-PT'',
      ''ro-MD'', ''ru-MD'', ''sr-Latn-CS'', ''sv-FI'', ''ur-IN'', ''az-Cyrl-AZ'',
      ''dsb-DE'', ''tn-BW'', ''se-SE'', ''ga-IE'', ''ms-BN'', ''uz-Cyrl-UZ'',
      ''bn-BD'', ''pa-Arab-PK'', ''ta-LK'', ''mn-Mong-CN'', ''sd-Arab-PK'', ''iu-Latn-CA'',
      ''tzm-Latn-DZ'', ''ks-Deva-IN'', ''ne-IN'', ''ff-Latn-SN'', ''quz-EC'', ''ti-ER'',
      ''qps-Latn-x-sh'', ''qps-plocm'', ''en-US'', ''ar-EG'', ''zh-HK'', ''de-AT'',
      ''en-AU'', ''es-ES'', ''fr-CA'', ''sr-Cyrl-CS'', ''se-FI'', ''mn-Mong-MN'',
      ''dz-BT'', ''quz-PE'', ''ks-Arab-IN'', ''ar-LY'', ''zh-SG'', ''de-LU'',
      ''en-CA'', ''es-GT'', ''fr-CH'', ''hr-BA'', ''smj-NO'', ''tzm-Tfng-MA'',
      ''ar-DZ'', ''zh-MO'', ''de-LI'', ''en-NZ'', ''es-CR'', ''fr-LU'',
      ''bs-Latn-BA'', ''smj-SE'', ''ar-MA'', ''en-IE'', ''es-PA'', ''fr-MC'',
      ''sr-Latn-BA'', ''sma-NO'', ''ar-TN'', ''en-ZA'', ''es-DO'', ''fr-029'',
      ''sr-Cyrl-BA'', ''sma-SE'', ''en-US'', ''ar-OM'', ''en-JM'', ''es-VE'',
      ''fr-RE'', ''bs-Cyrl-BA'', ''sms-FI'', ''en-US'', ''ar-YE'', ''en-029'',
      ''es-CO'', ''fr-CD'', ''sr-Latn-RS'', ''smn-FI'', ''en-US'', ''ar-SY'',
      ''en-BZ'', ''es-PE'', ''fr-SN'', ''sr-Cyrl-RS'', ''en-US'', ''ar-JO'',
      ''en-TT'', ''es-AR'', ''fr-CM'', ''sr-Latn-ME'', ''en-US'', ''ar-LB'',
      ''en-ZW'', ''es-EC'', ''fr-CI'', ''sr-Cyrl-ME'', ''en-US'', ''ar-KW'',
      ''en-PH'', ''es-CL'', ''fr-ML'', ''en-US'', ''ar-AE'', ''en-ID'',
      ''es-UY'', ''fr-MA'', ''en-US'', ''ar-BH'', ''en-HK'', ''es-PY'',
      ''fr-HT'', ''en-US'', ''ar-QA'', ''en-IN'', ''es-BO'', ''en-US'',
      ''en-MY'', ''es-SV'', ''en-US'', ''en-SG'', ''es-HN'', ''en-US'',
      ''es-NI'', ''es-PR'', ''es-US'', ''es-419'', ''es-CU'', ''bs-Cyrl-BA'',
      ''bs-Latn-BA'', ''sr-Cyrl-RS'', ''sr-Latn-RS'', ''smn-FI'', ''az-Cyrl-AZ'', ''sms-FI'',
      ''zh-CN'', ''nn-NO'', ''bs-Latn-BA'', ''az-Latn-AZ'', ''sma-SE'', ''uz-Cyrl-UZ'',
      ''mn-MN'', ''iu-Cans-CA'', ''tzm-Tfng-MA'', ''zh-HK'', ''nb-NO'', ''sr-Latn-RS'',
      ''tg-Cyrl-TJ'', ''dsb-DE'', ''smj-SE'', ''uz-Latn-UZ'', ''pa-Arab-PK'', ''mn-Mong-CN'',
      ''sd-Arab-PK'', ''chr-Cher-US'', ''iu-Latn-CA'', ''tzm-Latn-DZ'', ''ff-Latn-SN'', ''ha-Latn-NG'',
      ''quc-Latn-GT'', ''ku-Arab-IQ'']"

definition language_names :: string where
  "language_names = concat (map (\<lambda>name. name @ [CHR 0x00]) language_name_list)"

text \<open>
  \<open>language_id_to_name\<close>: the binary search \<open>do { ... } while (l <= r)\<close> from the state
  \<open>l\<close>, \<open>r\<close>, and the function itself; \<open>NULL\<close> is \<open>None\<close>, and the name is the string that
  starts at the offset and ends before the next NUL.
\<close>

function language_search :: "16 word \<Rightarrow> int \<Rightarrow> int \<Rightarrow> string option" where
  "language_search id0 l r =
     (let m = (l + r) div 2 in
      if id0 < fst (language_id_map ! nat m)
      then (if l \<le> m - 1 then language_search id0 l (m - 1) else None)
      else if fst (language_id_map ! nat m) < id0
      then (if m + 1 \<le> r then language_search id0 (m + 1) r else None)
      else Some (takeWhile (\<lambda>c. c \<noteq> CHR 0x00)
                   (drop (snd (language_id_map ! nat m)) language_names)))"
  by pat_completeness auto
termination
  by (relation "measure (\<lambda>(id0, l, r). nat (r - l + 1))") auto

definition language_id_to_name :: "16 word \<Rightarrow> string option" where
  "language_id_to_name id0 = language_search id0 0 (int (length language_id_map) - 1)"

text \<open>\<open>pe_arch_to_windows_arch\<close>, with the values of the \<open>#define\<close>s.\<close>

definition pe_arch_to_windows_arch :: "nat \<Rightarrow> int" where
  "pe_arch_to_windows_arch pe_arch =
     (if pe_arch = 0x014C then 0
      else if pe_arch = 0x01C0 \<or> pe_arch = 0x01C4 \<or> pe_arch = 0x01C2 then 5
      else if pe_arch = 0x0200 then 6
      else if pe_arch = 0x8664 then 9
      else if pe_arch = 0xAA64 then 12
      else - 1)"

definition set_info_from_kernel32 ::
    "xml_library \<Rightarrow> windows_info_ctx \<Rightarrow> u8 list \<Rightarrow> windows_info_ctx" where
  "set_info_from_kernel32 lib ctx contents0 =
     (let size0 = length contents0 in
      if size0 < 0x40 then XML_WARN ctx 2 []
      else
        let e_lfanew = unat (le_decode (take 4 (drop 0x3C contents0))) in
        if size0 < e_lfanew \<or> size0 - e_lfanew < 6 \<or> e_lfanew mod 4 \<noteq> 0
        then XML_WARN ctx 2 []
        else if take 4 (drop e_lfanew contents0) \<noteq> [0x50, 0x45, 0, 0]
        then XML_WARN ctx 2 []
        else
          let pe_arch = unat (le_decode (take 2 (drop (e_lfanew + 4) contents0)));
              arch = pe_arch_to_windows_arch pe_arch
          in if 0 \<le> arch then set_number_property lib ctx ''WINDOWS/ARCH'' arch
             else XML_WARN ctx 1 [ARG_INT (int pe_arch)])"

definition version_key :: string where
  "version_key = ''Microsoft'' @ bsl @ ''Windows NT'' @ bsl @ ''CurrentVersion''"

text \<open>
  The statements of \<open>set_info_from_software_hive\<close> under "Major and minor version number",
  up to the end of \<open>if (major_version < 0 || minor_version < 0) { ... }\<close>: the two
  numbers, which start at -1 and stay so when a call fails, and the context.
\<close>

definition get_version_numbers ::
    "xml_library \<Rightarrow> windows_info_ctx \<Rightarrow> u8 list \<Rightarrow> int \<times> int \<times> windows_info_ctx" where
  "get_version_numbers lib ctx regf =
     (case get_number_from_registry lib ctx regf version_key ''CurrentMajorVersionNumber'' of
        (major0, ctx1) \<Rightarrow>
     (case get_number_from_registry lib ctx1 regf version_key ''CurrentMinorVersionNumber'' of
        (minor0, ctx2) \<Rightarrow>
          let major1 = (case major0 of None \<Rightarrow> - 1 | Some v \<Rightarrow> v);
              minor1 = (case minor0 of None \<Rightarrow> - 1 | Some v \<Rightarrow> v)
          in if major1 < 0 \<or> minor1 < 0 then
               (case get_string_from_registry lib ctx2 regf version_key ''CurrentVersion'' of
                  (None, c) \<Rightarrow> (major1, minor1, c)
                | (Some version_string, c) \<Rightarrow>
                    (case tscanf_version lib version_string of
                       [] \<Rightarrow> (major1, minor1, XML_WARN c 3 [ARG_STR version_string])
                     | [a] \<Rightarrow> (a, minor1, XML_WARN c 3 [ARG_STR version_string])
                     | a # b # rest \<Rightarrow> (a, b, c)))
             else (major1, minor1, ctx2)))"

text \<open>The statement \<open>if (major_version >= 0) { ... }\<close> that follows.\<close>

definition set_version_properties ::
    "xml_library \<Rightarrow> windows_info_ctx \<Rightarrow> int \<Rightarrow> int \<Rightarrow> windows_info_ctx" where
  "set_version_properties lib ctx major_version minor_version =
     (if 0 \<le> major_version then
        (let c = set_number_property lib ctx ''WINDOWS/VERSION/MAJOR'' major_version
         in if 0 \<le> minor_version
            then set_number_property lib c ''WINDOWS/VERSION/MINOR'' minor_version
            else c)
      else ctx)"

definition set_info_from_software_hive ::
    "xml_library \<Rightarrow> windows_info_ctx \<Rightarrow> u8 list \<Rightarrow> windows_info_ctx" where
  "set_info_from_software_hive lib ctx regf =
     (let ctx1 = copy_registry_string lib ctx regf version_key ''EditionID'' ''FLAGS'';
          ctx2 = copy_registry_string lib ctx1 regf version_key ''ProductName'' ''DISPLAYNAME'';
          ctx3 = copy_registry_string lib ctx2 regf version_key ''ProductName''
                   ''DISPLAYDESCRIPTION'';
          ctx4 = copy_registry_string lib ctx3 regf version_key ''EditionID''
                   ''WINDOWS/EDITIONID'';
          ctx5 = copy_registry_string lib ctx4 regf version_key ''InstallationType''
                   ''WINDOWS/INSTALLATIONTYPE'';
          ctx6 = copy_registry_string lib ctx5 regf version_key ''ProductName''
                   ''WINDOWS/PRODUCTNAME'';
          (major_version, minor_version, ctx7) = get_version_numbers lib ctx6 regf;
          ctx8 = set_version_properties lib ctx7 major_version minor_version
      in copy_registry_string lib ctx8 regf version_key ''CurrentBuild''
           ''WINDOWS/VERSION/BUILD'')"

definition set_default_language ::
    "xml_library \<Rightarrow> windows_info_ctx \<Rightarrow> u8 list \<Rightarrow> windows_info_ctx" where
  "set_default_language lib ctx regf =
     (case get_string_from_registry lib ctx regf
             (''ControlSet001'' @ bsl @ ''Control'' @ bsl @ ''Nls'' @ bsl @ ''Language'')
             ''InstallLanguage'' of
        (None, ctx1) \<Rightarrow> ctx1
      | (Some string, ctx1) \<Rightarrow>
          (case tscanf_hex lib string of
             None \<Rightarrow> XML_WARN ctx1 4 [ARG_STR string]
           | Some language_id \<Rightarrow>
               (case language_id_to_name (ucast language_id) of
                  None \<Rightarrow> XML_WARN ctx1 4 [ARG_STR string]
                | Some language_name \<Rightarrow>
                    set_string_property lib ctx1 ''WINDOWS/LANGUAGES/DEFAULT'' language_name)))"

text \<open>
  \<open>for (tchar **p = subkeys; *p; p++)\<close>, with the index \<open>p - subkeys + 1\<close> of the subkey.
\<close>

fun set_languages ::
    "xml_library \<Rightarrow> windows_info_ctx \<Rightarrow> nat \<Rightarrow> string list \<Rightarrow> windows_info_ctx" where
  "set_languages lib ctx index [] = ctx"
| "set_languages lib ctx index (p # subkeys) =
     set_languages lib
       (set_string_property lib ctx
          (''WINDOWS/LANGUAGES/LANGUAGE['' @ decimal_nat index @ '']'') p)
       (index + 1) subkeys"

definition set_info_from_system_hive ::
    "xml_library \<Rightarrow> windows_info_ctx \<Rightarrow> u8 list \<Rightarrow> windows_info_ctx" where
  "set_info_from_system_hive lib ctx regf =
     (let windows_key = ''ControlSet001'' @ bsl @ ''Control'' @ bsl @ ''Windows'';
          uilanguages_key =
            ''ControlSet001'' @ bsl @ ''Control'' @ bsl @ ''MUI'' @ bsl @ ''UILanguages'';
          productoptions_key =
            ''ControlSet001'' @ bsl @ ''Control'' @ bsl @ ''ProductOptions'';
          ctx1 = (case get_number_from_registry lib ctx regf windows_key ''CSDBuildNumber'' of
                    (Some spbuild, c) \<Rightarrow>
                      set_number_property lib c ''WINDOWS/VERSION/SPBUILD'' spbuild
                  | (None, c) \<Rightarrow> c);
          ctx2 = (case get_number_from_registry lib ctx1 regf windows_key ''CSDVersion'' of
                    (Some splevel, c) \<Rightarrow>
                      set_number_property lib c ''WINDOWS/VERSION/SPLEVEL'' (splevel div 256)
                  | (None, c) \<Rightarrow> c);
          ctx3 = copy_registry_string lib ctx2 regf productoptions_key ''ProductType''
                   ''WINDOWS/PRODUCTTYPE'';
          ctx4 = copy_registry_string lib ctx3 regf productoptions_key ''ProductSuite''
                   ''WINDOWS/PRODUCTSUITE'';
          ctx5 = copy_registry_string lib ctx4 regf
                   (''ControlSet001'' @ bsl @ ''Control'' @ bsl @ ''Class'' @ bsl @
                    ''{4D36E966-E325-11CE-BFC1-08002BE10318}'' @ bsl @ ''0000'')
                   ''MatchingDeviceId'' ''WINDOWS/HAL'';
          ctx6 = (case list_subkeys_in_registry lib ctx5 regf uilanguages_key of
                    (Some subkeys, c) \<Rightarrow> set_languages lib c 1 subkeys
                  | (None, c) \<Rightarrow> c)
      in set_default_language lib ctx6 regf)"

definition load_file_contents ::
    "xml_library \<Rightarrow> windows_info_ctx \<Rightarrow> string \<Rightarrow> u8 list option \<times> windows_info_ctx" where
  "load_file_contents lib ctx path =
     (case image_file lib path of
        FILE_NOT_FOUND \<Rightarrow> (None, XML_WARN ctx 5 [ARG_STR path])
      | FILE_NO_CONTENTS \<Rightarrow> (None, XML_WARN ctx 6 [ARG_STR path])
      | FILE_LOAD_ERROR ret blob_size \<Rightarrow>
          (None,
           (XML_WARN ctx 7
              [ARG_STR path, ARG_INT (int blob_size),
               ARG_STR (wimlib_get_error_string lib ret)])
             \<lparr>oom_encountered :=
                oom_encountered ctx \<or> (ret = WIMLIB_ERR_NOMEM \<and> blob_size < 100000000)\<rparr>)
      | FILE_CONTENTS bytes \<Rightarrow> (Some bytes, ctx))"

definition load_hive ::
    "xml_library \<Rightarrow> windows_info_ctx \<Rightarrow> string \<Rightarrow> u8 list option \<times> windows_info_ctx" where
  "load_hive lib ctx path =
     (case load_file_contents lib ctx path of
        (None, ctx1) \<Rightarrow> (None, ctx1)
      | (Some hive_mem, ctx1) \<Rightarrow>
          (case is_registry_valid lib ctx1 hive_mem of
             (valid, ctx2) \<Rightarrow>
               if \<not> valid then (None, XML_WARN ctx2 8 [ARG_STR path])
               else (Some hive_mem, ctx2)))"

text \<open>
  \<open>set_windows_specific_info\<close>, from the properties of the selected image: the code
  returned (\<open>None\<close> for 0) and the context at the end, with the properties and all the
  messages printed.
\<close>

definition set_windows_specific_info ::
    "xml_library \<Rightarrow> (string \<times> string) list \<Rightarrow> wimlib_error option \<times> windows_info_ctx" where
  "set_windows_specific_info lib properties0 =
     (let ctx = \<lparr>properties = properties0, oom_encountered = False,
                 debug_enabled = (tgetenv lib ''WIMLIB_DEBUG_XML_INFO'' \<noteq> None),
                 messages = [], xml_warn_reached = []\<rparr>;
          ctx1 = (case load_file_contents lib ctx kernel32_dll_path of
                    (Some contents0, c) \<Rightarrow>
                      set_info_from_kernel32 lib
                        (set_string_property lib c ''WINDOWS/SYSTEMROOT'' ''WINDOWS'') contents0
                  | (None, c) \<Rightarrow> c);
          ctx2 = (case load_hive lib ctx1 software_hive_path of
                    (Some contents0, c) \<Rightarrow> set_info_from_software_hive lib c contents0
                  | (None, c) \<Rightarrow> c);
          ctx3 = (case load_hive lib ctx2 system_hive_path of
                    (Some contents0, c) \<Rightarrow> set_info_from_system_hive lib c contents0
                  | (None, c) \<Rightarrow> c)
      in if oom_encountered ctx3
         then (Some WIMLIB_ERR_NOMEM,
               ctx3\<lparr>messages := messages ctx3 @
                 [ERROR (''Ran out of memory while setting Windows-specific '' @
                         ''metadata in the WIM file'' @ [CHR 0x27] @ ''s XML document.'') []]\<rparr>)
         else (None, ctx3))"

text \<open>
  A warning about unexpected contents of the registry or of a file: a \<open>WARNING\<close> with one
  of the formats of the \<open>XML_WARN\<close> calls.
\<close>

fun is_xml_warning :: "message \<Rightarrow> bool" where
  "is_xml_warning (WARNING format args) = (format \<in> set xml_warn_formats)"
| "is_xml_warning (ERROR format args) = False"

text \<open>
  Every \<open>XML_WARN\<close> statement reached so far has printed its warning: the warnings of that
  kind among the messages are those of the statements reached, in the same order.
\<close>

definition reached_are_printed :: "windows_info_ctx \<Rightarrow> bool" where
  "reached_are_printed ctx \<longleftrightarrow> filter is_xml_warning (messages ctx) = xml_warn_reached ctx"

text \<open>
  Values for the parameters in the examples: an environment where only \<open>DEBUG_XML_INFO\<close>
  is set, one where only \<open>WIMLIB_DEBUG_XML_INFO\<close> is set, and a library over an image
  that has none of the files asked for.
\<close>

definition env_debug_xml_info :: "string \<Rightarrow> string option" where
  "env_debug_xml_info name = (if name = ''DEBUG_XML_INFO'' then Some ''1'' else None)"

definition env_wimlib_debug_xml_info :: "string \<Rightarrow> string option" where
  "env_wimlib_debug_xml_info name =
     (if name = ''WIMLIB_DEBUG_XML_INFO'' then Some ''1'' else None)"

definition no_file :: "string \<Rightarrow> file_lookup" where
  "no_file path = FILE_NOT_FOUND"

definition example_xml_library :: "(string \<Rightarrow> string option) \<Rightarrow> xml_library" where
  "example_xml_library env =
     \<lparr>tgetenv = env, image_file = no_file,
      hive_validate = (\<lambda>hive. HIVE_OK),
      hive_get_string = (\<lambda>hive key value. (HIVE_FAILURE ''HIVE_KEY_NOT_FOUND'', [])),
      hive_get_number = (\<lambda>hive key value. (HIVE_FAILURE ''HIVE_KEY_NOT_FOUND'', 0)),
      hive_list_subkeys = (\<lambda>hive key. (HIVE_FAILURE ''HIVE_KEY_NOT_FOUND'', [])),
      hive_status_to_string = (\<lambda>status. ''status''),
      wimlib_set_image_property = (\<lambda>props name value. Inr ((name, value) # props)),
      wimlib_get_error_string = (\<lambda>ret. ''error''),
      tscanf_version = (\<lambda>s. []),
      tscanf_hex = (\<lambda>s. None)\<rparr>"

text \<open>
  An image whose files are there and not as expected: a \<open>kernel32.dll\<close> of two bytes, a
  SOFTWARE hive without contents and an empty SYSTEM hive, which the hive parser of this
  library refuses; \<open>WIMLIB_DEBUG_XML_INFO\<close> is set.
\<close>

definition unexpected_files :: "string \<Rightarrow> file_lookup" where
  "unexpected_files path =
     (if path = kernel32_dll_path then FILE_CONTENTS [0x4D, 0x5A]
      else if path = software_hive_path then FILE_NO_CONTENTS
      else FILE_CONTENTS [])"

definition example_unexpected_library :: xml_library where
  "example_unexpected_library =
     (example_xml_library env_wimlib_debug_xml_info)
       \<lparr>image_file := unexpected_files,
        hive_validate := (\<lambda>hive. if hive = [] then HIVE_FAILURE ''HIVE_CORRUPT'' else HIVE_OK)\<rparr>"


fun decompress_calls :: "io_event list \<Rightarrow> (nat \<times> nat) list" where
  "decompress_calls [] = []"
| "decompress_calls (DECOMPRESS c u # es) = (c, u) # decompress_calls es"
| "decompress_calls (e # es) = decompress_calls es"

section \<open>Properties of the byte codecs\<close>

lemma le_decode_encode: "le_decode (le_encode n v) = take_bit (8 * n) v"
proof (induction n arbitrary: v)
  case 0 show ?case by simp
next
  case (Suc n)
  show ?case
    apply (simp add: Suc)
    apply (rule bit_word_eqI)
    apply (auto simp: bit_simps)
    done
qed

lemma length_le_encode: "length (le_encode n v) = n"
  by (induction n arbitrary: v) auto

lemma get_bytes_encode:
  "get_bytes n (le_encode n v @ rest) = Some (rest, take_bit (8 * n) v)"
  by (simp add: get_bytes_def le_decode_encode length_le_encode)

lemma high_bits_numeral: "(0xc000000000000000 :: u64) = push_bit 62 (mask 2)"
  by (simp add: mask_eq_exp_minus_1)

lemma bit_high_bits: "bit (0xc000000000000000 :: u64) n = (n = 62 \<or> n = 63)"
  unfolding high_bits_numeral
  by (simp only: bit_push_bit_iff bit_mask_iff) (auto simp: possible_bit_word)

lemma high_bits_set_iff:
  "((x :: u64) AND 0xc000000000000000 \<noteq> 0) = (bit x 62 \<or> bit x 63)"
proof -
  have b: "bit (x AND 0xc000000000000000) n = (bit x n \<and> (n = 62 \<or> n = 63))" for n
    by (simp only: bit_and_iff bit_high_bits)
  show ?thesis
  proof
    assume "x AND 0xc000000000000000 \<noteq> 0"
    then have "\<exists>n. bit (x AND 0xc000000000000000) n"
      by (subst (asm) bit_eq_iff) auto
    then show "bit x 62 \<or> bit x 63" unfolding b by blast
  next
    assume "bit x 62 \<or> bit x 63"
    then have "bit (x AND 0xc000000000000000) 62 \<or> bit (x AND 0xc000000000000000) 63"
      unfolding b by simp
    then show "x AND 0xc000000000000000 \<noteq> 0" by force
  qed
qed

lemma low_bits_numeral: "(0x3fffffffffffffff :: u64) = mask 62"
  by (simp add: mask_eq_exp_minus_1)

lemma and_low_bits: "(x :: u64) AND 0x3fffffffffffffff = take_bit 62 x"
  unfolding low_bits_numeral by (simp only: take_bit_eq_mask)

lemma take_bit_word_small: "(x :: u64) < 2 ^ n \<Longrightarrow> take_bit n x = x"
  by (simp add: mod_word_less take_bit_eq_mod)

lemma high_bits_clear_if_small:
  assumes "(x :: u64) < 2 ^ 62"
  shows "\<not> bit x 62" and "\<not> bit x 63"
proof -
  have "take_bit 62 x = x" using assms by (rule take_bit_word_small)
  then have "bit x n = (n < 62 \<and> bit x n)" for n
    by (metis bit_take_bit_iff)
  from this [of 62] this [of 63] show "\<not> bit x 62" and "\<not> bit x 63" by simp_all
qed

lemma take_bit_62_unchanged:
  assumes "\<not> bit (x :: u64) 62" and "\<not> bit x 63"
  shows "take_bit 62 x = x"
proof (rule bit_word_eqI)
  fix n assume "n < LENGTH(64)"
  then have "n < 62 \<or> n = 62 \<or> n = 63" by auto
  with assms show "bit (take_bit 62 x) n = bit x n"
    by (auto simp: bit_take_bit_iff)
qed

lemma take_bit_64_u64: "take_bit 64 (x :: u64) = x"
  by (rule take_bit_word_eq_self) simp

section \<open>Properties of resource entries\<close>

text \<open>
  Claim C7. For an on-disk resource entry (24 bytes at \<open>p\<close>), \<open>get_resource_entry\<close> clears
  bits 62 and 63 of the offset and of the original size (the parsed value is the low 62
  bits of the stored one) and prints one warning for each of the two fields that had one
  of these bits set; a field with both bits clear is parsed unchanged and prints
  no warning. The size and the flags are taken as stored, and the returned pointer is 24
  bytes behind \<open>p\<close>.
\<close>

theorem get_resource_entry_masks_reserved_bits:
  assumes "24 \<le> length p"
  shows "get_resource_entry p =
           Some (drop 24 p,
                 \<lparr>size_field = le_decode (take 7 p), flags = p ! 7,
                  offset_field = take_bit 62 (le_decode (take 8 (drop 8 p))),
                  original_size = take_bit 62 (le_decode (take 8 (drop 16 p)))\<rparr>,
                 (if bit (le_decode (take 8 (drop 8 p))) 62 \<or>
                     bit (le_decode (take 8 (drop 8 p))) 63
                  then [WARNING ''Truncating offset in resource entry'' []] else []) @
                 (if bit (le_decode (take 8 (drop 16 p))) 62 \<or>
                     bit (le_decode (take 8 (drop 16 p))) 63
                  then [WARNING ''Truncating original_size in resource entry'' []] else []))
         \<and> (\<forall>x :: u64. (\<not> bit x 62 \<and> \<not> bit x 63) = (take_bit 62 x = x))"
proof -
  have d7: "drop 7 p = p ! 7 # drop 8 p"
    using assms Cons_nth_drop_Suc [of 7 p] by simp
  have u: "take_bit 62 x = x" if "x AND 0xc000000000000000 = 0" for x :: u64
    using that high_bits_set_iff [of x] take_bit_62_unchanged [of x] by blast
  have parse: "get_resource_entry p =
           Some (drop 24 p,
                 \<lparr>size_field = le_decode (take 7 p), flags = p ! 7,
                  offset_field = take_bit 62 (le_decode (take 8 (drop 8 p))),
                  original_size = take_bit 62 (le_decode (take 8 (drop 16 p)))\<rparr>,
                 (if bit (le_decode (take 8 (drop 8 p))) 62 \<or>
                     bit (le_decode (take 8 (drop 8 p))) 63
                  then [WARNING ''Truncating offset in resource entry'' []] else []) @
                 (if bit (le_decode (take 8 (drop 16 p))) 62 \<or>
                     bit (le_decode (take 8 (drop 16 p))) 63
                  then [WARNING ''Truncating original_size in resource entry'' []] else []))"
    using assms
    by (auto simp: get_resource_entry_def get_u56_def get_u8_def get_u64_def get_bytes_def
        d7 and_low_bits high_bits_set_iff [symmetric] u)
  have "(\<not> bit x 62 \<and> \<not> bit x 63) = (take_bit 62 x = x)" for x :: u64
  proof
    assume "\<not> bit x 62 \<and> \<not> bit x 63"
    then show "take_bit 62 x = x" by (simp add: take_bit_62_unchanged)
  next
    assume e: "take_bit 62 x = x"
    have "\<not> bit (take_bit 62 x) 62 \<and> \<not> bit (take_bit 62 x) 63"
      by (simp add: bit_take_bit_iff)
    then show "\<not> bit x 62 \<and> \<not> bit x 63" unfolding e .
  qed
  with parse show ?thesis by blast
qed

theorem get_resource_entry_masks_reserved_bits_witness:
  "get_resource_entry
     [1, 0, 0, 0, 0, 0, 0, 4, 0, 0, 0, 0, 0, 0, 0, 0x80, 5, 0, 0, 0, 0, 0, 0, 0, 9] =
   Some ([9], \<lparr>size_field = 1, flags = 4, offset_field = 0, original_size = 5\<rparr>,
         [WARNING ''Truncating offset in resource entry'' []])"
proof -
  have l: "24 \<le> length [1, 0, 0, 0, 0, 0, 0, 4, 0, 0, 0, 0, 0, 0, 0, 0x80,
                          5, 0, 0, 0, 0, 0, 0, 0, 9 :: u8]"
    by simp
  have o: "le_decode [0, 0, 0, 0, 0, 0, 0, 0x80] = 0x8000000000000000" by simp
  have s: "le_decode [5, 0, 0, 0, 0, 0, 0, 0] = 5" by simp
  have z: "le_decode [1, 0, 0, 0, 0, 0, 0] = 1" by simp
  have b: "\<not> bit (0x8000000000000000 :: u64) 62" "bit (0x8000000000000000 :: u64) 63"
      "\<not> bit (5 :: u64) 62" "\<not> bit (5 :: u64) 63"
      "take_bit 62 (0x8000000000000000 :: u64) = 0" "take_bit 62 (5 :: u64) = 5"
    by (simp_all add: bit_iff_odd take_bit_eq_mod)
  show ?thesis
    using get_resource_entry_masks_reserved_bits [OF l, THEN conjunct1]
    by (simp add: o s z b)
qed

text \<open>
  Claim C8. For a resource entry whose size is below \<open>2^56\<close> and whose offset and original
  size are below \<open>2^62\<close>, parsing what \<open>put_resource_entry\<close> wrote gives the same entry
  back, with no warning; \<open>put_resource_entry\<close> writes exactly 24 bytes (7 for the size, 1
  for the flags, 8 for the offset, 8 for the original size) and \<open>get_resource_entry\<close>
  stops exactly behind them.
\<close>

theorem put_get_resource_entry_roundtrip:
  assumes "size_field e < 2 ^ 56" and "offset_field e < 2 ^ 62" and "original_size e < 2 ^ 62"
  shows "get_resource_entry (put_resource_entry e @ rest) = Some (rest, e, []) \<and>
         length (put_resource_entry e) = 24 \<and>
         put_resource_entry e =
           le_encode 7 (size_field e) @ [flags e] @ le_encode 8 (offset_field e) @
           le_encode 8 (original_size e)"
proof -
  have o: "offset_field e AND 0xc000000000000000 = 0"
    using high_bits_clear_if_small [OF assms(2)] high_bits_set_iff [of "offset_field e"] by blast
  have s: "original_size e AND 0xc000000000000000 = 0"
    using high_bits_clear_if_small [OF assms(3)] high_bits_set_iff [of "original_size e"] by blast
  have z: "take_bit 56 (size_field e) = size_field e"
    using assms(1) by (rule take_bit_word_small)
  show ?thesis
    by (simp add: get_resource_entry_def put_resource_entry_def get_u56_def get_u8_def
        get_u64_def put_u56_def put_u8_def put_u64_def get_bytes_encode length_le_encode
        take_bit_64_u64 o s z)
qed

theorem put_get_resource_entry_roundtrip_witness:
  "get_resource_entry
     (put_resource_entry
        \<lparr>size_field = 5, flags = 4, offset_field = 0x100, original_size = 77\<rparr> @ [1, 2, 3]) =
   Some ([1, 2, 3], \<lparr>size_field = 5, flags = 4, offset_field = 0x100, original_size = 77\<rparr>, [])
   \<and> length (put_resource_entry
        \<lparr>size_field = 5, flags = 4, offset_field = 0x100, original_size = 77\<rparr>) = 24"
proof -
  let ?e = "\<lparr>size_field = 5, flags = 4, offset_field = 0x100, original_size = 77\<rparr>"
  have h: "size_field ?e < 2 ^ 56" "offset_field ?e < 2 ^ 62" "original_size ?e < 2 ^ 62"
    by simp_all
  from put_get_resource_entry_roundtrip [OF h, of "[1, 2, 3]"] show ?thesis
    by blast
qed

section \<open>Properties of the compressed-resource reader\<close>

lemma read_entries_numeral:
  "read_entries w (numeral k) buf =
     le_decode (take w buf) # read_entries w (pred_numeral k) (drop w buf)"
  by (simp add: numeral_eq_Suc)

lemmas reader_eval =
  read_compressed_resource_def read_chunk_def chunk_sizes_def array_get_def
  read_stored_chunk_def read_compressed_chunk_def read_entries_numeral
  fseeko_set_def fseeko_cur_def fread_def chunk_entry_size_def WIM_CHUNK_SIZE_def Let_def














text \<open>
  Claim C2. In the loop body, a chunk whose derived compressed size equals its
  uncompressed size is copied: the bytes stored in the file (from \<open>start_offset\<close> behind
  the start of the chunk, \<open>partial_chunk_size\<close> of them) go to the output unchanged, no
  decompressor call is made, and the outcome is the same for every decompressor, so for
  every declared codec.
\<close>

theorem stored_chunk_is_copied_not_decompressed:
  assumes "chunk_sizes r i = Some (compressed_chunk_size, uncompressed_chunk_size)"
    and "compressed_chunk_size = uncompressed_chunk_size"
  shows "read_chunk (r\<lparr>decompress := any_decompress\<rparr>) i fp = read_chunk r i fp \<and>
         decompress_calls (fst (read_chunk r i fp)) = [] \<and>
         (\<forall>fp' bytes. snd (read_chunk r i fp) = Inr (fp', bytes) \<longrightarrow>
            bytes =
              take (unat ((if i = end_chunk r then end_chunk_offset r else WIM_CHUNK_SIZE - 1)
                          + 1 - (if i = start_chunk r then start_chunk_offset r else 0)))
                (drop (file_pos fp +
                       unat (if i = start_chunk r then start_chunk_offset r else 0))
                   (contents fp)))"
proof -
  define so where "so = (if i = start_chunk r then start_chunk_offset r else 0)"
  define ps where
    "ps = (if i = end_chunk r then end_chunk_offset r else WIM_CHUNK_SIZE - 1) + 1 - so"
  have sizes: "chunk_sizes (r\<lparr>decompress := any_decompress\<rparr>) i = chunk_sizes r i"
    by (simp add: chunk_sizes_def split: option.split)
  have rc: "read_chunk r i fp =
      (CHUNK (unat i) # fst (read_stored_chunk fp so ps), snd (read_stored_chunk fp so ps))"
    using assms by (simp add: read_chunk_def Let_def so_def ps_def case_prod_unfold)
  have rc': "read_chunk (r\<lparr>decompress := any_decompress\<rparr>) i fp =
      (CHUNK (unat i) # fst (read_stored_chunk fp so ps), snd (read_stored_chunk fp so ps))"
    using assms
    by (simp add: read_chunk_def sizes Let_def so_def ps_def case_prod_unfold)
  have calls: "decompress_calls (fst (read_stored_chunk fp so ps)) = []"
    by (simp add: read_stored_chunk_def split: option.split prod.split)
  have bytes: "bytes = take (unat ps) (drop (file_pos fp + unat so) (contents fp))"
    if "snd (read_stored_chunk fp so ps) = Inr (fp', bytes)" for fp' bytes
    using that
    by (auto simp: read_stored_chunk_def fseeko_cur_def fread_def Let_def
        split: if_splits)
  show ?thesis
    unfolding rc rc' using calls bytes
    unfolding so_def ps_def by simp
qed

theorem stored_chunk_is_copied_not_decompressed_witness:
  "read_chunk
     \<lparr>decompress = (\<lambda>c n. None), resource_compressed_size = 18,
      resource_uncompressed_size = 65541, num_chunks = 3, chunk_table_size = 8,
      start_chunk = 1, start_chunk_offset = 32766, end_chunk = 2, end_chunk_offset = 1,
      chunk_offsets = [2, 5]\<rparr> 2
     \<lparr>contents = [2, 0, 0, 0, 5, 0, 0, 0, 7, 9, 8, 1, 1, 3, 4, 5, 6, 7], file_pos = 13\<rparr> =
   ([CHUNK 2, FREAD 2],
    Inr (\<lparr>contents = [2, 0, 0, 0, 5, 0, 0, 0, 7, 9, 8, 1, 1, 3, 4, 5, 6, 7], file_pos = 15\<rparr>,
         [3, 4])) \<and>
   read_chunk
     \<lparr>decompress = (\<lambda>c n. Some (replicate n (hd c))), resource_compressed_size = 18,
      resource_uncompressed_size = 65541, num_chunks = 3, chunk_table_size = 8,
      start_chunk = 1, start_chunk_offset = 32766, end_chunk = 2, end_chunk_offset = 1,
      chunk_offsets = [2, 5]\<rparr> 2
     \<lparr>contents = [2, 0, 0, 0, 5, 0, 0, 0, 7, 9, 8, 1, 1, 3, 4, 5, 6, 7], file_pos = 13\<rparr> =
   ([CHUNK 2, FREAD 2],
    Inr (\<lparr>contents = [2, 0, 0, 0, 5, 0, 0, 0, 7, 9, 8, 1, 1, 3, 4, 5, 6, 7], file_pos = 15\<rparr>,
         [3, 4]))"
proof -
  let ?r = "\<lparr>decompress = (\<lambda>c n. None), resource_compressed_size = 18,
      resource_uncompressed_size = 65541, num_chunks = 3, chunk_table_size = 8,
      start_chunk = 1, start_chunk_offset = 32766, end_chunk = 2, end_chunk_offset = 1,
      chunk_offsets = [2, 5]\<rparr>"
  let ?fp = "\<lparr>contents = [2, 0, 0, 0, 5, 0, 0, 0, 7, 9, 8, 1, 1, 3, 4, 5, 6, 7 :: u8],
      file_pos = 13\<rparr>"
  have sizes: "chunk_sizes ?r 2 = Some (5, 5)"
    by (simp add: chunk_sizes_def array_get_def WIM_CHUNK_SIZE_def)
  have run: "read_chunk ?r 2 ?fp =
      ([CHUNK 2, FREAD 2],
       Inr (\<lparr>contents = [2, 0, 0, 0, 5, 0, 0, 0, 7, 9, 8, 1, 1, 3, 4, 5, 6, 7],
             file_pos = 15\<rparr>, [3, 4]))"
    by (simp add: reader_eval)
  from stored_chunk_is_copied_not_decompressed
         [OF sizes refl, of "\<lambda>c n. Some (replicate n (hd c))" ?fp]
  have "read_chunk (?r\<lparr>decompress := \<lambda>c n. Some (replicate n (hd c))\<rparr>) 2 ?fp =
        read_chunk ?r 2 ?fp"
    by blast
  with run show ?thesis by simp
qed



text \<open>
  Claim C4 (the code does otherwise). A resource of two chunks whose chunk table gives
  the first chunk the compressed size 40000: the reader makes no check of the size, asks
  \<open>fread\<close> for 40000 bytes into \<open>compressed_buf\<close>, which has 32767, and the file has them.
  No error code is returned before the read.
\<close>

theorem oversized_chunk_is_read_unchecked:
  "read_compressed_resource (\<lambda>c n. None) (\<lambda>c n. None)
     \<lparr>contents = [0x40, 0x9c, 0, 0] @ replicate 40000 1, file_pos = 0\<rparr>
     40004 65536 0 WIMLIB_COMPRESSION_TYPE_LZX 32768 0 =
   ([FSEEKO_SET 0, FREAD 4, FSEEKO_SET 4, CHUNK 0, FREAD 40000], Inl UNDEFINED_BEHAVIOUR)"
  by (simp add: reader_eval chunk_loop.simps)

section \<open>Properties of reading and extracting resources\<close>

lemma extract_loop_cases:
  assumes "sizeof_buf \<noteq> (0 :: u64)"
    and "\<And>offs ctx arg. P 0 offs ctx arg"
    and "\<And>bytes_remaining offs ctx arg.
           bytes_remaining \<noteq> 0 \<Longrightarrow>
           (\<And>offs1 ctx1 arg1. P (bytes_remaining - min bytes_remaining sizeof_buf) offs1 ctx1 arg1) \<Longrightarrow>
           P bytes_remaining offs ctx arg"
  shows "P bytes_remaining offs ctx arg"
proof (induction "unat bytes_remaining" arbitrary: bytes_remaining offs ctx arg rule: less_induct)
  case less
  show ?case
  proof (cases "bytes_remaining = 0")
    case True
    then show ?thesis using assms(2) by simp
  next
    case False
    let ?t = "min bytes_remaining sizeof_buf"
    have t0: "?t \<noteq> 0" using False assms(1) by (simp add: min_def)
    have "?t \<le> bytes_remaining" by simp
    then have "unat (bytes_remaining - ?t) = unat bytes_remaining - unat ?t"
      by (rule unat_sub)
    moreover have "0 < unat ?t" using t0 by (simp add: unat_gt_0)
    moreover have "0 < unat bytes_remaining" using False by (simp add: unat_gt_0)
    ultimately have "unat (bytes_remaining - ?t) < unat bytes_remaining" by simp
    then have "P (bytes_remaining - ?t) offs1 ctx1 arg1" for offs1 ctx1 arg1
      by (rule less)
    then show ?thesis using assms(3) [OF False] by blast
  qed
qed

lemma extract_loop_terminates:
  assumes "sizeof_buf \<noteq> 0"
  shows "\<exists>res. extract_loop ext lte sizeof_buf check_hash extract_chunk bytes_remaining offs
                  ctx arg = Some res"
proof (induction bytes_remaining offs ctx arg rule: extract_loop_cases [OF assms])
  case (1 offs ctx arg)
  show ?case by (simp add: extract_loop.simps)
next
  case (2 bytes_remaining offs ctx arg)
  show ?case
    using 2(1) 2(2)
    by (subst extract_loop.simps) (auto split: sum.split)
qed

lemma extract_loop_collects:
  assumes "sizeof_buf \<noteq> 0"
  shows "extract_loop ext lte sizeof_buf True collect_chunk bytes_remaining offs ctx extracted =
           Some (Inr (ctx1, extracted1)) \<Longrightarrow>
         \<exists>bytes. ctx1 = ctx @ bytes \<and> extracted1 = extracted @ bytes"
proof (induction bytes_remaining offs ctx extracted rule: extract_loop_cases [OF assms])
  case (1 offs ctx arg)
  then show ?case by (simp add: extract_loop.simps)
next
  case (2 bytes_remaining offs ctx arg)
  from 2(3) 2(1) obtain buf where
    "extract_loop ext lte sizeof_buf True collect_chunk
       (bytes_remaining - min bytes_remaining sizeof_buf)
       (offs + min bytes_remaining sizeof_buf) (ctx @ buf) (arg @ buf) =
     Some (Inr (ctx1, extracted1))"
    by (subst (asm) extract_loop.simps)
       (auto simp: collect_chunk_def sha1_update_def split: sum.splits)
  from 2(2) [OF this] show ?case by auto
qed

lemma read_wim_resource_ignores_hash:
  "read_wim_resource (ext\<lparr>sha1_buffer := any_sha1\<rparr>) (lte\<lparr>hash := any_hash\<rparr>) size0 offs rflags =
   read_wim_resource ext lte size0 offs rflags"
  by (simp add: read_wim_resource_def wim_resource_compression_type_def Let_def
      split: resource_location.split option.split)

lemma extract_loop_ignores_hash:
  assumes "sizeof_buf \<noteq> 0"
  shows "extract_loop (ext\<lparr>sha1_buffer := any_sha1\<rparr>) (lte\<lparr>hash := any_hash\<rparr>) sizeof_buf check_hash
           extract_chunk bytes_remaining offs ctx arg =
         extract_loop ext lte sizeof_buf check_hash extract_chunk bytes_remaining offs ctx arg"
proof (induction bytes_remaining offs ctx arg rule: extract_loop_cases [OF assms])
  case (1 offs ctx arg)
  show ?case by (simp add: extract_loop.simps)
next
  case (2 bytes_remaining offs ctx arg)
  show ?case
    using 2(1) 2(2)
    by (auto simp:
        extract_loop.simps [of "ext\<lparr>sha1_buffer := any_sha1\<rparr>" "lte\<lparr>hash := any_hash\<rparr>"
          sizeof_buf check_hash extract_chunk bytes_remaining offs ctx arg]
        extract_loop.simps [of ext lte sizeof_buf check_hash extract_chunk bytes_remaining
          offs ctx arg]
        read_wim_resource_ignores_hash split: sum.split)
qed

lemma read_stored_chunk_error:
  "snd (read_stored_chunk fp s p) = Inl e \<Longrightarrow> e = RETURNED WIMLIB_ERR_READ"
  by (auto simp: read_stored_chunk_def split: option.splits prod.splits if_splits)

lemma read_compressed_chunk_error:
  "snd (read_compressed_chunk d fp c u s p b) = Inl e \<Longrightarrow>
   e \<in> {RETURNED WIMLIB_ERR_READ, RETURNED WIMLIB_ERR_DECOMPRESSION, UNDEFINED_BEHAVIOUR}"
  by (auto simp: read_compressed_chunk_def split: option.splits prod.splits if_splits)

lemma read_chunk_error:
  "snd (read_chunk r i fp) = Inl e \<Longrightarrow>
   e \<in> {RETURNED WIMLIB_ERR_READ, RETURNED WIMLIB_ERR_DECOMPRESSION, UNDEFINED_BEHAVIOUR}"
proof (cases "chunk_sizes r i")
  case None
  then show "snd (read_chunk r i fp) = Inl e \<Longrightarrow> ?thesis" by (simp add: read_chunk_def)
next
  case (Some cu)
  obtain c u where cu: "cu = (c, u)" by (cases cu)
  show "snd (read_chunk r i fp) = Inl e \<Longrightarrow> ?thesis"
    using read_stored_chunk_error read_compressed_chunk_error
    by (auto simp: read_chunk_def Some cu Let_def case_prod_unfold split: if_splits)
qed

lemma chunk_loop_error:
  "chunk_loop r i fp out events = (events', Inl e) \<Longrightarrow>
   e \<in> {RETURNED WIMLIB_ERR_READ, RETURNED WIMLIB_ERR_DECOMPRESSION, UNDEFINED_BEHAVIOUR}"
proof (induction r i fp out events rule: chunk_loop.induct)
  case (1 r i fp out events)
  show ?case
  proof (cases "i \<le> end_chunk r")
    case False
    with 1(2) show ?thesis by (simp add: chunk_loop.simps [of r i])
  next
    case le: True
    obtain calls rc where rc: "read_chunk r i fp = (calls, rc)" by (cases "read_chunk r i fp")
    show ?thesis
    proof (cases rc)
      case (Inl e')
      with le rc 1(2) have "e' = e" by (simp add: chunk_loop.simps [of r i])
      with read_chunk_error [of r i fp e] rc Inl show ?thesis by simp
    next
      case (Inr p)
      obtain fp' bytes where p: "p = (fp', bytes)" by (cases p)
      show ?thesis
      proof (cases "i = - 1")
        case True
        with le rc Inr p 1(2) show ?thesis by (simp add: chunk_loop.simps [of r i])
      next
        case False
        from False le rc Inr p 1(2)
        have "chunk_loop r (i + 1) fp' (out @ bytes) (events @ calls) = (events', Inl e)"
          by (simp add: chunk_loop.simps [of r i])
        from 1(1) [OF le rc [symmetric] Inr p [symmetric] False this]
        show ?thesis .
      qed
    qed
  qed
qed

lemma read_compressed_resource_normal_form:
  assumes "len \<noteq> 0"
  obtains a n and tab :: "u8 list" and fp2 co base r sc where
    "read_compressed_resource lzx xp fp rcs rus roff ctype len offs =
      (case fseeko_set fp a of
         None \<Rightarrow> ([FSEEKO_SET a], Inl (RETURNED WIMLIB_ERR_READ))
       | Some fp1 \<Rightarrow>
           if length tab \<noteq> n
           then ([FSEEKO_SET a, FREAD n], Inl (RETURNED WIMLIB_ERR_READ))
           else
             (case array_get co 0 of
                None \<Rightarrow> ([FSEEKO_SET a, FREAD n], Inl UNDEFINED_BEHAVIOUR)
              | Some first \<Rightarrow>
                  (case fseeko_set fp2 (base + first) of
                     None \<Rightarrow> ([FSEEKO_SET a, FREAD n, FSEEKO_SET (base + first)],
                               Inl (RETURNED WIMLIB_ERR_READ))
                   | Some fp3 \<Rightarrow>
                       chunk_loop r sc fp3 []
                         [FSEEKO_SET a, FREAD n, FSEEKO_SET (base + first)])))"
proof -
  define sc where "sc = offs div WIM_CHUNK_SIZE"
  define ec where "ec = (offs + len - 1) div WIM_CHUNK_SIZE"
  define nc where "nc = (rus + WIM_CHUNK_SIZE - 1) div WIM_CHUNK_SIZE"
  define es where "es = chunk_entry_size rus"
  define nn where "nn = ec - sc + 1 + (if ec \<noteq> nc - 1 then 1 else 0)"
  define ne where "ne = (if sc = 0 then nn - 1 else nn)"
  define a where "a = roff + (if sc = 0 then 0 else sc - 1) * es"
  define tab where "tab = fst (fread (fp\<lparr>file_pos := unat a\<rparr>) (unat (ne * es)))"
  define fp2 where "fp2 = snd (fread (fp\<lparr>file_pos := unat a\<rparr>) (unat (ne * es)))"
  define co where "co = (if sc = 0 then [0] else []) @ read_entries (unat es) (unat ne) tab"
  define r where "r = \<lparr>decompress = (if ctype = WIMLIB_COMPRESSION_TYPE_LZX then lzx else xp),
       resource_compressed_size = rcs, resource_uncompressed_size = rus, num_chunks = nc,
       chunk_table_size = es * (nc - 1), start_chunk = sc,
       start_chunk_offset = offs mod WIM_CHUNK_SIZE, end_chunk = ec,
       end_chunk_offset = (offs + len - 1) mod WIM_CHUNK_SIZE, chunk_offsets = co\<rparr>"
  have "read_compressed_resource lzx xp fp rcs rus roff ctype len offs =
      (case fseeko_set fp a of
         None \<Rightarrow> ([FSEEKO_SET a], Inl (RETURNED WIMLIB_ERR_READ))
       | Some fp1 \<Rightarrow>
           if length tab \<noteq> unat (ne * es)
           then ([FSEEKO_SET a, FREAD (unat (ne * es))], Inl (RETURNED WIMLIB_ERR_READ))
           else
             (case array_get co 0 of
                None \<Rightarrow> ([FSEEKO_SET a, FREAD (unat (ne * es))], Inl UNDEFINED_BEHAVIOUR)
              | Some first \<Rightarrow>
                  (case fseeko_set fp2 (roff + es * (nc - 1) + first) of
                     None \<Rightarrow> ([FSEEKO_SET a, FREAD (unat (ne * es)),
                                FSEEKO_SET (roff + es * (nc - 1) + first)],
                               Inl (RETURNED WIMLIB_ERR_READ))
                   | Some fp3 \<Rightarrow>
                       chunk_loop r sc fp3 []
                         [FSEEKO_SET a, FREAD (unat (ne * es)),
                          FSEEKO_SET (roff + es * (nc - 1) + first)])))"
    using assms
    unfolding read_compressed_resource_def Let_def sc_def [symmetric] ec_def [symmetric]
      nc_def [symmetric] es_def [symmetric]
    unfolding nn_def [symmetric]
    unfolding ne_def [symmetric]
    unfolding a_def [symmetric]
    by (simp add: fseeko_set_def tab_def fp2_def co_def r_def case_prod_unfold
        split: option.split)
  then show ?thesis
    by (rule that)
qed

lemma read_compressed_resource_error:
  assumes "snd (read_compressed_resource lzx xp fp rcs rus roff ctype len offs) = Inl e"
  shows "e \<in> {RETURNED WIMLIB_ERR_READ, RETURNED WIMLIB_ERR_DECOMPRESSION,
              UNDEFINED_BEHAVIOUR}"
proof (cases "len = 0")
  case True
  with assms show ?thesis by (simp add: read_compressed_resource_def)
next
  case False
  show ?thesis
  proof (rule read_compressed_resource_normal_form
           [OF False, of lzx xp fp rcs rus roff ctype offs])
  fix a n and tab :: "u8 list" and fp2 co base r sc
  assume nf:
    "read_compressed_resource lzx xp fp rcs rus roff ctype len offs =
      (case fseeko_set fp a of
         None \<Rightarrow> ([FSEEKO_SET a], Inl (RETURNED WIMLIB_ERR_READ))
       | Some fp1 \<Rightarrow>
           if length tab \<noteq> n
           then ([FSEEKO_SET a, FREAD n], Inl (RETURNED WIMLIB_ERR_READ))
           else
             (case array_get co 0 of
                None \<Rightarrow> ([FSEEKO_SET a, FREAD n], Inl UNDEFINED_BEHAVIOUR)
              | Some first \<Rightarrow>
                  (case fseeko_set fp2 (base + first) of
                     None \<Rightarrow> ([FSEEKO_SET a, FREAD n, FSEEKO_SET (base + first)],
                               Inl (RETURNED WIMLIB_ERR_READ))
                   | Some fp3 \<Rightarrow>
                       chunk_loop r sc fp3 []
                         [FSEEKO_SET a, FREAD n, FSEEKO_SET (base + first)])))"
  show ?thesis
  proof (cases "fseeko_set fp a")
    case None
    with assms nf show ?thesis by simp
  next
    case s1: (Some fp1)
    show ?thesis
    proof (cases "length tab \<noteq> n")
      case True
      with assms nf s1 show ?thesis by simp
    next
      case len_ok: False
      show ?thesis
      proof (cases "array_get co 0")
        case None
        with assms nf s1 len_ok show ?thesis by simp
      next
        case f: (Some first)
        show ?thesis
        proof (cases "fseeko_set fp2 (base + first)")
          case None
          with assms nf s1 len_ok f show ?thesis by simp
        next
          case (Some fp3)
          with assms nf s1 len_ok f
          have "snd (chunk_loop r sc fp3 []
                       [FSEEKO_SET a, FREAD n, FSEEKO_SET (base + first)]) = Inl e"
            by simp
          moreover obtain events1 res where
            "chunk_loop r sc fp3 [] [FSEEKO_SET a, FREAD n, FSEEKO_SET (base + first)] =
             (events1, res)"
            by (cases "chunk_loop r sc fp3 [] [FSEEKO_SET a, FREAD n, FSEEKO_SET (base + first)]")
          ultimately have
            "chunk_loop r sc fp3 [] [FSEEKO_SET a, FREAD n, FSEEKO_SET (base + first)] =
             (events1, Inl e)"
            by simp
          then show ?thesis by (rule chunk_loop_error)
        qed
      qed
    qed
  qed
qed
qed

lemma read_uncompressed_resource_error:
  "read_uncompressed_resource fp offs len = Inl e \<Longrightarrow> e = RETURNED WIMLIB_ERR_READ"
  by (auto simp: read_uncompressed_resource_def Let_def case_prod_unfold
      split: option.splits if_splits)

lemma read_wim_resource_error:
  "read_wim_resource ext lte size0 offs rflags \<noteq>
   Inl (RETURNED WIMLIB_ERR_INVALID_RESOURCE_HASH)"
proof -
  have c: "snd (read_compressed_resource lzx xp fp rcs rus roff ctype len offs1) \<noteq>
           Inl (RETURNED WIMLIB_ERR_INVALID_RESOURCE_HASH)"
    for lzx xp fp rcs rus roff ctype len offs1
    using read_compressed_resource_error
            [of lzx xp fp rcs rus roff ctype len offs1
                "RETURNED WIMLIB_ERR_INVALID_RESOURCE_HASH"]
    by auto
  have u: "read_uncompressed_resource fp offs1 len \<noteq>
           Inl (RETURNED WIMLIB_ERR_INVALID_RESOURCE_HASH)" for fp offs1 len
    using read_uncompressed_resource_error
            [of fp offs1 len "RETURNED WIMLIB_ERR_INVALID_RESOURCE_HASH"]
    by auto
  show ?thesis
    by (simp add: read_wim_resource_def Let_def c u
        split: resource_location.split option.split)
qed

lemma extract_loop_no_hash_error:
  assumes "sizeof_buf \<noteq> 0"
    and "\<And>buf offs arg. extract_chunk buf offs arg \<noteq> Inl WIMLIB_ERR_INVALID_RESOURCE_HASH"
  shows "extract_loop ext lte sizeof_buf check_hash extract_chunk bytes_remaining offs ctx arg
         \<noteq> Some (Inl (RETURNED WIMLIB_ERR_INVALID_RESOURCE_HASH))"
proof (induction bytes_remaining offs ctx arg rule: extract_loop_cases [OF assms(1)])
  case (1 offs ctx arg)
  show ?case by (simp add: extract_loop.simps)
next
  case (2 bytes_remaining offs ctx arg)
  show ?case
    using 2(1) 2(2) assms(2) read_wim_resource_error [of ext lte "min bytes_remaining sizeof_buf" offs "[]"]
    by (subst extract_loop.simps) (auto split: sum.split)
qed

lemma extract_chunks_terminates:
  "\<exists>res. extract_chunks ext lte size0 extract_chunk arg = Some res"
proof (cases "size0 = 0")
  case True
  then show ?thesis by (simp add: extract_chunks_def extract_loop.simps)
next
  case False
  then have "min WIM_CHUNK_SIZE size0 \<noteq> 0" by (simp add: min_def WIM_CHUNK_SIZE_def)
  then show ?thesis unfolding extract_chunks_def by (rule extract_loop_terminates)
qed

lemmas extract_eval =
  extract_wim_resource_def extract_chunks_def read_wim_resource_def wim_resource_size_def
  WIM_CHUNK_SIZE_def collect_chunk_def sha1_init_def sha1_update_def sha1_final_def

text \<open>
  Claim C5. When the requested size is the size of the resource, \<open>extract_wim_resource\<close>
  returns; an error of a read or of \<open>extract_chunk\<close> is returned as it is; when all reads
  and all calls of \<open>extract_chunk\<close> succeed, the result is the error
  \<open>WIMLIB_ERR_INVALID_RESOURCE_HASH\<close> when the SHA-1 of the bytes fed to the hash differs
  from the hash of the lookup table entry, and success when it is equal; and the bytes
  fed to the hash are exactly the bytes handed to \<open>extract_chunk\<close>, in order.
\<close>

theorem extract_full_resource_verifies_hash:
  assumes "size0 = wim_resource_size lte"
  shows "(\<exists>res. extract_wim_resource ext lte size0 extract_chunk arg = Some res) \<and>
         (\<forall>e. extract_chunks ext lte size0 extract_chunk arg = Some (Inl e) \<longrightarrow>
              extract_wim_resource ext lte size0 extract_chunk arg = Some (Inl e)) \<and>
         (\<forall>ctx arg1. extract_chunks ext lte size0 extract_chunk arg = Some (Inr (ctx, arg1)) \<longrightarrow>
              extract_wim_resource ext lte size0 extract_chunk arg =
                Some (if sha1_buffer ext ctx = hash lte then Inr arg1
                      else Inl (RETURNED WIMLIB_ERR_INVALID_RESOURCE_HASH))) \<and>
         (\<forall>ctx extracted.
              extract_chunks ext lte size0 collect_chunk [] = Some (Inr (ctx, extracted)) \<longrightarrow>
              ctx = extracted)"
proof (intro conjI allI impI)
  obtain res where "extract_chunks ext lte size0 extract_chunk arg = Some res"
    using extract_chunks_terminates [of ext lte size0 extract_chunk arg] by blast
  then show "\<exists>res. extract_wim_resource ext lte size0 extract_chunk arg = Some res"
    by (simp add: extract_wim_resource_def split: sum.split prod.split)
next
  fix e assume "extract_chunks ext lte size0 extract_chunk arg = Some (Inl e)"
  then show "extract_wim_resource ext lte size0 extract_chunk arg = Some (Inl e)"
    by (simp add: extract_wim_resource_def)
next
  fix ctx arg1 assume "extract_chunks ext lte size0 extract_chunk arg = Some (Inr (ctx, arg1))"
  then show "extract_wim_resource ext lte size0 extract_chunk arg =
      Some (if sha1_buffer ext ctx = hash lte then Inr arg1
            else Inl (RETURNED WIMLIB_ERR_INVALID_RESOURCE_HASH))"
    using assms by (simp add: extract_wim_resource_def sha1_final_def)
next
  fix ctx extracted
  assume run: "extract_chunks ext lte size0 collect_chunk [] = Some (Inr (ctx, extracted))"
  show "ctx = extracted"
  proof (cases "size0 = 0")
    case True
    with run show ?thesis by (simp add: extract_chunks_def extract_loop.simps sha1_init_def)
  next
    case False
    then have nz: "min WIM_CHUNK_SIZE size0 \<noteq> 0" by (simp add: min_def WIM_CHUNK_SIZE_def)
    from run assms have
      "extract_loop ext lte (min WIM_CHUNK_SIZE size0) True collect_chunk size0 0 [] [] =
       Some (Inr (ctx, extracted))"
      by (simp add: extract_chunks_def sha1_init_def)
    from extract_loop_collects [OF nz this] show ?thesis by simp
  qed
qed

theorem extract_full_resource_verifies_hash_witness:
  "extract_wim_resource
     \<lparr>lzx_decompress = (\<lambda>c n. None), xpress_decompress = (\<lambda>c n. None),
      sha1_buffer = (\<lambda>bytes. bytes), tfopen = (\<lambda>path. None)\<rparr>
     \<lparr>resource_entry = \<lparr>size_field = 3, flags = 0, offset_field = 0, original_size = 3\<rparr>,
      resource_location = RESOURCE_IN_ATTACHED_BUFFER, hash = [1, 2, 3], refcnt = 1, part_number = 1,
      wim_fp = None, wim_ctype = WIMLIB_COMPRESSION_TYPE_NONE, file_on_disk = None,
      file_on_disk_fp = None, attached_buffer = Some [1, 2, 3], ntfs_loc = None, attr = None\<rparr>
     3 collect_chunk [] = Some (Inr [1, 2, 3]) \<and>
   extract_wim_resource
     \<lparr>lzx_decompress = (\<lambda>c n. None), xpress_decompress = (\<lambda>c n. None),
      sha1_buffer = (\<lambda>bytes. bytes), tfopen = (\<lambda>path. None)\<rparr>
     \<lparr>resource_entry = \<lparr>size_field = 3, flags = 0, offset_field = 0, original_size = 3\<rparr>,
      resource_location = RESOURCE_IN_ATTACHED_BUFFER, hash = [0], refcnt = 1, part_number = 1,
      wim_fp = None, wim_ctype = WIMLIB_COMPRESSION_TYPE_NONE, file_on_disk = None,
      file_on_disk_fp = None, attached_buffer = Some [1, 2, 3], ntfs_loc = None, attr = None\<rparr>
     3 collect_chunk [] = Some (Inl (RETURNED WIMLIB_ERR_INVALID_RESOURCE_HASH))"
proof -
  let ?ext = "\<lparr>lzx_decompress = (\<lambda>c n. None), xpress_decompress = (\<lambda>c n. None),
      sha1_buffer = (\<lambda>bytes. bytes), tfopen = (\<lambda>path. None)\<rparr>"
  let ?lte = "\<lambda>h. \<lparr>resource_entry =
        \<lparr>size_field = 3, flags = 0, offset_field = 0, original_size = 3\<rparr>,
      resource_location = RESOURCE_IN_ATTACHED_BUFFER, hash = h, refcnt = 1, part_number = 1,
      wim_fp = None, wim_ctype = WIMLIB_COMPRESSION_TYPE_NONE, file_on_disk = None,
      file_on_disk_fp = None, attached_buffer = Some [1, 2, 3 :: u8], ntfs_loc = None,
      attr = None\<rparr>"
  have full: "3 = wim_resource_size (?lte h)" for h
    by (simp add: wim_resource_size_def)
  have run: "extract_chunks ?ext (?lte h) 3 collect_chunk [] = Some (Inr ([1, 2, 3], [1, 2, 3]))"
    for h
    by (simp add: extract_eval extract_loop.simps)
  from extract_full_resource_verifies_hash [OF full, of ?ext "[1, 2, 3]" collect_chunk "[]"]
    extract_full_resource_verifies_hash [OF full, of ?ext "[0]" collect_chunk "[]"] run
  show ?thesis by simp
qed

text \<open>
  Claim C10. When the requested size is not the size of the resource (so for every
  extraction of fewer bytes), \<open>extract_wim_resource\<close> returns, its result does not depend
  on the SHA-1 function nor on the hash stored in the lookup table entry, and it is not
  \<open>WIMLIB_ERR_INVALID_RESOURCE_HASH\<close> unless \<open>extract_chunk\<close> itself returns that code.
\<close>

theorem partial_extraction_skips_hash_check:
  assumes "size0 \<noteq> wim_resource_size lte"
  shows "(\<exists>res. extract_wim_resource ext lte size0 extract_chunk arg = Some res) \<and>
         extract_wim_resource (ext\<lparr>sha1_buffer := any_sha1\<rparr>) (lte\<lparr>hash := any_hash\<rparr>) size0
             extract_chunk arg =
           extract_wim_resource ext lte size0 extract_chunk arg \<and>
         ((\<forall>buf offs a. extract_chunk buf offs a \<noteq> Inl WIMLIB_ERR_INVALID_RESOURCE_HASH) \<longrightarrow>
          extract_wim_resource ext lte size0 extract_chunk arg \<noteq>
            Some (Inl (RETURNED WIMLIB_ERR_INVALID_RESOURCE_HASH)))"
proof (intro conjI impI)
  obtain res where "extract_chunks ext lte size0 extract_chunk arg = Some res"
    using extract_chunks_terminates [of ext lte size0 extract_chunk arg] by blast
  then show "\<exists>res. extract_wim_resource ext lte size0 extract_chunk arg = Some res"
    by (simp add: extract_wim_resource_def split: sum.split prod.split)
next
  have sz: "wim_resource_size (lte\<lparr>hash := any_hash\<rparr>) = wim_resource_size lte"
    by (simp add: wim_resource_size_def)
  have "extract_chunks (ext\<lparr>sha1_buffer := any_sha1\<rparr>) (lte\<lparr>hash := any_hash\<rparr>) size0
          extract_chunk arg = extract_chunks ext lte size0 extract_chunk arg"
  proof (cases "size0 = 0")
    case True
    then show ?thesis by (simp add: extract_chunks_def extract_loop.simps sz)
  next
    case False
    then have nz: "min WIM_CHUNK_SIZE size0 \<noteq> 0" by (simp add: min_def WIM_CHUNK_SIZE_def)
    show ?thesis
      unfolding extract_chunks_def sz by (rule extract_loop_ignores_hash [OF nz])
  qed
  then show "extract_wim_resource (ext\<lparr>sha1_buffer := any_sha1\<rparr>) (lte\<lparr>hash := any_hash\<rparr>)
               size0 extract_chunk arg =
             extract_wim_resource ext lte size0 extract_chunk arg"
    using assms by (simp add: extract_wim_resource_def sz split: option.split sum.split)
next
  assume cb: "\<forall>buf offs a. extract_chunk buf offs a \<noteq> Inl WIMLIB_ERR_INVALID_RESOURCE_HASH"
  have "extract_chunks ext lte size0 extract_chunk arg \<noteq>
        Some (Inl (RETURNED WIMLIB_ERR_INVALID_RESOURCE_HASH))"
  proof (cases "size0 = 0")
    case True
    then show ?thesis by (simp add: extract_chunks_def extract_loop.simps)
  next
    case False
    then have nz: "min WIM_CHUNK_SIZE size0 \<noteq> 0" by (simp add: min_def WIM_CHUNK_SIZE_def)
    show ?thesis
      unfolding extract_chunks_def using cb by (intro extract_loop_no_hash_error [OF nz]) simp
  qed
  then show "extract_wim_resource ext lte size0 extract_chunk arg \<noteq>
             Some (Inl (RETURNED WIMLIB_ERR_INVALID_RESOURCE_HASH))"
    using assms by (auto simp: extract_wim_resource_def split: option.splits sum.splits)
qed

theorem partial_extraction_skips_hash_check_witness:
  "extract_wim_resource
     \<lparr>lzx_decompress = (\<lambda>c n. None), xpress_decompress = (\<lambda>c n. None),
      sha1_buffer = (\<lambda>bytes. bytes), tfopen = (\<lambda>path. None)\<rparr>
     \<lparr>resource_entry = \<lparr>size_field = 3, flags = 0, offset_field = 0, original_size = 3\<rparr>,
      resource_location = RESOURCE_IN_ATTACHED_BUFFER, hash = [0], refcnt = 1, part_number = 1,
      wim_fp = None, wim_ctype = WIMLIB_COMPRESSION_TYPE_NONE, file_on_disk = None,
      file_on_disk_fp = None, attached_buffer = Some [1, 2, 3], ntfs_loc = None, attr = None\<rparr>
     2 collect_chunk [] = Some (Inr [1, 2]) \<and>
   extract_wim_resource
     \<lparr>lzx_decompress = (\<lambda>c n. None), xpress_decompress = (\<lambda>c n. None),
      sha1_buffer = (\<lambda>bytes. bytes), tfopen = (\<lambda>path. None)\<rparr>
     \<lparr>resource_entry = \<lparr>size_field = 3, flags = 0, offset_field = 0, original_size = 3\<rparr>,
      resource_location = RESOURCE_IN_ATTACHED_BUFFER, hash = [0], refcnt = 1, part_number = 1,
      wim_fp = None, wim_ctype = WIMLIB_COMPRESSION_TYPE_NONE, file_on_disk = None,
      file_on_disk_fp = None, attached_buffer = Some [1, 2, 3], ntfs_loc = None, attr = None\<rparr>
     2 collect_chunk [] \<noteq> Some (Inl (RETURNED WIMLIB_ERR_INVALID_RESOURCE_HASH))"
proof -
  let ?ext = "\<lparr>lzx_decompress = (\<lambda>c n. None), xpress_decompress = (\<lambda>c n. None),
      sha1_buffer = (\<lambda>bytes. bytes), tfopen = (\<lambda>path. None)\<rparr>"
  let ?lte = "\<lparr>resource_entry =
        \<lparr>size_field = 3, flags = 0, offset_field = 0, original_size = 3\<rparr>,
      resource_location = RESOURCE_IN_ATTACHED_BUFFER, hash = [0], refcnt = 1, part_number = 1,
      wim_fp = None, wim_ctype = WIMLIB_COMPRESSION_TYPE_NONE, file_on_disk = None,
      file_on_disk_fp = None, attached_buffer = Some [1, 2, 3 :: u8], ntfs_loc = None,
      attr = None\<rparr>"
  have part: "2 \<noteq> wim_resource_size ?lte"
    by (simp add: wim_resource_size_def)
  have cb: "\<forall>buf offs a. collect_chunk buf offs a \<noteq> Inl WIMLIB_ERR_INVALID_RESOURCE_HASH"
    by (simp add: collect_chunk_def)
  have run: "extract_wim_resource ?ext ?lte 2 collect_chunk [] = Some (Inr [1, 2])"
    by (simp add: extract_eval extract_loop.simps)
  from partial_extraction_skips_hash_check [OF part, of ?ext collect_chunk "[]"] cb
  have "extract_wim_resource ?ext ?lte 2 collect_chunk [] \<noteq>
        Some (Inl (RETURNED WIMLIB_ERR_INVALID_RESOURCE_HASH))"
    by blast
  with run show ?thesis by blast
qed

section \<open>Properties of the lookup table during capture\<close>

lemma map_hash_increment_refcnt: "map hash (increment_refcnt h t) = map hash t"
  by (induction t) auto

lemma length_increment_refcnt: "length (increment_refcnt h t) = length t"
  by (induction t) auto

lemma lookup_increment_refcnt:
  "lookup_resource t h = Some lte \<Longrightarrow>
   lookup_resource (increment_refcnt h t) h = Some (lte\<lparr>refcnt := refcnt lte + 1\<rparr>)"
  by (induction t) (auto simp: lookup_resource_def)

lemma lookup_resource_None: "(lookup_resource t h = None) = (h \<notin> set (map hash t))"
  by (auto simp: lookup_resource_def find_None_iff)

lemma one_entry_for_hash:
  "distinct (map hash t) \<Longrightarrow> h \<in> set (map hash t) \<Longrightarrow>
   length (filter (\<lambda>lte. hash lte = h) t) = 1"
proof (induction t)
  case Nil
  then show ?case by simp
next
  case (Cons lte t)
  show ?case
  proof (cases "hash lte = h")
    case True
    with Cons.prems have "h \<notin> set (map hash t)" by auto
    then have "filter (\<lambda>lte. hash lte = h) t = []" by (auto simp: filter_empty_conv)
    with True show ?thesis by simp
  next
    case False
    with Cons show ?thesis by auto
  qed
qed

lemma build_non_directory:
  assumes "build_dentry_tree sha1sum root_name source_path (NON_DIRECTORY (Inr bytes)) st =
           (None, root, st1)"
  shows "insert_or_intern (sha1sum bytes) (lookup_table st) (lookup_table st1)"
  using assms
  by (auto simp: insert_or_intern_def Let_def allocate_def lookup_table_insert_def
      new_lookup_table_entry_def split: option.splits if_splits)

lemma insert_or_intern_hashes:
  assumes "insert_or_intern h t t1" and "distinct (map hash t)"
  shows "distinct (map hash t1) \<and> set (map hash t1) = insert h (set (map hash t))"
proof (cases "lookup_resource t h")
  case None
  with assms(1) obtain new where "t1 = new # t" "hash new = h"
    by (auto simp: insert_or_intern_def split: list.splits)
  with None assms(2) show ?thesis by (auto simp: lookup_resource_None)
next
  case (Some lte)
  with assms(1) have t1: "t1 = increment_refcnt h t" by (simp add: insert_or_intern_def)
  from Some have "h \<in> set (map hash t)"
    using lookup_resource_None [of t h] by auto
  with t1 assms(2) show ?thesis by (auto simp: map_hash_increment_refcnt)
qed

lemma build_dentry_tree_table:
  "build_dentry_tree sha1sum root_name source_path src st = (ret, root, st1) \<Longrightarrow>
   distinct (map hash (lookup_table st)) \<Longrightarrow>
   distinct (map hash (lookup_table st1)) \<and>
   set (map hash (lookup_table st)) \<subseteq> set (map hash (lookup_table st1)) \<and>
   (ret = None \<longrightarrow> sha1sum ` set (file_contents src) \<subseteq> set (map hash (lookup_table st1)))"
  and readdir_loop_table:
  "readdir_loop sha1sum source_path entries children st = (ret, children1, st1) \<Longrightarrow>
   distinct (map hash (lookup_table st)) \<Longrightarrow>
   distinct (map hash (lookup_table st1)) \<and>
   set (map hash (lookup_table st)) \<subseteq> set (map hash (lookup_table st1)) \<and>
   (ret = None \<longrightarrow> sha1sum ` set (entries_contents entries) \<subseteq> set (map hash (lookup_table st1)))"
proof (induction sha1sum root_name source_path src st and sha1sum source_path entries children st
    arbitrary: ret root st1 and ret children1 st1
    rule: build_dentry_tree_readdir_loop.induct)
  case (1 sha1sum root_name source_path st)
  then show ?case by simp
next
  case (2 sha1sum root_name source_path entries st)
  obtain r c s where l: "readdir_loop sha1sum source_path entries [] st = (r, c, s)"
    by (cases "readdir_loop sha1sum source_path entries [] st") auto
  with 2(2) have "r = ret" "s = st1" by auto
  with 2(1) [OF l 2(3)] show ?case by simp
next
  case (3 sha1sum root_name source_path e st)
  then show ?case by simp
next
  case (4 sha1sum root_name source_path bytes st)
  show ?case
  proof (cases ret)
    case None
    with 4(1) have "insert_or_intern (sha1sum bytes) (lookup_table st) (lookup_table st1)"
      by (intro build_non_directory) simp
    from insert_or_intern_hashes [OF this 4(2)] None show ?thesis by auto
  next
    case (Some e)
    with 4(1) have "lookup_table st1 = lookup_table st"
      by (auto simp: Let_def allocate_def split: option.splits if_splits)
    with 4(2) Some show ?thesis by simp
  qed
next
  case (5 sha1sum source_path children st)
  then show ?case by simp
next
  case (6 sha1sum source_path d_name child_stat entries children st)
  show ?case
  proof (cases "d_name = ''.'' \<or> d_name = ''..''")
    case True
    with 6(4) have "readdir_loop sha1sum source_path entries children st = (ret, children1, st1)"
      by simp
    from 6(1) [OF True this 6(5)] True show ?thesis by simp
  next
    case nd: False
    show ?thesis
    proof (cases child_stat)
      case None
      with nd 6(4) 6(5) show ?thesis by auto
    next
      case (Some child_file)
      obtain r c s where b:
        "build_dentry_tree sha1sum d_name (source_path @ ''/'' @ d_name) child_file st = (r, c, s)"
        by (cases "build_dentry_tree sha1sum d_name (source_path @ ''/'' @ d_name) child_file st")
          auto
      note ih1 = 6(2) [OF nd Some b 6(5)]
      show ?thesis
      proof (cases r)
        case (Some e)
        with nd \<open>child_stat = Some child_file\<close> b 6(4) have "ret = Some e" "st1 = s" by auto
        with ih1 show ?thesis by simp
      next
        case None
        with nd \<open>child_stat = Some child_file\<close> b 6(4)
        have l: "readdir_loop sha1sum source_path entries (children @ [c]) s =
                 (ret, children1, st1)"
          by simp
        have rn: "\<not> r \<noteq> None" using None by simp
        from ih1 have d: "distinct (map hash (lookup_table s))" by simp
        note ih2 = 6(3) [OF nd \<open>child_stat = Some child_file\<close> b [symmetric] refl rn l d]
        have t1: "set (map hash (lookup_table st)) \<subseteq> set (map hash (lookup_table st1))"
          using ih1 ih2 by (meson subset_trans)
        have t2: "sha1sum ` set (file_contents child_file) \<subseteq>
                  set (map hash (lookup_table st1))"
          using ih1 ih2 None by (meson subset_trans)
        have t3: "entries_contents ((d_name, child_stat) # entries) =
                  file_contents child_file @ entries_contents entries"
          using nd \<open>child_stat = Some child_file\<close> by simp
        from ih2 have t4: "distinct (map hash (lookup_table st1))"
          and t5: "ret = None \<longrightarrow>
                   sha1sum ` set (entries_contents entries) \<subseteq>
                   set (map hash (lookup_table st1))"
          by simp_all
        show ?thesis
          unfolding t3 using t1 t2 t4 t5 by (simp only: set_append image_Un Un_subset_iff) simp
      qed
    qed
  qed
qed

lemma stream_entry_nonempty:
  assumes "attr_value a \<noteq> []"
    and "stream_lookup_table_entry sha1sum path type a st = Inr (lte, tag, st1)"
  shows "lte = Some (sha1sum (if type = AT_REPARSE_POINT then drop 8 (attr_value a)
                               else attr_value a)) \<and>
         insert_or_intern
           (sha1sum (if type = AT_REPARSE_POINT then drop 8 (attr_value a) else attr_value a))
           (lookup_table st) (lookup_table st1)"
proof -
  define h where
    "h = sha1sum (if type = AT_REPARSE_POINT then drop 8 (attr_value a) else attr_value a)"
  show ?thesis
  proof (cases "lookup_resource (lookup_table st) h")
    case (Some e)
    with assms show ?thesis
      unfolding h_def [symmetric]
      by (auto simp: stream_lookup_table_entry_def Let_def insert_or_intern_def h_def
          split: if_splits)
  next
    case None
    with assms show ?thesis
      unfolding h_def [symmetric]
      by (auto simp: stream_lookup_table_entry_def Let_def insert_or_intern_def h_def
          allocate_def lookup_table_insert_def new_lookup_table_entry_def
          split: if_splits)
  qed
qed

lemma stream_entry_empty:
  assumes "attr_value a = []"
    and "stream_lookup_table_entry sha1sum path type a st = Inr (lte, tag, st1)"
  shows "lte = None \<and> st1 = st"
  using assms by (auto simp: stream_lookup_table_entry_def Let_def split: if_splits)

lemma allocate_table: "allocate st = Some st1 \<Longrightarrow> lookup_table st1 = lookup_table st"
  by (auto simp: allocate_def split: if_splits)

lemma interned_via_step:
  "insert_or_intern h t t1 \<Longrightarrow> \<exists>ts. interned_via hs ts t1 t' \<Longrightarrow>
   \<exists>ts. interned_via (h # hs) ts t t'"
proof -
  assume a: "insert_or_intern h t t1" and "\<exists>ts. interned_via hs ts t1 t'"
  then obtain ts where "interned_via hs ts t1 t'" by blast
  with a have "interned_via (h # hs) (t1 # ts) t t'" by simp
  then show ?thesis by blast
qed

lemma stream_entry_cases:
  assumes "stream_lookup_table_entry sha1sum path type a st = Inr (lte, tag, st1)"
  shows "(attr_value a = [] \<and> lte = None \<and> st1 = st) \<or>
         (attr_value a \<noteq> [] \<and> lte = Some (sha1sum (stream_content type a)) \<and>
          insert_or_intern (sha1sum (stream_content type a)) (lookup_table st)
            (lookup_table st1))"
  using stream_entry_empty [OF _ assms] stream_entry_nonempty [OF _ assms]
  by (cases "attr_value a = []") (simp_all add: stream_content_def)

lemma capture_streams_loop_interned:
  assumes "capture_streams_loop sha1sum utf16_to_utf8 free_lookup_table_entry path type attrs
             inode st msgs = Inr (inode1, st1, msgs1)"
    and "if i_lte inode = None then length (unnamed_streams type attrs) \<le> 1
         else unnamed_streams type attrs = []"
    and "length (ads_entries inode1) =
         length (ads_entries inode) + length (named_streams type attrs)"
  shows "(\<exists>ts. interned_via (stream_hashes sha1sum type attrs) ts (lookup_table st)
                 (lookup_table st1)) \<and>
         i_lte inode1 =
           (if i_lte inode \<noteq> None then i_lte inode
            else (case unnamed_streams type attrs of
                    [] \<Rightarrow> None
                  | b # bs \<Rightarrow> Some (sha1sum (stream_content type b))))"
  using assms
proof (induction attrs arbitrary: inode st msgs)
  case Nil
  then show ?case by (simp add: stream_hashes_def unnamed_streams_def)
next
  case (Cons a attrs)
  note run = Cons.prems(1) and un = Cons.prems(2) and ads = Cons.prems(3)
  show ?case
  proof (cases "attr_type a = type")
    case False
    with run have r: "capture_streams_loop sha1sum utf16_to_utf8 free_lookup_table_entry path type
                        attrs inode st msgs = Inr (inode1, st1, msgs1)"
      by simp
    have f: "stream_hashes sha1sum type (a # attrs) = stream_hashes sha1sum type attrs"
      "unnamed_streams type (a # attrs) = unnamed_streams type attrs"
      "named_streams type (a # attrs) = named_streams type attrs"
      using False by (simp_all add: stream_hashes_def unnamed_streams_def named_streams_def)
    from un ads have "if i_lte inode = None then length (unnamed_streams type attrs) \<le> 1
         else unnamed_streams type attrs = []"
      and "length (ads_entries inode1) =
           length (ads_entries inode) + length (named_streams type attrs)"
      unfolding f by simp_all
    from Cons.IH [OF r this] show ?thesis unfolding f by simp
  next
    case ty: True
    obtain lte tag s1 where
      e: "stream_lookup_table_entry sha1sum path type a st = Inr (lte, tag, s1)"
      using run ty by (cases "stream_lookup_table_entry sha1sum path type a st") auto
    define inode' where
      "inode' = (case tag of None \<Rightarrow> inode | Some t \<Rightarrow> inode\<lparr>i_reparse_tag := t\<rparr>)"
    have i': "i_lte inode' = i_lte inode" "ads_entries inode' = ads_entries inode"
      by (simp_all add: inode'_def split: option.split)
    let ?h = "sha1sum (stream_content type a)"
    note step = stream_entry_cases [OF e]
    show ?thesis
    proof (cases "length (attr_name a) div 2 = 0")
      case unnamed: True
      have nf: "named_streams type (a # attrs) = named_streams type attrs"
        using unnamed by (simp add: named_streams_def)
      show ?thesis
      proof (cases "i_lte inode = None")
        case none: True
        from run ty e unnamed none i'
        have r: "capture_streams_loop sha1sum utf16_to_utf8 free_lookup_table_entry path type
                   attrs (inode'\<lparr>i_lte := lte\<rparr>) s1 msgs = Inr (inode1, st1, msgs1)"
          by (simp add: inode'_def [symmetric])
        have a2: "length (ads_entries inode1) =
                  length (ads_entries (inode'\<lparr>i_lte := lte\<rparr>)) +
                  length (named_streams type attrs)"
          using ads nf i' by simp
        show ?thesis
        proof (cases "attr_value a = []")
          case empty: True
          with step have l: "lte = None" "s1 = st" by simp_all
          have f: "stream_hashes sha1sum type (a # attrs) = stream_hashes sha1sum type attrs"
            "unnamed_streams type (a # attrs) = unnamed_streams type attrs"
            using empty by (simp_all add: stream_hashes_def unnamed_streams_def)
          have u2: "if i_lte (inode'\<lparr>i_lte := lte\<rparr>) = None
                    then length (unnamed_streams type attrs) \<le> 1
                    else unnamed_streams type attrs = []"
            using un none l f by simp
          from Cons.IH [OF r u2 a2] l none show ?thesis unfolding f by simp
        next
          case nonempty: False
          with step have l: "lte = Some ?h"
            "insert_or_intern ?h (lookup_table st) (lookup_table s1)"
            by simp_all
          have f: "stream_hashes sha1sum type (a # attrs) =
                   ?h # stream_hashes sha1sum type attrs"
            "unnamed_streams type (a # attrs) = a # unnamed_streams type attrs"
            using nonempty ty unnamed by (simp_all add: stream_hashes_def unnamed_streams_def)
          have u2: "if i_lte (inode'\<lparr>i_lte := lte\<rparr>) = None
                    then length (unnamed_streams type attrs) \<le> 1
                    else unnamed_streams type attrs = []"
            using un none l f by simp
          from Cons.IH [OF r u2 a2]
          have ih: "\<exists>ts. interned_via (stream_hashes sha1sum type attrs) ts (lookup_table s1)
                          (lookup_table st1)"
            and p: "i_lte inode1 = Some ?h"
            using l by simp_all
          from interned_via_step [OF l(2) ih] p none show ?thesis unfolding f by simp
        qed
      next
        case some: False
        with un have ue: "unnamed_streams type (a # attrs) = []" by simp
        then have empty: "attr_value a = []" and ur: "unnamed_streams type attrs = []"
          using ty unnamed by (auto simp: unnamed_streams_def split: if_splits)
        with step have l: "lte = None" "s1 = st" by simp_all
        from run ty e unnamed some i' l
        have r: "capture_streams_loop sha1sum utf16_to_utf8 free_lookup_table_entry path type
                   attrs inode' st
                   (msgs @ [WARNING (''Found two un-named data streams for `%s'' @ [CHR 0x27])
                              [ARG_STR path]]) = Inr (inode1, st1, msgs1)"
          by (simp add: inode'_def [symmetric] free_entry_def)
        have f: "stream_hashes sha1sum type (a # attrs) = stream_hashes sha1sum type attrs"
          using empty by (simp add: stream_hashes_def)
        have u2: "if i_lte inode' = None then length (unnamed_streams type attrs) \<le> 1
                  else unnamed_streams type attrs = []"
          using ur by simp
        have a2: "length (ads_entries inode1) =
                  length (ads_entries inode') + length (named_streams type attrs)"
          using ads nf i' by simp
        from Cons.IH [OF r u2 a2] some i' show ?thesis unfolding f ue by simp
      qed
    next
      case named: False
      have nf: "named_streams type (a # attrs) = a # named_streams type attrs"
        using named ty by (simp add: named_streams_def)
      have uf: "unnamed_streams type (a # attrs) = unnamed_streams type attrs"
        using named by (simp add: unnamed_streams_def)
      obtain stream_name_utf8 where n: "utf16_to_utf8 (attr_name a) = Inr stream_name_utf8"
        using run ty e named
        by (cases "utf16_to_utf8 (attr_name a)") (auto simp: Let_def)
      obtain s2 where al: "allocate s1 = Some s2"
      proof (cases "allocate s1")
        case None
        with run ty e named n have "inode1 = inode'"
          by (simp add: inode'_def [symmetric])
        with ads nf i' show ?thesis by simp
      next
        case (Some s2)
        then show ?thesis by (rule that)
      qed
      let ?inode2 = "inode'\<lparr>ads_entries := ads_entries inode' @ [(stream_name_utf8, lte)]\<rparr>"
      from run ty e named n al
      have r: "capture_streams_loop sha1sum utf16_to_utf8 free_lookup_table_entry path type
                 attrs ?inode2 s2 msgs = Inr (inode1, st1, msgs1)"
        by (simp add: inode'_def [symmetric])
      have t2: "lookup_table s2 = lookup_table s1"
        using al by (rule allocate_table)
      have u2: "if i_lte ?inode2 = None then length (unnamed_streams type attrs) \<le> 1
                else unnamed_streams type attrs = []"
        using un [unfolded uf] i' by simp
      have a2: "length (ads_entries inode1) =
                length (ads_entries ?inode2) + length (named_streams type attrs)"
        using ads nf i' by simp
      note ih = Cons.IH [OF r u2 a2]
      show ?thesis
      proof (cases "attr_value a = []")
        case empty: True
        with step have l: "s1 = st" by simp
        have f: "stream_hashes sha1sum type (a # attrs) = stream_hashes sha1sum type attrs"
          using empty by (simp add: stream_hashes_def)
        from ih t2 l i' show ?thesis unfolding f uf by simp
      next
        case nonempty: False
        with step have l: "insert_or_intern ?h (lookup_table st) (lookup_table s1)"
          by simp
        have f: "stream_hashes sha1sum type (a # attrs) =
                 ?h # stream_hashes sha1sum type attrs"
          using nonempty ty by (simp add: stream_hashes_def)
        from ih t2
        have c: "\<exists>ts. interned_via (stream_hashes sha1sum type attrs) ts (lookup_table s1)
                         (lookup_table st1)"
          and p: "i_lte inode1 =
                  (if i_lte inode \<noteq> None then i_lte inode
                   else (case unnamed_streams type attrs of
                           [] \<Rightarrow> None
                         | b # bs \<Rightarrow> Some (sha1sum (stream_content type b))))"
          using i' by simp_all
        from interned_via_step [OF l c] p show ?thesis unfolding f uf by simp
      qed
    qed
  qed
qed

lemma interned_via_hashes:
  "interned_via hs ts t t' \<Longrightarrow> distinct (map hash t) \<Longrightarrow>
   distinct (map hash t') \<and> set (map hash t') = set (map hash t) \<union> set hs"
proof (induction hs ts t t' rule: interned_via.induct)
  case (1 ts t t')
  then show ?case by simp
next
  case (2 h hs t t')
  then show ?case by simp
next
  case (3 h hs t1 ts t t')
  from 3(2) have i: "insert_or_intern h t t1" and c: "interned_via hs ts t1 t'" by simp_all
  from insert_or_intern_hashes [OF i 3(3)]
  have d: "distinct (map hash t1)" and s: "set (map hash t1) = insert h (set (map hash t))"
    by simp_all
  from 3(1) [OF c d] s show ?case by auto
qed

lemma capture_ntfs_streams_interned:
  assumes run: "capture_ntfs_streams sha1sum utf16_to_utf8 free_lookup_table_entry inode ni path
                  st type = Inr (inode1, st1, msgs)"
    and none: "i_lte inode = None"
    and un: "length (unnamed_streams type (attributes ni)) \<le> 1"
    and ads: "length (ads_entries inode1) =
              length (ads_entries inode) + length (named_streams type (attributes ni))"
  shows "(\<exists>ts. interned_via (stream_hashes sha1sum type (attributes ni)) ts (lookup_table st)
                 (lookup_table st1)) \<and>
         i_lte inode1 =
           (case unnamed_streams type (attributes ni) of
              [] \<Rightarrow> None
            | b # bs \<Rightarrow> Some (sha1sum (stream_content type b)))"
proof -
  from run have r: "capture_streams_loop sha1sum utf16_to_utf8 free_lookup_table_entry path type
                      (attributes ni) inode st [] = Inr (inode1, st1, msgs)"
    by (simp add: capture_ntfs_streams_def split: if_splits)
  have u: "if i_lte inode = None then length (unnamed_streams type (attributes ni)) \<le> 1
           else unnamed_streams type (attributes ni) = []"
    using none un by simp
  from capture_streams_loop_interned [OF r u ads] none show ?thesis by simp
qed

text \<open>
  Claim C6, as amended. For a file of a POSIX tree that is not a directory, capture looks
  the hash of the content up in the lookup table: when an entry with the hash is there, its
  reference count is incremented and no entry is inserted; otherwise a new entry with the
  hash and the reference count 1 is inserted. After a successful \<open>build_dentry_tree\<close> on a
  table where no two entries have the same hash, no two entries have the same hash and the
  hash of the content of every captured file has exactly one entry.

  The same holds for a call of \<open>capture_ntfs_streams\<close> that returns 0, for the streams of
  non-zero length of the type asked for, in their order, when the inode of the dentry has
  no stream yet, the NTFS inode has at most one unnamed stream of non-zero length of that
  type, and every named stream of that type got its entry from \<open>inode_add_ads\<close>: then
  \<open>free_lookup_table_entry\<close> is not called on an entry of the table, whatever it does. A
  stream of length zero gets no entry and leaves the table as it is, and the inode points
  to the entry of the unnamed stream of non-zero length, if there is one.
\<close>

theorem capture_stream_is_interned:
  "(\<forall>root st1.
      build_dentry_tree sha1sum root_name source_path (NON_DIRECTORY (Inr bytes)) st =
        (None, root, st1) \<longrightarrow>
      insert_or_intern (sha1sum bytes) (lookup_table st) (lookup_table st1)) \<and>
   (\<forall>root st1.
      distinct (map hash (lookup_table st)) \<and>
      build_dentry_tree sha1sum root_name source_path src st = (None, root, st1) \<longrightarrow>
      distinct (map hash (lookup_table st1)) \<and>
      (\<forall>content \<in> set (file_contents src).
         length (filter (\<lambda>lte. hash lte = sha1sum content) (lookup_table st1)) = 1)) \<and>
   (\<forall>inode1 st1 msgs.
      capture_ntfs_streams sha1sum utf16_to_utf8 free_lookup_table_entry inode ni path st type =
        Inr (inode1, st1, msgs) \<and>
      i_lte inode = None \<and>
      length (unnamed_streams type (attributes ni)) \<le> 1 \<and>
      length (ads_entries inode1) =
        length (ads_entries inode) + length (named_streams type (attributes ni)) \<longrightarrow>
      (\<exists>ts. interned_via (stream_hashes sha1sum type (attributes ni)) ts (lookup_table st)
              (lookup_table st1)) \<and>
      (stream_hashes sha1sum type (attributes ni) = [] \<longrightarrow> lookup_table st1 = lookup_table st) \<and>
      i_lte inode1 =
        (case unnamed_streams type (attributes ni) of
           [] \<Rightarrow> None
         | b # bs \<Rightarrow> Some (sha1sum (stream_content type b))) \<and>
      (distinct (map hash (lookup_table st)) \<longrightarrow>
         distinct (map hash (lookup_table st1)) \<and>
         set (map hash (lookup_table st1)) =
           set (map hash (lookup_table st)) \<union> set (stream_hashes sha1sum type (attributes ni)) \<and>
         (\<forall>h \<in> set (stream_hashes sha1sum type (attributes ni)).
            length (filter (\<lambda>lte. hash lte = h) (lookup_table st1)) = 1))) \<and>
   (\<forall>lte. lookup_resource table h = Some lte \<longrightarrow>
      lookup_resource (increment_refcnt h table) h = Some (lte\<lparr>refcnt := refcnt lte + 1\<rparr>) \<and>
      length (increment_refcnt h table) = length table \<and>
      map hash (increment_refcnt h table) = map hash table)"
proof -
  have posix_step: "\<forall>root st1.
      build_dentry_tree sha1sum root_name source_path (NON_DIRECTORY (Inr bytes)) st =
        (None, root, st1) \<longrightarrow>
      insert_or_intern (sha1sum bytes) (lookup_table st) (lookup_table st1)"
    using build_non_directory by blast
  have posix_tree: "\<forall>root st1.
      distinct (map hash (lookup_table st)) \<and>
      build_dentry_tree sha1sum root_name source_path src st = (None, root, st1) \<longrightarrow>
      distinct (map hash (lookup_table st1)) \<and>
      (\<forall>content \<in> set (file_contents src).
         length (filter (\<lambda>lte. hash lte = sha1sum content) (lookup_table st1)) = 1)"
  proof (intro allI impI, elim conjE)
    fix root st1
    assume d: "distinct (map hash (lookup_table st))"
      and b: "build_dentry_tree sha1sum root_name source_path src st = (None, root, st1)"
    from build_dentry_tree_table [OF b d]
    have d1: "distinct (map hash (lookup_table st1))"
      and s: "sha1sum ` set (file_contents src) \<subseteq> set (map hash (lookup_table st1))"
      by simp_all
    have "\<forall>content \<in> set (file_contents src).
            length (filter (\<lambda>lte. hash lte = sha1sum content) (lookup_table st1)) = 1"
    proof
      fix content assume "content \<in> set (file_contents src)"
      with s have "sha1sum content \<in> set (map hash (lookup_table st1))" by blast
      with d1 show "length (filter (\<lambda>lte. hash lte = sha1sum content) (lookup_table st1)) = 1"
        by (rule one_entry_for_hash)
    qed
    with d1 show "distinct (map hash (lookup_table st1)) \<and>
      (\<forall>content \<in> set (file_contents src).
         length (filter (\<lambda>lte. hash lte = sha1sum content) (lookup_table st1)) = 1)"
      by simp
  qed
  have ntfs: "\<forall>inode1 st1 msgs.
      capture_ntfs_streams sha1sum utf16_to_utf8 free_lookup_table_entry inode ni path st type =
        Inr (inode1, st1, msgs) \<and>
      i_lte inode = None \<and>
      length (unnamed_streams type (attributes ni)) \<le> 1 \<and>
      length (ads_entries inode1) =
        length (ads_entries inode) + length (named_streams type (attributes ni)) \<longrightarrow>
      (\<exists>ts. interned_via (stream_hashes sha1sum type (attributes ni)) ts (lookup_table st)
              (lookup_table st1)) \<and>
      (stream_hashes sha1sum type (attributes ni) = [] \<longrightarrow> lookup_table st1 = lookup_table st) \<and>
      i_lte inode1 =
        (case unnamed_streams type (attributes ni) of
           [] \<Rightarrow> None
         | b # bs \<Rightarrow> Some (sha1sum (stream_content type b))) \<and>
      (distinct (map hash (lookup_table st)) \<longrightarrow>
         distinct (map hash (lookup_table st1)) \<and>
         set (map hash (lookup_table st1)) =
           set (map hash (lookup_table st)) \<union> set (stream_hashes sha1sum type (attributes ni)) \<and>
         (\<forall>h \<in> set (stream_hashes sha1sum type (attributes ni)).
            length (filter (\<lambda>lte. hash lte = h) (lookup_table st1)) = 1))"
  proof (intro allI impI, elim conjE)
    fix inode1 st1 msgs
    assume run: "capture_ntfs_streams sha1sum utf16_to_utf8 free_lookup_table_entry inode ni
                   path st type = Inr (inode1, st1, msgs)"
      and none: "i_lte inode = None"
      and un: "length (unnamed_streams type (attributes ni)) \<le> 1"
      and ads: "length (ads_entries inode1) =
                length (ads_entries inode) + length (named_streams type (attributes ni))"
    let ?hs = "stream_hashes sha1sum type (attributes ni)"
    from capture_ntfs_streams_interned [OF run none un ads]
    obtain ts where c: "interned_via ?hs ts (lookup_table st) (lookup_table st1)"
      and p: "i_lte inode1 =
        (case unnamed_streams type (attributes ni) of
           [] \<Rightarrow> None
         | b # bs \<Rightarrow> Some (sha1sum (stream_content type b)))"
      by blast
    have e: "?hs = [] \<longrightarrow> lookup_table st1 = lookup_table st"
      using c by auto
    have d: "distinct (map hash (lookup_table st)) \<longrightarrow>
         distinct (map hash (lookup_table st1)) \<and>
         set (map hash (lookup_table st1)) = set (map hash (lookup_table st)) \<union> set ?hs \<and>
         (\<forall>h \<in> set ?hs. length (filter (\<lambda>lte. hash lte = h) (lookup_table st1)) = 1)"
    proof
      assume d0: "distinct (map hash (lookup_table st))"
      from interned_via_hashes [OF c d0]
      have d1: "distinct (map hash (lookup_table st1))"
        and s: "set (map hash (lookup_table st1)) = set (map hash (lookup_table st)) \<union> set ?hs"
        by simp_all
      have "\<forall>h \<in> set ?hs. length (filter (\<lambda>lte. hash lte = h) (lookup_table st1)) = 1"
      proof
        fix h assume "h \<in> set ?hs"
        with s have "h \<in> set (map hash (lookup_table st1))" by blast
        with d1 show "length (filter (\<lambda>lte. hash lte = h) (lookup_table st1)) = 1"
          by (rule one_entry_for_hash)
      qed
      with d1 s show "distinct (map hash (lookup_table st1)) \<and>
         set (map hash (lookup_table st1)) = set (map hash (lookup_table st)) \<union> set ?hs \<and>
         (\<forall>h \<in> set ?hs. length (filter (\<lambda>lte. hash lte = h) (lookup_table st1)) = 1)"
        by simp
    qed
    from c p e d
    show "(\<exists>ts. interned_via ?hs ts (lookup_table st) (lookup_table st1)) \<and>
      (?hs = [] \<longrightarrow> lookup_table st1 = lookup_table st) \<and>
      i_lte inode1 =
        (case unnamed_streams type (attributes ni) of
           [] \<Rightarrow> None
         | b # bs \<Rightarrow> Some (sha1sum (stream_content type b))) \<and>
      (distinct (map hash (lookup_table st)) \<longrightarrow>
         distinct (map hash (lookup_table st1)) \<and>
         set (map hash (lookup_table st1)) = set (map hash (lookup_table st)) \<union> set ?hs \<and>
         (\<forall>h \<in> set ?hs. length (filter (\<lambda>lte. hash lte = h) (lookup_table st1)) = 1))"
      by blast
  qed
  have incr: "\<forall>lte. lookup_resource table h = Some lte \<longrightarrow>
      lookup_resource (increment_refcnt h table) h = Some (lte\<lparr>refcnt := refcnt lte + 1\<rparr>) \<and>
      length (increment_refcnt h table) = length table \<and>
      map hash (increment_refcnt h table) = map hash table"
    using lookup_increment_refcnt length_increment_refcnt map_hash_increment_refcnt by blast
  from posix_step posix_tree ntfs incr show ?thesis by (intro conjI)
qed

lemmas capture_eval =
  lookup_resource_def lookup_table_insert_def new_lookup_table_entry_def allocate_def
  example_digest_def Let_def

lemmas ntfs_capture_eval =
  capture_ntfs_streams_def stream_lookup_table_entry_def free_entry_def
  example_utf16_to_utf8_def example_free_def example_unlinking_free_def
  example_ntfs_inode_def example_wim_inode_def example_two_unnamed_def capture_eval

text \<open>The run of \<open>capture_ntfs_streams\<close> on the NTFS file of the examples.\<close>

lemma example_ntfs_capture:
  "capture_ntfs_streams example_digest example_utf16_to_utf8 example_free example_wim_inode
     example_ntfs_inode ''/file'' \<lparr>lookup_table = [], allocations_left = 10\<rparr> AT_DATA =
   Inr (\<lparr>i_lte = Some [1, 2], i_reparse_tag = 0,
         ads_entries = [(''stream'', Some [1, 2]), (''stream'', None)]\<rparr>,
        \<lparr>lookup_table =
           [new_lookup_table_entry
              \<lparr>ntfs_loc :=
                 Some \<lparr>path_utf8 = ''/file'', stream_name_utf16 = [],
                       stream_name_utf16_num_chars = 0, is_reparse_point = False\<rparr>,
               resource_location := RESOURCE_IN_NTFS_VOLUME,
               resource_entry :=
                 \<lparr>size_field = 2, flags = 0, offset_field = 0, original_size = 2\<rparr>,
               hash := [1, 2], refcnt := 2\<rparr>],
         allocations_left = 5\<rparr>,
        [])"
  by (simp add: ntfs_capture_eval)

text \<open>
  Why the theorem asks for at most one unnamed stream of non-zero length: at a second one,
  \<open>capture_ntfs_streams\<close> hands the entry it has just found in the table, and to which the
  inode points, to \<open>free_lookup_table_entry\<close>. With a \<open>free_lookup_table_entry\<close> that takes
  the entry out of the table, the table is empty at the end.
\<close>

lemma second_unnamed_stream_is_freed:
  "capture_ntfs_streams example_digest example_utf16_to_utf8 example_unlinking_free
     example_wim_inode example_two_unnamed ''/file''
     \<lparr>lookup_table = [], allocations_left = 10\<rparr> AT_DATA =
   Inr (\<lparr>i_lte = Some [1, 2], i_reparse_tag = 0, ads_entries = []\<rparr>,
        \<lparr>lookup_table = [], allocations_left = 7\<rparr>,
        [WARNING (''Found two un-named data streams for `%s'' @ [CHR 0x27])
           [ARG_STR ''/file'']])"
  by (simp add: ntfs_capture_eval)

text \<open>
  The theorem at a POSIX directory with two files of the same content, and at an NTFS file
  with an unnamed stream, a named stream of the same content and an empty named stream:
  one entry with the reference count 2 each time.
\<close>

theorem capture_stream_is_interned_witness:
  "build_dentry_tree example_digest '''' ''/src''
     (DIRECTORY (Some [(''.'', None), (''a'', Some (NON_DIRECTORY (Inr [1, 2]))),
                       (''b'', Some (NON_DIRECTORY (Inr [1, 2])))]))
     \<lparr>lookup_table = [], allocations_left = 4\<rparr> =
   (None,
    DENTRY '''' True (replicate 20 0)
      [DENTRY ''a'' False [1, 2] [], DENTRY ''b'' False [1, 2] []],
    \<lparr>lookup_table =
       [new_lookup_table_entry
          \<lparr>resource_entry :=
             \<lparr>size_field = 2, flags = 0, offset_field = 0, original_size = 2\<rparr>,
           hash := [1, 2], refcnt := 2, part_number := 1, file_on_disk := Some ''/src/a''\<rparr>],
     allocations_left = 2\<rparr>) \<and>
   length (filter (\<lambda>lte. hash lte = example_digest [1, 2])
     [new_lookup_table_entry
        \<lparr>resource_entry :=
           \<lparr>size_field = 2, flags = 0, offset_field = 0, original_size = 2\<rparr>,
         hash := [1, 2], refcnt := 2, part_number := 1, file_on_disk := Some ''/src/a''\<rparr>]) = 1 \<and>
   capture_ntfs_streams example_digest example_utf16_to_utf8 example_free example_wim_inode
     example_ntfs_inode ''/file'' \<lparr>lookup_table = [], allocations_left = 10\<rparr> AT_DATA =
   Inr (\<lparr>i_lte = Some [1, 2], i_reparse_tag = 0,
         ads_entries = [(''stream'', Some [1, 2]), (''stream'', None)]\<rparr>,
        \<lparr>lookup_table =
           [new_lookup_table_entry
              \<lparr>ntfs_loc :=
                 Some \<lparr>path_utf8 = ''/file'', stream_name_utf16 = [],
                       stream_name_utf16_num_chars = 0, is_reparse_point = False\<rparr>,
               resource_location := RESOURCE_IN_NTFS_VOLUME,
               resource_entry :=
                 \<lparr>size_field = 2, flags = 0, offset_field = 0, original_size = 2\<rparr>,
               hash := [1, 2], refcnt := 2\<rparr>],
         allocations_left = 5\<rparr>,
        []) \<and>
   stream_hashes example_digest AT_DATA (attributes example_ntfs_inode) = [[1, 2], [1, 2]] \<and>
   length (filter (\<lambda>lte. hash lte = [1, 2])
     [new_lookup_table_entry
        \<lparr>ntfs_loc :=
           Some \<lparr>path_utf8 = ''/file'', stream_name_utf16 = [],
                 stream_name_utf16_num_chars = 0, is_reparse_point = False\<rparr>,
         resource_location := RESOURCE_IN_NTFS_VOLUME,
         resource_entry :=
           \<lparr>size_field = 2, flags = 0, offset_field = 0, original_size = 2\<rparr>,
         hash := [1, 2], refcnt := 2\<rparr>]) = 1"
proof -
  let ?src = "DIRECTORY (Some [(''.'', None), (''a'', Some (NON_DIRECTORY (Inr [1, 2 :: u8]))),
                       (''b'', Some (NON_DIRECTORY (Inr [1, 2])))])"
  let ?st = "\<lparr>lookup_table = [], allocations_left = 4\<rparr>"
  let ?t1 = "[new_lookup_table_entry
          \<lparr>resource_entry :=
             \<lparr>size_field = 2, flags = 0, offset_field = 0, original_size = 2\<rparr>,
           hash := [1, 2], refcnt := 2, part_number := 1, file_on_disk := Some ''/src/a''\<rparr>]"
  have run: "build_dentry_tree example_digest '''' ''/src'' ?src ?st =
     (None,
      DENTRY '''' True (replicate 20 0)
        [DENTRY ''a'' False [1, 2] [], DENTRY ''b'' False [1, 2] []],
      \<lparr>lookup_table = ?t1, allocations_left = 2\<rparr>)"
    by (simp add: capture_eval)
  have d: "distinct (map hash (lookup_table ?st))" by simp
  have m: "[1, 2] \<in> set (file_contents ?src)" by simp
  from capture_stream_is_interned
         [of example_digest "''''" "''/src''" _ ?st ?src, THEN conjunct2, THEN conjunct1]
    d run m
  have posix: "length (filter (\<lambda>lte. hash lte = example_digest [1, 2]) ?t1) = 1"
    by fastforce
  let ?nst = "\<lparr>lookup_table = [], allocations_left = 10\<rparr>"
  let ?inode1 = "\<lparr>i_lte = Some [1, 2], i_reparse_tag = 0,
                  ads_entries = [(''stream'', Some [1, 2]), (''stream'', None)]\<rparr>"
  let ?t2 = "[new_lookup_table_entry
              \<lparr>ntfs_loc :=
                 Some \<lparr>path_utf8 = ''/file'', stream_name_utf16 = [],
                       stream_name_utf16_num_chars = 0, is_reparse_point = False\<rparr>,
               resource_location := RESOURCE_IN_NTFS_VOLUME,
               resource_entry :=
                 \<lparr>size_field = 2, flags = 0, offset_field = 0, original_size = 2\<rparr>,
               hash := [1, 2], refcnt := 2\<rparr>]"
  note nrun = example_ntfs_capture
  have n1: "i_lte example_wim_inode = None"
    by (simp add: example_wim_inode_def)
  have n2: "length (unnamed_streams AT_DATA (attributes example_ntfs_inode)) \<le> 1"
    by (simp add: unnamed_streams_def example_ntfs_inode_def)
  have n3: "length (ads_entries ?inode1) =
            length (ads_entries example_wim_inode) +
            length (named_streams AT_DATA (attributes example_ntfs_inode))"
    by (simp add: named_streams_def example_ntfs_inode_def example_wim_inode_def)
  have n4: "distinct (map hash (lookup_table ?nst))" by simp
  have hs: "stream_hashes example_digest AT_DATA (attributes example_ntfs_inode) =
            [[1, 2], [1, 2]]"
    by (simp add: stream_hashes_def stream_content_def example_ntfs_inode_def
        example_digest_def)
  from capture_stream_is_interned
         [of example_digest _ _ _ ?nst _ example_utf16_to_utf8 example_free example_wim_inode
            example_ntfs_inode "''/file''" AT_DATA,
          THEN conjunct2, THEN conjunct2, THEN conjunct1,
          THEN spec, THEN spec, THEN spec, of ?inode1 "\<lparr>lookup_table = ?t2, allocations_left = 5\<rparr>" "[]"]
    nrun n1 n2 n3 n4
  have "\<forall>h \<in> set (stream_hashes example_digest AT_DATA (attributes example_ntfs_inode)).
          length (filter (\<lambda>lte. hash lte = h) ?t2) = 1"
    by simp
  with hs have ntfs: "length (filter (\<lambda>lte. hash lte = [1, 2]) ?t2) = 1"
    by simp
  from run posix nrun hs ntfs show ?thesis by blast
qed

text \<open>
  Claim C6 as stated fails for an NTFS file whose unnamed data stream is empty: the
  hash of its content is not in the table, and capture inserts no entry for it.
\<close>

theorem empty_ntfs_stream_gets_no_entry:
  "capture_ntfs_streams example_digest example_utf16_to_utf8 example_free
     \<lparr>i_lte = None, i_reparse_tag = 0, ads_entries = []\<rparr>
     \<lparr>attr_search_ctx = True,
      attributes = [\<lparr>attr_type = AT_DATA, attr_name = [], attr_value = [],
                     value_length_errno = False, attr_readable = True\<rparr>]\<rparr>
     ''/empty'' \<lparr>lookup_table = [], allocations_left = 10\<rparr> AT_DATA =
   Inr (\<lparr>i_lte = None, i_reparse_tag = 0, ads_entries = []\<rparr>,
        \<lparr>lookup_table = [], allocations_left = 10\<rparr>, []) \<and>
   lookup_resource [] (example_digest []) = None \<and>
   \<not> insert_or_intern (example_digest []) [] []"
  by (simp add: capture_ntfs_streams_def stream_lookup_table_entry_def insert_or_intern_def
      lookup_resource_def)

section \<open>Properties of the Windows-specific XML information\<close>

text \<open>
  Four facts about every function that takes the context: it leaves \<open>debug_enabled\<close> as it
  is; when \<open>debug_enabled\<close> is not set, it adds none of the warnings of the \<open>XML_WARN\<close>
  calls; it only adds messages at the end; and when \<open>debug_enabled\<close> is set and every
  \<open>XML_WARN\<close> statement reached so far has printed its warning, that is so afterwards.
\<close>

lemma failed_to_set_not_xml_warning:
  "''Failed to set image property '' @ dq @ ''%s'' @ dq @ '' to value '' @ dq @ ''%s'' @ dq @
   '': %s'' \<notin> set xml_warn_formats"
  by (simp add: xml_warn_formats_def dq_def)

lemma XML_WARN_debug: "debug_enabled (XML_WARN ctx format args) = debug_enabled ctx"
  by (simp add: XML_WARN_def Let_def)

lemma XML_WARN_disabled:
  "\<not> debug_enabled ctx \<Longrightarrow> messages (XML_WARN ctx format args) = messages ctx"
  by (simp add: XML_WARN_def Let_def)

lemma set_string_property_debug:
  "debug_enabled (set_string_property lib ctx name value) = debug_enabled ctx"
  by (simp add: set_string_property_def split: sum.split)

lemma set_string_property_quiet:
  "filter is_xml_warning (messages (set_string_property lib ctx name value)) =
   filter is_xml_warning (messages ctx)"
  using failed_to_set_not_xml_warning
  by (simp add: set_string_property_def split: sum.split)

lemma check_hive_status_debug:
  "debug_enabled (snd (check_hive_status lib ctx status key value)) = debug_enabled ctx"
  by (simp add: check_hive_status_def XML_WARN_debug)

lemma check_hive_status_quiet:
  "\<not> debug_enabled ctx \<Longrightarrow>
   messages (snd (check_hive_status lib ctx status key value)) = messages ctx"
  by (simp add: check_hive_status_def XML_WARN_disabled)

lemma get_string_from_registry_debug:
  "debug_enabled (snd (get_string_from_registry lib ctx regf key value)) = debug_enabled ctx"
  by (simp add: get_string_from_registry_def case_prod_unfold check_hive_status_debug)

lemma get_string_from_registry_quiet:
  "\<not> debug_enabled ctx \<Longrightarrow>
   messages (snd (get_string_from_registry lib ctx regf key value)) = messages ctx"
  by (simp add: get_string_from_registry_def case_prod_unfold check_hive_status_quiet)

lemma get_number_from_registry_debug:
  "debug_enabled (snd (get_number_from_registry lib ctx regf key value)) = debug_enabled ctx"
  by (simp add: get_number_from_registry_def case_prod_unfold check_hive_status_debug)

lemma get_number_from_registry_quiet:
  "\<not> debug_enabled ctx \<Longrightarrow>
   messages (snd (get_number_from_registry lib ctx regf key value)) = messages ctx"
  by (simp add: get_number_from_registry_def case_prod_unfold check_hive_status_quiet)

lemma list_subkeys_in_registry_debug:
  "debug_enabled (snd (list_subkeys_in_registry lib ctx regf key)) = debug_enabled ctx"
  by (simp add: list_subkeys_in_registry_def case_prod_unfold check_hive_status_debug)

lemma list_subkeys_in_registry_quiet:
  "\<not> debug_enabled ctx \<Longrightarrow>
   messages (snd (list_subkeys_in_registry lib ctx regf key)) = messages ctx"
  by (simp add: list_subkeys_in_registry_def case_prod_unfold check_hive_status_quiet)

lemma copy_registry_string_debug:
  "debug_enabled (copy_registry_string lib ctx regf key value property) = debug_enabled ctx"
  by (simp add: copy_registry_string_def case_prod_unfold get_string_from_registry_debug
      set_string_property_debug split: option.split)

lemma copy_registry_string_quiet:
  "\<not> debug_enabled ctx \<Longrightarrow>
   filter is_xml_warning (messages (copy_registry_string lib ctx regf key value property)) =
   filter is_xml_warning (messages ctx)"
  by (simp add: copy_registry_string_def case_prod_unfold get_string_from_registry_quiet
      set_string_property_quiet split: option.split)

lemma set_info_from_kernel32_debug:
  "debug_enabled (set_info_from_kernel32 lib ctx contents0) = debug_enabled ctx"
  by (simp add: set_info_from_kernel32_def Let_def XML_WARN_debug set_number_property_def
      set_string_property_debug)

lemma set_info_from_kernel32_quiet:
  "\<not> debug_enabled ctx \<Longrightarrow>
   filter is_xml_warning (messages (set_info_from_kernel32 lib ctx contents0)) =
   filter is_xml_warning (messages ctx)"
  by (simp add: set_info_from_kernel32_def Let_def XML_WARN_disabled set_number_property_def
      set_string_property_quiet)

lemma set_languages_debug:
  "debug_enabled (set_languages lib ctx index subkeys) = debug_enabled ctx"
  by (induction subkeys arbitrary: ctx index) (simp_all add: set_string_property_debug)

lemma set_languages_quiet:
  "filter is_xml_warning (messages (set_languages lib ctx index subkeys)) =
   filter is_xml_warning (messages ctx)"
  by (induction subkeys arbitrary: ctx index) (simp_all add: set_string_property_quiet)

lemma set_default_language_debug:
  "debug_enabled (set_default_language lib ctx regf) = debug_enabled ctx"
  by (simp add: set_default_language_def case_prod_unfold get_string_from_registry_debug
      XML_WARN_debug set_string_property_debug split: option.split)

lemma set_default_language_quiet:
  "\<not> debug_enabled ctx \<Longrightarrow>
   filter is_xml_warning (messages (set_default_language lib ctx regf)) =
   filter is_xml_warning (messages ctx)"
  by (simp add: set_default_language_def case_prod_unfold get_string_from_registry_debug
      get_string_from_registry_quiet XML_WARN_disabled set_string_property_quiet
      split: option.split)

lemmas xml_debug =
  XML_WARN_debug set_string_property_debug check_hive_status_debug
  get_string_from_registry_debug get_number_from_registry_debug list_subkeys_in_registry_debug
  copy_registry_string_debug set_info_from_kernel32_debug set_languages_debug
  set_default_language_debug

lemmas xml_quiet =
  XML_WARN_disabled set_string_property_quiet check_hive_status_quiet
  get_string_from_registry_quiet get_number_from_registry_quiet list_subkeys_in_registry_quiet
  copy_registry_string_quiet set_info_from_kernel32_quiet set_languages_quiet
  set_default_language_quiet

lemma get_version_numbers_debug:
  "debug_enabled (snd (snd (get_version_numbers lib ctx regf))) = debug_enabled ctx"
  by (simp add: get_version_numbers_def Let_def case_prod_unfold xml_debug
      split: option.split list.split)

lemma get_version_numbers_quiet:
  "\<not> debug_enabled ctx \<Longrightarrow>
   messages (snd (snd (get_version_numbers lib ctx regf))) = messages ctx"
  by (simp add: get_version_numbers_def Let_def case_prod_unfold xml_debug xml_quiet
      split: option.split list.split)

lemma set_version_properties_debug:
  "debug_enabled (set_version_properties lib ctx major_version minor_version) =
   debug_enabled ctx"
  by (simp add: set_version_properties_def Let_def set_number_property_def xml_debug)

lemma set_version_properties_quiet:
  "filter is_xml_warning (messages (set_version_properties lib ctx major_version minor_version)) =
   filter is_xml_warning (messages ctx)"
  by (simp add: set_version_properties_def Let_def set_number_property_def xml_quiet)

lemma set_info_from_software_hive_debug:
  "debug_enabled (set_info_from_software_hive lib ctx regf) = debug_enabled ctx"
  by (simp add: set_info_from_software_hive_def Let_def case_prod_unfold xml_debug
      get_version_numbers_debug set_version_properties_debug)

lemma set_info_from_software_hive_quiet:
  "\<not> debug_enabled ctx \<Longrightarrow>
   filter is_xml_warning (messages (set_info_from_software_hive lib ctx regf)) =
   filter is_xml_warning (messages ctx)"
  by (simp add: set_info_from_software_hive_def Let_def case_prod_unfold xml_debug xml_quiet
      get_version_numbers_debug set_version_properties_debug
      get_version_numbers_quiet set_version_properties_quiet)

lemma set_info_from_system_hive_debug:
  "debug_enabled (set_info_from_system_hive lib ctx regf) = debug_enabled ctx"
  by (simp add: set_info_from_system_hive_def Let_def case_prod_unfold set_number_property_def
      xml_debug split: option.split)

lemma set_info_from_system_hive_quiet:
  "\<not> debug_enabled ctx \<Longrightarrow>
   filter is_xml_warning (messages (set_info_from_system_hive lib ctx regf)) =
   filter is_xml_warning (messages ctx)"
  by (simp add: set_info_from_system_hive_def Let_def case_prod_unfold set_number_property_def
      xml_debug xml_quiet split: option.split)

lemma load_file_contents_debug:
  "debug_enabled (snd (load_file_contents lib ctx path)) = debug_enabled ctx"
  by (simp add: load_file_contents_def xml_debug split: file_lookup.split)

lemma load_file_contents_quiet:
  "\<not> debug_enabled ctx \<Longrightarrow>
   messages (snd (load_file_contents lib ctx path)) = messages ctx"
  by (simp add: load_file_contents_def xml_quiet split: file_lookup.split)

lemma load_hive_debug:
  "debug_enabled (snd (load_hive lib ctx path)) = debug_enabled ctx"
  by (simp add: load_hive_def is_registry_valid_def case_prod_unfold xml_debug
      load_file_contents_debug split: option.split)

lemma load_hive_quiet:
  "\<not> debug_enabled ctx \<Longrightarrow>
   messages (snd (load_hive lib ctx path)) = messages ctx"
  by (simp add: load_hive_def is_registry_valid_def case_prod_unfold xml_debug xml_quiet
      load_file_contents_debug load_file_contents_quiet split: option.split)

lemma XML_WARN_mono:
  "prefix ms (messages ctx) \<Longrightarrow> prefix ms (messages (XML_WARN ctx format args))"
  by (simp add: XML_WARN_def Let_def)

lemma set_string_property_mono:
  "prefix ms (messages ctx) \<Longrightarrow> prefix ms (messages (set_string_property lib ctx name value))"
  by (simp add: set_string_property_def split: sum.split)

lemma check_hive_status_mono:
  "prefix ms (messages ctx) \<Longrightarrow>
   prefix ms (messages (snd (check_hive_status lib ctx status key value)))"
  by (simp add: check_hive_status_def XML_WARN_def Let_def)

lemma get_string_from_registry_mono:
  "prefix ms (messages ctx) \<Longrightarrow>
   prefix ms (messages (snd (get_string_from_registry lib ctx regf key value)))"
  by (simp add: get_string_from_registry_def case_prod_unfold check_hive_status_mono)

lemma get_number_from_registry_mono:
  "prefix ms (messages ctx) \<Longrightarrow>
   prefix ms (messages (snd (get_number_from_registry lib ctx regf key value)))"
  by (simp add: get_number_from_registry_def case_prod_unfold check_hive_status_mono)

lemma list_subkeys_in_registry_mono:
  "prefix ms (messages ctx) \<Longrightarrow>
   prefix ms (messages (snd (list_subkeys_in_registry lib ctx regf key)))"
  by (simp add: list_subkeys_in_registry_def case_prod_unfold check_hive_status_mono)

lemma copy_registry_string_mono:
  "prefix ms (messages ctx) \<Longrightarrow>
   prefix ms (messages (copy_registry_string lib ctx regf key value property))"
  by (simp add: copy_registry_string_def case_prod_unfold get_string_from_registry_mono
      set_string_property_mono split: option.split)

lemma set_info_from_kernel32_mono:
  "prefix ms (messages ctx) \<Longrightarrow>
   prefix ms (messages (set_info_from_kernel32 lib ctx contents0))"
  by (simp add: set_info_from_kernel32_def Let_def XML_WARN_mono set_number_property_def
      set_string_property_mono)

lemma set_languages_mono:
  "prefix ms (messages ctx) \<Longrightarrow>
   prefix ms (messages (set_languages lib ctx index subkeys))"
  by (induction subkeys arbitrary: ctx index) (simp_all add: set_string_property_mono)

lemma set_default_language_mono:
  "prefix ms (messages ctx) \<Longrightarrow>
   prefix ms (messages (set_default_language lib ctx regf))"
  by (simp add: set_default_language_def case_prod_unfold get_string_from_registry_mono
      XML_WARN_mono set_string_property_mono split: option.split)

lemmas xml_mono =
  XML_WARN_mono set_string_property_mono check_hive_status_mono
  get_string_from_registry_mono get_number_from_registry_mono list_subkeys_in_registry_mono
  copy_registry_string_mono set_info_from_kernel32_mono set_languages_mono
  set_default_language_mono

lemma get_version_numbers_mono:
  "prefix ms (messages ctx) \<Longrightarrow>
   prefix ms (messages (snd (snd (get_version_numbers lib ctx regf))))"
  by (simp add: get_version_numbers_def Let_def case_prod_unfold xml_mono
      split: option.split list.split)

lemma set_version_properties_mono:
  "prefix ms (messages ctx) \<Longrightarrow>
   prefix ms (messages (set_version_properties lib ctx major_version minor_version))"
  by (simp add: set_version_properties_def Let_def set_number_property_def xml_mono)

lemma set_info_from_software_hive_mono:
  "prefix ms (messages ctx) \<Longrightarrow>
   prefix ms (messages (set_info_from_software_hive lib ctx regf))"
  by (simp add: set_info_from_software_hive_def Let_def case_prod_unfold xml_mono
      get_version_numbers_mono set_version_properties_mono)

lemma set_info_from_system_hive_mono:
  "prefix ms (messages ctx) \<Longrightarrow>
   prefix ms (messages (set_info_from_system_hive lib ctx regf))"
  by (simp add: set_info_from_system_hive_def Let_def case_prod_unfold set_number_property_def
      xml_mono split: option.split)

lemma load_file_contents_mono:
  "prefix ms (messages ctx) \<Longrightarrow>
   prefix ms (messages (snd (load_file_contents lib ctx path)))"
  by (simp add: load_file_contents_def xml_mono split: file_lookup.split)

lemma load_hive_mono:
  "prefix ms (messages ctx) \<Longrightarrow> prefix ms (messages (snd (load_hive lib ctx path)))"
  by (simp add: load_hive_def is_registry_valid_def case_prod_unfold xml_mono
      load_file_contents_mono split: option.split)

lemma load_file_contents_not_found:
  "image_file lib path = FILE_NOT_FOUND \<Longrightarrow> debug_enabled ctx \<Longrightarrow>
   load_file_contents lib ctx path =
   (None, ctx\<lparr>xml_warn_reached :=
                  xml_warn_reached ctx @ [WARNING (xml_warn_formats ! 5) [ARG_STR path]],
                messages := messages ctx @ [WARNING (xml_warn_formats ! 5) [ARG_STR path]]\<rparr>)"
  by (simp add: load_file_contents_def XML_WARN_def Let_def)

lemma load_hive_not_found:
  "image_file lib path = FILE_NOT_FOUND \<Longrightarrow> debug_enabled ctx \<Longrightarrow>
   load_hive lib ctx path =
   (None, ctx\<lparr>xml_warn_reached :=
                  xml_warn_reached ctx @ [WARNING (xml_warn_formats ! 5) [ARG_STR path]],
                messages := messages ctx @ [WARNING (xml_warn_formats ! 5) [ARG_STR path]]\<rparr>)"
  by (simp add: load_hive_def load_file_contents_not_found)

text \<open>The three steps of \<open>set_windows_specific_info\<close>, one for each file.\<close>

lemma kernel32_step_debug:
  "debug_enabled (case load_file_contents lib ctx kernel32_dll_path of
                    (Some contents0, c) \<Rightarrow>
                      set_info_from_kernel32 lib
                        (set_string_property lib c ''WINDOWS/SYSTEMROOT'' ''WINDOWS'') contents0
                  | (None, c) \<Rightarrow> c) = debug_enabled ctx"
  by (simp add: case_prod_unfold xml_debug load_file_contents_debug split: option.split)

lemma kernel32_step_quiet:
  "\<not> debug_enabled ctx \<Longrightarrow>
   filter is_xml_warning (messages (case load_file_contents lib ctx kernel32_dll_path of
                    (Some contents0, c) \<Rightarrow>
                      set_info_from_kernel32 lib
                        (set_string_property lib c ''WINDOWS/SYSTEMROOT'' ''WINDOWS'') contents0
                  | (None, c) \<Rightarrow> c)) = filter is_xml_warning (messages ctx)"
  by (simp add: case_prod_unfold xml_debug xml_quiet load_file_contents_debug
      load_file_contents_quiet split: option.split)

lemma kernel32_step_mono:
  "prefix ms (messages ctx) \<Longrightarrow>
   prefix ms (messages (case load_file_contents lib ctx kernel32_dll_path of
                    (Some contents0, c) \<Rightarrow>
                      set_info_from_kernel32 lib
                        (set_string_property lib c ''WINDOWS/SYSTEMROOT'' ''WINDOWS'') contents0
                  | (None, c) \<Rightarrow> c))"
  by (simp add: case_prod_unfold xml_mono load_file_contents_mono split: option.split)

lemma software_step_debug:
  "debug_enabled (case load_hive lib ctx path of
                    (Some contents0, c) \<Rightarrow> set_info_from_software_hive lib c contents0
                  | (None, c) \<Rightarrow> c) = debug_enabled ctx"
  by (simp add: case_prod_unfold load_hive_debug set_info_from_software_hive_debug
      split: option.split)

lemma software_step_quiet:
  "\<not> debug_enabled ctx \<Longrightarrow>
   filter is_xml_warning (messages (case load_hive lib ctx path of
                    (Some contents0, c) \<Rightarrow> set_info_from_software_hive lib c contents0
                  | (None, c) \<Rightarrow> c)) = filter is_xml_warning (messages ctx)"
  by (simp add: case_prod_unfold load_hive_debug load_hive_quiet
      set_info_from_software_hive_quiet split: option.split)

lemma software_step_mono:
  "prefix ms (messages ctx) \<Longrightarrow>
   prefix ms (messages (case load_hive lib ctx path of
                    (Some contents0, c) \<Rightarrow> set_info_from_software_hive lib c contents0
                  | (None, c) \<Rightarrow> c))"
  by (simp add: case_prod_unfold load_hive_mono set_info_from_software_hive_mono
      split: option.split)

lemma system_step_debug:
  "debug_enabled (case load_hive lib ctx path of
                    (Some contents0, c) \<Rightarrow> set_info_from_system_hive lib c contents0
                  | (None, c) \<Rightarrow> c) = debug_enabled ctx"
  by (simp add: case_prod_unfold load_hive_debug set_info_from_system_hive_debug
      split: option.split)

lemma system_step_quiet:
  "\<not> debug_enabled ctx \<Longrightarrow>
   filter is_xml_warning (messages (case load_hive lib ctx path of
                    (Some contents0, c) \<Rightarrow> set_info_from_system_hive lib c contents0
                  | (None, c) \<Rightarrow> c)) = filter is_xml_warning (messages ctx)"
  by (simp add: case_prod_unfold load_hive_debug load_hive_quiet
      set_info_from_system_hive_quiet split: option.split)

lemma system_step_mono:
  "prefix ms (messages ctx) \<Longrightarrow>
   prefix ms (messages (case load_hive lib ctx path of
                    (Some contents0, c) \<Rightarrow> set_info_from_system_hive lib c contents0
                  | (None, c) \<Rightarrow> c))"
  by (simp add: case_prod_unfold load_hive_mono set_info_from_system_hive_mono
      split: option.split)

lemma set_windows_specific_info_debug:
  "debug_enabled (snd (set_windows_specific_info lib properties0)) =
   (tgetenv lib ''WIMLIB_DEBUG_XML_INFO'' \<noteq> None)"
  unfolding set_windows_specific_info_def Let_def
  by (simp add: kernel32_step_debug software_step_debug system_step_debug)

lemma set_windows_specific_info_quiet:
  "tgetenv lib ''WIMLIB_DEBUG_XML_INFO'' = None \<Longrightarrow>
   filter is_xml_warning (messages (snd (set_windows_specific_info lib properties0))) = []"
  unfolding set_windows_specific_info_def Let_def
  by (simp add: kernel32_step_debug software_step_debug system_step_debug
      kernel32_step_quiet software_step_quiet system_step_quiet)

lemma length_xml_warn_formats: "length xml_warn_formats = 9"
  by (simp add: xml_warn_formats_def)

lemma xml_warn_format_is_xml_warning:
  "format < 9 \<Longrightarrow> xml_warn_formats ! format \<in> set xml_warn_formats"
  using nth_mem [of format xml_warn_formats] by (simp add: length_xml_warn_formats)

lemma reached_are_printed_oom:
  "reached_are_printed (ctx\<lparr>oom_encountered := b\<rparr>) = reached_are_printed ctx"
  by (simp add: reached_are_printed_def)

lemma XML_WARN_reached:
  "format < 9 \<Longrightarrow> debug_enabled ctx \<Longrightarrow> reached_are_printed ctx \<Longrightarrow>
   reached_are_printed (XML_WARN ctx format args)"
  by (simp add: XML_WARN_def Let_def reached_are_printed_def xml_warn_format_is_xml_warning)

lemma set_string_property_reached:
  "reached_are_printed ctx \<Longrightarrow> reached_are_printed (set_string_property lib ctx name value)"
  using failed_to_set_not_xml_warning
  by (simp add: set_string_property_def reached_are_printed_def split: sum.split)

lemma check_hive_status_reached:
  "debug_enabled ctx \<Longrightarrow> reached_are_printed ctx \<Longrightarrow>
   reached_are_printed (snd (check_hive_status lib ctx status key value))"
  by (simp add: check_hive_status_def XML_WARN_reached reached_are_printed_oom)

lemma get_string_from_registry_reached:
  "debug_enabled ctx \<Longrightarrow> reached_are_printed ctx \<Longrightarrow>
   reached_are_printed (snd (get_string_from_registry lib ctx regf key value))"
  by (simp add: get_string_from_registry_def case_prod_unfold check_hive_status_reached)

lemma get_number_from_registry_reached:
  "debug_enabled ctx \<Longrightarrow> reached_are_printed ctx \<Longrightarrow>
   reached_are_printed (snd (get_number_from_registry lib ctx regf key value))"
  by (simp add: get_number_from_registry_def case_prod_unfold check_hive_status_reached)

lemma list_subkeys_in_registry_reached:
  "debug_enabled ctx \<Longrightarrow> reached_are_printed ctx \<Longrightarrow>
   reached_are_printed (snd (list_subkeys_in_registry lib ctx regf key))"
  by (simp add: list_subkeys_in_registry_def case_prod_unfold check_hive_status_reached)

lemma copy_registry_string_reached:
  "debug_enabled ctx \<Longrightarrow> reached_are_printed ctx \<Longrightarrow>
   reached_are_printed (copy_registry_string lib ctx regf key value property)"
  by (simp add: copy_registry_string_def case_prod_unfold get_string_from_registry_reached
      set_string_property_reached split: option.split)

lemma set_info_from_kernel32_reached:
  "debug_enabled ctx \<Longrightarrow> reached_are_printed ctx \<Longrightarrow>
   reached_are_printed (set_info_from_kernel32 lib ctx contents0)"
  by (simp add: set_info_from_kernel32_def Let_def XML_WARN_reached set_number_property_def
      set_string_property_reached)

lemma set_languages_reached:
  "reached_are_printed ctx \<Longrightarrow> reached_are_printed (set_languages lib ctx index subkeys)"
  by (induction subkeys arbitrary: ctx index) (simp_all add: set_string_property_reached)

lemma set_default_language_reached:
  "debug_enabled ctx \<Longrightarrow> reached_are_printed ctx \<Longrightarrow>
   reached_are_printed (set_default_language lib ctx regf)"
  by (simp add: set_default_language_def case_prod_unfold get_string_from_registry_debug
      get_string_from_registry_reached XML_WARN_reached set_string_property_reached
      split: option.split)

lemmas xml_reached =
  XML_WARN_reached set_string_property_reached check_hive_status_reached
  get_string_from_registry_reached get_number_from_registry_reached
  list_subkeys_in_registry_reached copy_registry_string_reached set_info_from_kernel32_reached
  set_languages_reached set_default_language_reached reached_are_printed_oom

lemma get_version_numbers_reached:
  "debug_enabled ctx \<Longrightarrow> reached_are_printed ctx \<Longrightarrow>
   reached_are_printed (snd (snd (get_version_numbers lib ctx regf)))"
  by (simp add: get_version_numbers_def Let_def case_prod_unfold xml_debug xml_reached
      split: option.split list.split)

lemma set_version_properties_reached:
  "reached_are_printed ctx \<Longrightarrow>
   reached_are_printed (set_version_properties lib ctx major_version minor_version)"
  by (simp add: set_version_properties_def Let_def set_number_property_def xml_reached)

lemma set_info_from_software_hive_reached:
  "debug_enabled ctx \<Longrightarrow> reached_are_printed ctx \<Longrightarrow>
   reached_are_printed (set_info_from_software_hive lib ctx regf)"
  by (simp add: set_info_from_software_hive_def Let_def case_prod_unfold xml_debug xml_reached
      get_version_numbers_debug set_version_properties_debug
      get_version_numbers_reached set_version_properties_reached)

lemma set_info_from_system_hive_reached:
  "debug_enabled ctx \<Longrightarrow> reached_are_printed ctx \<Longrightarrow>
   reached_are_printed (set_info_from_system_hive lib ctx regf)"
  by (simp add: set_info_from_system_hive_def Let_def case_prod_unfold set_number_property_def
      xml_debug xml_reached split: option.split)

lemma load_file_contents_reached:
  "debug_enabled ctx \<Longrightarrow> reached_are_printed ctx \<Longrightarrow>
   reached_are_printed (snd (load_file_contents lib ctx path))"
  by (simp add: load_file_contents_def xml_reached split: file_lookup.split)

lemma load_hive_reached:
  "debug_enabled ctx \<Longrightarrow> reached_are_printed ctx \<Longrightarrow>
   reached_are_printed (snd (load_hive lib ctx path))"
  by (simp add: load_hive_def is_registry_valid_def case_prod_unfold xml_debug xml_reached
      load_file_contents_debug load_file_contents_reached split: option.split)

lemma kernel32_step_reached:
  "debug_enabled ctx \<Longrightarrow> reached_are_printed ctx \<Longrightarrow>
   reached_are_printed (case load_file_contents lib ctx kernel32_dll_path of
                    (Some contents0, c) \<Rightarrow>
                      set_info_from_kernel32 lib
                        (set_string_property lib c ''WINDOWS/SYSTEMROOT'' ''WINDOWS'') contents0
                  | (None, c) \<Rightarrow> c)"
  by (simp add: case_prod_unfold xml_debug xml_reached load_file_contents_debug
      load_file_contents_reached split: option.split)

lemma software_step_reached:
  "debug_enabled ctx \<Longrightarrow> reached_are_printed ctx \<Longrightarrow>
   reached_are_printed (case load_hive lib ctx path of
                    (Some contents0, c) \<Rightarrow> set_info_from_software_hive lib c contents0
                  | (None, c) \<Rightarrow> c)"
  by (simp add: case_prod_unfold load_hive_debug load_hive_reached
      set_info_from_software_hive_reached split: option.split)

lemma system_step_reached:
  "debug_enabled ctx \<Longrightarrow> reached_are_printed ctx \<Longrightarrow>
   reached_are_printed (case load_hive lib ctx path of
                    (Some contents0, c) \<Rightarrow> set_info_from_system_hive lib c contents0
                  | (None, c) \<Rightarrow> c)"
  by (simp add: case_prod_unfold load_hive_debug load_hive_reached
      set_info_from_system_hive_reached split: option.split)

lemma reached_are_printed_error:
  "reached_are_printed (ctx\<lparr>messages := messages ctx @ [ERROR format args]\<rparr>) =
   reached_are_printed ctx"
  by (simp add: reached_are_printed_def)

lemma set_windows_specific_info_reached:
  assumes env: "tgetenv lib ''WIMLIB_DEBUG_XML_INFO'' \<noteq> None"
  shows "reached_are_printed (snd (set_windows_specific_info lib properties0))"
proof -
  have r0: "reached_are_printed
              \<lparr>properties = properties0, oom_encountered = False, debug_enabled = True,
               messages = [], xml_warn_reached = []\<rparr>"
    by (simp add: reached_are_printed_def)
  show ?thesis
    using env unfolding set_windows_specific_info_def Let_def
    by (simp add: kernel32_step_debug software_step_debug system_step_debug
        kernel32_step_reached software_step_reached system_step_reached
        reached_are_printed_error r0)
qed

lemma set_windows_specific_info_not_found:
  assumes env: "tgetenv lib ''WIMLIB_DEBUG_XML_INFO'' \<noteq> None"
    and path: "path \<in> {kernel32_dll_path, software_hive_path, system_hive_path}"
    and nf: "image_file lib path = FILE_NOT_FOUND"
  shows "WARNING (xml_warn_formats ! 5) [ARG_STR path] \<in>
         set (messages (snd (set_windows_specific_info lib properties0)))"
proof -
  define ctx0 where
    "ctx0 = \<lparr>properties = properties0, oom_encountered = False,
            debug_enabled = (tgetenv lib ''WIMLIB_DEBUG_XML_INFO'' \<noteq> None), messages = [],
            xml_warn_reached = []\<rparr>"
  define ctx1 where
    "ctx1 = (case load_file_contents lib ctx0 kernel32_dll_path of
               (Some contents0, c) \<Rightarrow>
                 set_info_from_kernel32 lib
                   (set_string_property lib c ''WINDOWS/SYSTEMROOT'' ''WINDOWS'') contents0
             | (None, c) \<Rightarrow> c)"
  define ctx2 where
    "ctx2 = (case load_hive lib ctx1 software_hive_path of
               (Some contents0, c) \<Rightarrow> set_info_from_software_hive lib c contents0
             | (None, c) \<Rightarrow> c)"
  define ctx3 where
    "ctx3 = (case load_hive lib ctx2 system_hive_path of
               (Some contents0, c) \<Rightarrow> set_info_from_system_hive lib c contents0
             | (None, c) \<Rightarrow> c)"
  let ?w = "WARNING (xml_warn_formats ! 5) [ARG_STR path]"
  have run: "prefix (messages ctx3) (messages (snd (set_windows_specific_info lib properties0)))"
    by (simp add: set_windows_specific_info_def Let_def ctx3_def ctx2_def ctx1_def ctx0_def)
  have d0: "debug_enabled ctx0"
    using env by (simp add: ctx0_def)
  have d1: "debug_enabled ctx1"
    using d0 by (simp add: ctx1_def kernel32_step_debug)
  have d2: "debug_enabled ctx2"
    using d1 by (simp add: ctx2_def software_step_debug)
  have m2: "prefix ms (messages ctx1) \<Longrightarrow> prefix ms (messages ctx2)" for ms
    by (simp add: ctx2_def software_step_mono)
  have m3: "prefix ms (messages ctx2) \<Longrightarrow> prefix ms (messages ctx3)" for ms
    by (simp add: ctx3_def system_step_mono)
  have "prefix [?w] (messages ctx1) \<or> prefix (messages ctx1 @ [?w]) (messages ctx2) \<or>
        prefix (messages ctx2 @ [?w]) (messages ctx3)"
  proof -
    consider "path = kernel32_dll_path" | "path = software_hive_path"
      | "path = system_hive_path"
      using path by blast
    then show ?thesis
    proof cases
      case 1
      then show ?thesis
        using nf d0 by (simp add: ctx1_def load_file_contents_not_found ctx0_def)
    next
      case 2
      then show ?thesis
        using nf d1 by (simp add: ctx2_def load_hive_not_found)
    next
      case 3
      then show ?thesis
        using nf d2 by (simp add: ctx3_def load_hive_not_found)
    qed
  qed
  then have "prefix [?w] (messages ctx3) \<or> prefix (messages ctx1 @ [?w]) (messages ctx3) \<or>
             prefix (messages ctx2 @ [?w]) (messages ctx3)"
    using m2 m3 by blast
  then have "?w \<in> set (messages ctx3)"
    using set_mono_prefix by fastforce
  then show ?thesis
    using set_mono_prefix [OF run] by blast
qed


lemma XML_WARN_records:
  "xml_warn_reached (XML_WARN ctx format args) =
   xml_warn_reached ctx @ [WARNING (xml_warn_formats ! format) args]"
  by (simp add: XML_WARN_def Let_def)

lemma XML_WARN_prints:
  "messages (XML_WARN ctx format args) =
   (if debug_enabled ctx then messages ctx @ [WARNING (xml_warn_formats ! format) args]
    else messages ctx)"
  by (simp add: XML_WARN_def Let_def)

lemmas xml_run_eval =
  set_windows_specific_info_def Let_def load_hive_def load_file_contents_def
  is_registry_valid_def check_hive_status_def null_or_def XML_WARN_def set_string_property_def
  set_info_from_kernel32_def example_xml_library_def example_unexpected_library_def
  unexpected_files_def no_file_def env_debug_xml_info_def env_wimlib_debug_xml_info_def
  kernel32_dll_path_def software_hive_path_def system_hive_path_def

text \<open>
  The image without the files with \<open>WIMLIB_DEBUG_XML_INFO\<close> set: one warning for each
  file. The image with the unexpected files: four warnings, of four \<open>XML_WARN\<close> statements.
\<close>

lemma example_run_debug:
  "messages (snd (set_windows_specific_info (example_xml_library env_wimlib_debug_xml_info) [])) =
   [WARNING (xml_warn_formats ! 5) [ARG_STR kernel32_dll_path],
    WARNING (xml_warn_formats ! 5) [ARG_STR software_hive_path],
    WARNING (xml_warn_formats ! 5) [ARG_STR system_hive_path]]"
  by (simp add: xml_run_eval)

lemma example_unexpected_run:
  "set_windows_specific_info example_unexpected_library [] =
   (None,
    \<lparr>properties = [(''WINDOWS/SYSTEMROOT'', ''WINDOWS'')], oom_encountered = False,
     debug_enabled = True,
     messages =
       [WARNING (xml_warn_formats ! 2) [],
        WARNING (xml_warn_formats ! 6) [ARG_STR software_hive_path],
        WARNING (xml_warn_formats ! 0) [ARG_STR ''status'', ARG_STR ''(null)'', ARG_STR ''(null)''],
        WARNING (xml_warn_formats ! 8) [ARG_STR system_hive_path]],
     xml_warn_reached =
       [WARNING (xml_warn_formats ! 2) [],
        WARNING (xml_warn_formats ! 6) [ARG_STR software_hive_path],
        WARNING (xml_warn_formats ! 0) [ARG_STR ''status'', ARG_STR ''(null)'', ARG_STR ''(null)''],
        WARNING (xml_warn_formats ! 8) [ARG_STR system_hive_path]]\<rparr>)"
  by (simp add: xml_run_eval)

text \<open>
  Claim C9, as amended. The flag \<open>debug_enabled\<close> of a call of \<open>set_windows_specific_info\<close>
  is set exactly when the environment variable \<open>WIMLIB_DEBUG_XML_INFO\<close> is set. When that
  variable is absent, the call prints none of the warnings of the \<open>XML_WARN\<close> statements
  (the warnings about unexpected contents of the registry or of a file). When it is set,
  every \<open>XML_WARN\<close> statement that the call reaches prints its warning: the warnings of
  that kind among the messages are those of the statements reached, in the same order. An
  \<open>XML_WARN\<close> statement is recorded as reached whatever the flag is, and prints exactly
  when the flag is set. So, with the variable set, a file of the three that is not found
  in the image has its warning among the messages.
\<close>

theorem xml_warnings_gated_by_wimlib_debug_xml_info:
  "debug_enabled (snd (set_windows_specific_info lib properties0)) =
     (tgetenv lib ''WIMLIB_DEBUG_XML_INFO'' \<noteq> None) \<and>
   (tgetenv lib ''WIMLIB_DEBUG_XML_INFO'' = None \<longrightarrow>
      filter is_xml_warning (messages (snd (set_windows_specific_info lib properties0))) = []) \<and>
   (tgetenv lib ''WIMLIB_DEBUG_XML_INFO'' \<noteq> None \<longrightarrow>
      filter is_xml_warning (messages (snd (set_windows_specific_info lib properties0))) =
      xml_warn_reached (snd (set_windows_specific_info lib properties0))) \<and>
   xml_warn_reached (XML_WARN ctx format args) =
     xml_warn_reached ctx @ [WARNING (xml_warn_formats ! format) args] \<and>
   messages (XML_WARN ctx format args) =
     (if debug_enabled ctx then messages ctx @ [WARNING (xml_warn_formats ! format) args]
      else messages ctx) \<and>
   (tgetenv lib ''WIMLIB_DEBUG_XML_INFO'' \<noteq> None \<and>
    path \<in> {kernel32_dll_path, software_hive_path, system_hive_path} \<and>
    image_file lib path = FILE_NOT_FOUND \<longrightarrow>
      WARNING (xml_warn_formats ! 5) [ARG_STR path] \<in>
        set (messages (snd (set_windows_specific_info lib properties0))) \<and>
      is_xml_warning (WARNING (xml_warn_formats ! 5) [ARG_STR path]))"
proof -
  have "is_xml_warning (WARNING (xml_warn_formats ! 5) [ARG_STR path])"
    by (simp add: xml_warn_format_is_xml_warning)
  moreover have "tgetenv lib ''WIMLIB_DEBUG_XML_INFO'' \<noteq> None \<longrightarrow>
      filter is_xml_warning (messages (snd (set_windows_specific_info lib properties0))) =
      xml_warn_reached (snd (set_windows_specific_info lib properties0))"
    using set_windows_specific_info_reached [of lib properties0]
    by (simp add: reached_are_printed_def)
  ultimately show ?thesis
    using set_windows_specific_info_debug [of lib properties0]
      set_windows_specific_info_quiet [of lib properties0]
      set_windows_specific_info_not_found [of lib path properties0]
      XML_WARN_records [of ctx format args] XML_WARN_prints [of ctx format args]
    by blast
qed

text \<open>
  The theorem at an image without the three files and with only \<open>DEBUG_XML_INFO\<close> in the
  environment, where none of the warnings is printed; at an image with unexpected files
  and \<open>WIMLIB_DEBUG_XML_INFO\<close> set, where the four \<open>XML_WARN\<close> statements reached print
  their warnings; and at the image without the files with \<open>WIMLIB_DEBUG_XML_INFO\<close> set.
\<close>

theorem xml_warnings_gated_by_wimlib_debug_xml_info_witness:
  "tgetenv (example_xml_library env_debug_xml_info) ''WIMLIB_DEBUG_XML_INFO'' = None \<and>
   filter is_xml_warning
     (messages (snd (set_windows_specific_info (example_xml_library env_debug_xml_info) []))) =
   [] \<and>
   tgetenv example_unexpected_library ''WIMLIB_DEBUG_XML_INFO'' \<noteq> None \<and>
   filter is_xml_warning (messages (snd (set_windows_specific_info example_unexpected_library []))) =
   [WARNING (xml_warn_formats ! 2) [],
    WARNING (xml_warn_formats ! 6) [ARG_STR software_hive_path],
    WARNING (xml_warn_formats ! 0) [ARG_STR ''status'', ARG_STR ''(null)'', ARG_STR ''(null)''],
    WARNING (xml_warn_formats ! 8) [ARG_STR system_hive_path]] \<and>
   tgetenv (example_xml_library env_wimlib_debug_xml_info) ''WIMLIB_DEBUG_XML_INFO'' \<noteq> None \<and>
   image_file (example_xml_library env_wimlib_debug_xml_info) software_hive_path =
     FILE_NOT_FOUND \<and>
   WARNING (xml_warn_formats ! 5) [ARG_STR software_hive_path] \<in>
     set (messages
            (snd (set_windows_specific_info (example_xml_library env_wimlib_debug_xml_info) [])))"
proof -
  have u: "tgetenv (example_xml_library env_debug_xml_info) ''WIMLIB_DEBUG_XML_INFO'' = None"
    by (simp add: example_xml_library_def env_debug_xml_info_def)
  have s: "tgetenv example_unexpected_library ''WIMLIB_DEBUG_XML_INFO'' \<noteq> None"
    by (simp add: example_unexpected_library_def example_xml_library_def
        env_wimlib_debug_xml_info_def)
  have n: "tgetenv (example_xml_library env_wimlib_debug_xml_info) ''WIMLIB_DEBUG_XML_INFO'' \<noteq>
           None"
    "image_file (example_xml_library env_wimlib_debug_xml_info) software_hive_path =
     FILE_NOT_FOUND"
    by (simp_all add: example_xml_library_def env_wimlib_debug_xml_info_def no_file_def)
  have r: "xml_warn_reached (snd (set_windows_specific_info example_unexpected_library [])) =
   [WARNING (xml_warn_formats ! 2) [],
    WARNING (xml_warn_formats ! 6) [ARG_STR software_hive_path],
    WARNING (xml_warn_formats ! 0) [ARG_STR ''status'', ARG_STR ''(null)'', ARG_STR ''(null)''],
    WARNING (xml_warn_formats ! 8) [ARG_STR system_hive_path]]"
    by (simp add: example_unexpected_run)
  from xml_warnings_gated_by_wimlib_debug_xml_info
         [of "example_xml_library env_debug_xml_info" "[]" _ _ _ software_hive_path] u
  have 1: "filter is_xml_warning
     (messages (snd (set_windows_specific_info (example_xml_library env_debug_xml_info) []))) =
   []"
    by blast
  from xml_warnings_gated_by_wimlib_debug_xml_info
         [of example_unexpected_library "[]" _ _ _ software_hive_path] s r
  have 2: "filter is_xml_warning
             (messages (snd (set_windows_specific_info example_unexpected_library []))) =
   [WARNING (xml_warn_formats ! 2) [],
    WARNING (xml_warn_formats ! 6) [ARG_STR software_hive_path],
    WARNING (xml_warn_formats ! 0) [ARG_STR ''status'', ARG_STR ''(null)'', ARG_STR ''(null)''],
    WARNING (xml_warn_formats ! 8) [ARG_STR system_hive_path]]"
    by simp
  from xml_warnings_gated_by_wimlib_debug_xml_info
         [of "example_xml_library env_wimlib_debug_xml_info" "[]" _ _ _ software_hive_path] n
  have 3: "WARNING (xml_warn_formats ! 5) [ARG_STR software_hive_path] \<in>
     set (messages
            (snd (set_windows_specific_info (example_xml_library env_wimlib_debug_xml_info) [])))"
    by blast
  from u s n 1 2 3 show ?thesis by blast
qed

text \<open>
  Claim C9 as stated fails: with \<open>DEBUG_XML_INFO\<close> set in the environment, and nothing
  else, and an image where \<open>kernel32.dll\<close> is not found, the call prints no message at all.
\<close>

theorem debug_xml_info_alone_enables_no_warning:
  "env_debug_xml_info ''DEBUG_XML_INFO'' = Some ''1'' \<and>
   image_file (example_xml_library env_debug_xml_info) kernel32_dll_path = FILE_NOT_FOUND \<and>
   messages (snd (set_windows_specific_info (example_xml_library env_debug_xml_info) [])) = []"
  by (simp add: xml_run_eval)

end
